theory Spec2Isabelle
  imports Main "HOL-Library.Sublist"
begin

section \<open>Data model\<close>

text \<open>
  The rows of the three entity tables, field for field as \<^verbatim>\<open>projectSchema\<close>,
  \<^verbatim>\<open>folderSchema\<close> and \<^verbatim>\<open>fileMetadataSchema\<close> declare them. Identifiers are
  strings. A timestamp is the instant that \<^verbatim>\<open>new Date().toISOString()\<close> renders,
  counted in milliseconds; a nullable column is an \<open>option\<close>.
\<close>

record project =
  p_id :: string
  p_user_id :: string
  p_title :: string
  p_description :: "string option"
  p_root_drive_id :: "string option"
  p_status :: string
  p_is_deleted :: bool
  p_deleted_at :: "nat option"
  p_created_at :: nat
  p_updated_at :: nat

record folder =
  fo_id :: string
  fo_project_id :: string
  fo_parent_id :: "string option"
  fo_drive_folder_id :: string
  fo_folder_name :: string
  fo_sort_order :: int
  fo_is_deleted :: bool
  fo_deleted_at :: "nat option"
  fo_created_at :: nat
  fo_updated_at :: nat

record file_metadata =
  fi_id :: string
  fi_project_id :: string
  fi_folder_id :: "string option"
  fi_drive_file_id :: string
  fi_file_name :: string
  fi_mime_type :: string
  fi_size_bytes :: "int option"
  fi_checksum :: "string option"
  fi_web_view_link :: "string option"
  fi_is_deleted :: bool
  fi_deleted_at :: "nat option"
  fi_created_at :: nat
  fi_updated_at :: nat

text \<open>
  The credential pair that \<^verbatim>\<open>storage.getProviderToken\<close> returns. Either field can
  be \<^verbatim>\<open>undefined\<close> at run time.
\<close>

record provider_tokens =
  token :: "string option"
  refreshToken :: "string option"

text \<open>JavaScript truthiness of a possibly missing string: present and not empty.\<close>

definition truthy :: "string option \<Rightarrow> bool" where
  "truthy v = (case v of None \<Rightarrow> False | Some s \<Rightarrow> s \<noteq> [])"

section \<open>The outside world\<close>

text \<open>
  Every HTTP exchange with the storage provider is recorded as the request that was sent.
  \<^verbatim>\<open>deleteFile\<close> and \<^verbatim>\<open>permanentDeleteFile\<close> send the same request.
\<close>

datatype drive_request =
    CreateFolderReq string string "string option"
  | DeleteReq string string
  | PatchTrashedReq string string bool
  | AboutReq string
  | RefreshReq string string string

text \<open>
  What \<^verbatim>\<open>fetch\<close> gives back: a response with its status and body, or a rejected
  promise. Of a JSON body only the one field that the caller reads is kept (\<^verbatim>\<open>id\<close>
  of a created folder, \<^verbatim>\<open>access_token\<close> of a refresh); \<open>NotJson\<close> is a body on
  which \<^verbatim>\<open>response.json()\<close> throws.
\<close>

datatype http_body = NotJson | JsonObj "string option"

datatype http_outcome = Response nat http_body | FetchRejected

text \<open>
  What is thrown: a rejected \<^verbatim>\<open>fetch\<close>, a body that does not parse, the
  \<^verbatim>\<open>Error\<close> that the storage client builds (with the fixed part of its message), the
  error object of the store.
\<close>

datatype exn =
    FetchError
  | JsonError
  | DriveError string
  | StoreError

text \<open>
  The claims of a decoded token that the middleware reads, at the types a JWT gives them:
  the subject and the e-mail address are strings, the expiry is a number of seconds.
\<close>

record jwt_payload =
  jwt_sub :: "string option"
  jwt_exp :: "int option"
  jwt_email :: "string option"

text \<open>
  The environment fixes what the outside answers: the outcome of the n-th exchange with
  the provider, whether the n-th call of the store returns an error, the n-th reading of
  the clock (milliseconds), the identifier the store generates for a row inserted by its
  n-th call, the process environment variables, the library decoding of a JWT payload
  segment (base64 decoding followed by \<^verbatim>\<open>JSON.parse\<close>), and the library rendering
  of the calendar year of an instant (\<^verbatim>\<open>getFullYear().toString()\<close>).
\<close>


record env =
  net :: "nat \<Rightarrow> http_outcome"
  db_error :: "nat \<Rightarrow> bool"
  clock :: "nat \<Rightarrow> nat"
  new_uuid :: "nat \<Rightarrow> string"
  isProduction :: bool
  GOOGLE_CLIENT_ID :: "string option"
  GOOGLE_CLIENT_SECRET :: "string option"
  json_of_base64 :: "string \<Rightarrow> jwt_payload option"
  year_string :: "nat \<Rightarrow> string"

text \<open>
  The state that the server reads and writes: the three entity tables, the table of drive
  connections (per user the credential pair that \<^verbatim>\<open>storeTokens\<close> encrypted; decrypting
  with the same key gives it back), the in-memory credential cache, the requests sent to
  the provider so far, the numbers of store calls and clock readings so far, and the
  exceptions reported with \<^verbatim>\<open>console.error\<close>, each with the message it is reported
  under (informational output and diagnostics that carry no exception are not kept).
\<close>

record world =
  projects :: "project list"
  folders :: "folder list"
  files :: "file_metadata list"
  drive_connections :: "string \<Rightarrow> provider_tokens option"
  providerTokensCache :: "string \<Rightarrow> provider_tokens option"
  trace :: "drive_request list"
  db_calls :: nat
  clock_reads :: nat
  errlog :: "(string \<times> exn) list"

definition fetch :: "env \<Rightarrow> drive_request \<Rightarrow> world \<Rightarrow> http_outcome \<times> world" where
  "fetch e rq w = (net e (length (trace w)), w\<lparr>trace := trace w @ [rq]\<rparr>)"

definition console_error :: "string \<Rightarrow> exn \<Rightarrow> world \<Rightarrow> world" where
  "console_error msg x w = w\<lparr>errlog := errlog w @ [(msg, x)]\<rparr>"

definition read_clock :: "env \<Rightarrow> world \<Rightarrow> nat \<times> world" where
  "read_clock e w = (clock e (clock_reads w), w\<lparr>clock_reads := Suc (clock_reads w)\<rparr>)"

definition store_call :: "env \<Rightarrow> world \<Rightarrow> bool \<times> world" where
  "store_call e w = (db_error e (db_calls w), w\<lparr>db_calls := Suc (db_calls w)\<rparr>)"

text \<open>
  \<^verbatim>\<open>.single()\<close> of the store client: the one row of the result, and an error (here
  \<open>None\<close>) when the result has no row or several.
\<close>

definition single :: "'a list \<Rightarrow> 'a option" where
  "single rows = (case rows of [r] \<Rightarrow> Some r | _ \<Rightarrow> None)"

text \<open>An identifier spliced into a URL template: \<^verbatim>\<open>undefined\<close> is rendered by its name.\<close>

definition js_string :: "string option \<Rightarrow> string" where
  "js_string v = (case v of None \<Rightarrow> ''undefined'' | Some s \<Rightarrow> s)"

section \<open>External storage client\<close>

text \<open>\<^verbatim>\<open>response.ok\<close>: the status is in the range 200 to 299.\<close>

definition response_ok :: "nat \<Rightarrow> bool" where
  "response_ok s = (200 \<le> s \<and> s \<le> 299)"

text \<open>
  \<^verbatim>\<open>deleteFile\<close>, \<^verbatim>\<open>trashFile\<close>, \<^verbatim>\<open>untrashFile\<close> and \<^verbatim>\<open>permanentDeleteFile\<close>
  have one body up to the request and the message: send the request; when the response is
  neither ok nor 404, read the error body and throw. Reading a body that is not JSON throws
  too, and so does a rejected \<^verbatim>\<open>fetch\<close>.
\<close>

definition drive_void_call :: "env \<Rightarrow> drive_request \<Rightarrow> string \<Rightarrow> world \<Rightarrow> (exn + unit) \<times> world" where
  "drive_void_call e rq msg w =
     (case fetch e rq w of
        (FetchRejected, w') \<Rightarrow> (Inl FetchError, w')
      | (Response s b, w') \<Rightarrow>
          if \<not> response_ok s \<and> s \<noteq> 404
          then (case b of NotJson \<Rightarrow> (Inl JsonError, w') | JsonObj _ \<Rightarrow> (Inl (DriveError msg), w'))
          else (Inr (), w'))"

definition googleDrive_deleteFile :: "env \<Rightarrow> string \<Rightarrow> string \<Rightarrow> world \<Rightarrow> (exn + unit) \<times> world" where
  "googleDrive_deleteFile e accessToken fileId =
     drive_void_call e (DeleteReq accessToken fileId) ''Failed to delete file''"

definition googleDrive_trashFile :: "env \<Rightarrow> string \<Rightarrow> string \<Rightarrow> world \<Rightarrow> (exn + unit) \<times> world" where
  "googleDrive_trashFile e accessToken fileId =
     drive_void_call e (PatchTrashedReq accessToken fileId True) ''Failed to trash file''"

definition googleDrive_untrashFile :: "env \<Rightarrow> string \<Rightarrow> string \<Rightarrow> world \<Rightarrow> (exn + unit) \<times> world" where
  "googleDrive_untrashFile e accessToken fileId =
     drive_void_call e (PatchTrashedReq accessToken fileId False) ''Failed to untrash file''"

definition googleDrive_permanentDeleteFile :: "env \<Rightarrow> string \<Rightarrow> string \<Rightarrow> world \<Rightarrow> (exn + unit) \<times> world" where
  "googleDrive_permanentDeleteFile e accessToken fileId =
     drive_void_call e (DeleteReq accessToken fileId) ''Failed to permanently delete file''"

text \<open>
  \<^verbatim>\<open>createFolder\<close> returns the created object, of which the callers read the
  \<^verbatim>\<open>id\<close>; the \<^verbatim>\<open>parents\<close> entry is sent only for a truthy parent. A response that is
  not ok throws whatever its body is.
\<close>

definition googleDrive_createFolder ::
  "env \<Rightarrow> string \<Rightarrow> string \<Rightarrow> string option \<Rightarrow> world \<Rightarrow> (exn + string option) \<times> world" where
  "googleDrive_createFolder e accessToken name parentId w =
     (case fetch e (CreateFolderReq accessToken name (if truthy parentId then parentId else None)) w of
        (FetchRejected, w') \<Rightarrow> (Inl FetchError, w')
      | (Response s b, w') \<Rightarrow>
          if \<not> response_ok s then (Inl (DriveError ''Failed to create folder''), w')
          else (case b of NotJson \<Rightarrow> (Inl JsonError, w') | JsonObj i \<Rightarrow> (Inr i, w')))"

definition googleDrive_refreshAccessToken ::
  "env \<Rightarrow> string \<Rightarrow> string \<Rightarrow> string \<Rightarrow> world \<Rightarrow> (exn + string option) \<times> world" where
  "googleDrive_refreshAccessToken e clientId clientSecret refresh w =
     (case fetch e (RefreshReq clientId clientSecret refresh) w of
        (FetchRejected, w') \<Rightarrow> (Inl FetchError, w')
      | (Response s b, w') \<Rightarrow>
          if \<not> response_ok s
          then (case b of NotJson \<Rightarrow> (Inl JsonError, w')
                | JsonObj _ \<Rightarrow> (Inl (DriveError ''Failed to refresh token''), w'))
          else (case b of NotJson \<Rightarrow> (Inl JsonError, w') | JsonObj t \<Rightarrow> (Inr t, w')))"

section \<open>Provider credentials\<close>

text \<open>
  \<^verbatim>\<open>driveConnectionsRepository.getTokens\<close> and \<^verbatim>\<open>storeTokens\<close>. The repository names
  the first field \<^verbatim>\<open>accessToken\<close>, the storage layer \<^verbatim>\<open>token\<close>; one record serves
  both. \<^verbatim>\<open>storeTokens\<close> reads the clock for the \<^verbatim>\<open>updated_at\<close> column before it calls
  the store.
\<close>

definition driveConnectionsRepository_getTokens ::
  "env \<Rightarrow> string \<Rightarrow> world \<Rightarrow> provider_tokens option \<times> world" where
  "driveConnectionsRepository_getTokens e userId w =
     (case store_call e w of
        (True, w') \<Rightarrow> (None, w')
      | (False, w') \<Rightarrow> (drive_connections w' userId, w'))"

definition driveConnectionsRepository_storeTokens ::
  "env \<Rightarrow> string \<Rightarrow> string option \<Rightarrow> string option \<Rightarrow> world \<Rightarrow> (exn + unit) \<times> world" where
  "driveConnectionsRepository_storeTokens e userId accessToken refresh w =
     (case read_clock e w of (_, w0) \<Rightarrow>
      (case store_call e w0 of
         (True, w') \<Rightarrow> (Inl StoreError, console_error ''Failed to store tokens:'' StoreError w')
       | (False, w') \<Rightarrow>
           (Inr (), w'\<lparr>drive_connections := (drive_connections w')
                      (userId := Some \<lparr>token = accessToken, refreshToken = refresh\<rparr>)\<rparr>)))"

definition storage_getProviderToken :: "env \<Rightarrow> string \<Rightarrow> world \<Rightarrow> provider_tokens option \<times> world" where
  "storage_getProviderToken e userId w =
     (case providerTokensCache w userId of
        Some cached \<Rightarrow> (Some cached, w)
      | None \<Rightarrow>
          (case driveConnectionsRepository_getTokens e userId w of
             (None, w') \<Rightarrow> (None, w')
           | (Some tokens, w') \<Rightarrow>
               if truthy (token tokens)
               then (Some tokens, w'\<lparr>providerTokensCache := (providerTokensCache w')(userId := Some tokens)\<rparr>)
               else (None, w')))"

definition storage_storeProviderToken ::
  "env \<Rightarrow> string \<Rightarrow> string option \<Rightarrow> string option \<Rightarrow> world \<Rightarrow> (exn + unit) \<times> world" where
  "storage_storeProviderToken e userId tok refresh w =
     (case driveConnectionsRepository_storeTokens e userId tok refresh w of
        (Inl x, w') \<Rightarrow> (Inl x, w')
      | (Inr _, w') \<Rightarrow>
          (Inr (), w'\<lparr>providerTokensCache := (providerTokensCache w')
                     (userId := Some \<lparr>token = tok, refreshToken = refresh\<rparr>)\<rparr>))"

definition storage_clearProviderTokenCache :: "string \<Rightarrow> world \<Rightarrow> world" where
  "storage_clearProviderTokenCache userId w =
     w\<lparr>providerTokensCache := (providerTokensCache w)(userId := None)\<rparr>"

text \<open>
  \<^verbatim>\<open>getValidProviderToken\<close>: the stored credential is tried on the provider; when it
  is refused and a refresh token and the OAuth client settings are there, it is refreshed
  and stored. A rejected test request is caught and the stored credential returned; a
  failed refresh or a failed write of the refreshed credential is caught and gives
  \<^verbatim>\<open>null\<close>. The function never throws.
\<close>

definition getValidProviderToken :: "env \<Rightarrow> string \<Rightarrow> world \<Rightarrow> string option \<times> world" where
  "getValidProviderToken e userId w =
     (case storage_getProviderToken e userId w of
        (None, w1) \<Rightarrow> (None, w1)
      | (Some tokens, w1) \<Rightarrow>
          if \<not> truthy (token tokens) then (None, w1)
          else
            (case fetch e (AboutReq (js_string (token tokens))) w1 of
               (FetchRejected, w2) \<Rightarrow>
                 (token tokens, console_error ''Error validating token:'' FetchError w2)
             | (Response s b, w2) \<Rightarrow>
                 if response_ok s then (token tokens, w2)
                 else if truthy (refreshToken tokens) then
                   (if \<not> truthy (GOOGLE_CLIENT_ID e) \<or> \<not> truthy (GOOGLE_CLIENT_SECRET e)
                    then (None, w2)
                    else
                      (case googleDrive_refreshAccessToken e (js_string (GOOGLE_CLIENT_ID e))
                              (js_string (GOOGLE_CLIENT_SECRET e)) (js_string (refreshToken tokens)) w2 of
                         (Inl x, w3) \<Rightarrow> (None, console_error ''Failed to refresh token:'' x w3)
                       | (Inr access_token, w3) \<Rightarrow>
                           (case storage_storeProviderToken e userId access_token (refreshToken tokens)
                                   (storage_clearProviderTokenCache userId w3) of
                              (Inl x, w4) \<Rightarrow> (None, console_error ''Failed to refresh token:'' x w4)
                            | (Inr _, w4) \<Rightarrow> (access_token, w4))))
                 else (None, w2)))"

text \<open>
  The best-effort block that the lifecycle handlers repeat inline: a drive call inside
  \<^verbatim>\<open>try\<close>, whose exception is written with \<^verbatim>\<open>console.error\<close> and dropped.
\<close>

definition try_drive :: "(exn + unit) \<times> world \<Rightarrow> string \<Rightarrow> world" where
  "try_drive r msg = (case r of (Inl x, w') \<Rightarrow> console_error msg x w' | (Inr _, w') \<Rightarrow> w')"

text \<open>
  The whole block: nothing for a falsy drive identifier, nothing for a falsy credential,
  else the drive call under \<^verbatim>\<open>try\<close>.
\<close>

definition mirror ::
  "env \<Rightarrow> string \<Rightarrow> string option \<Rightarrow> (env \<Rightarrow> string \<Rightarrow> string \<Rightarrow> world \<Rightarrow> (exn + unit) \<times> world)
     \<Rightarrow> string \<Rightarrow> world \<Rightarrow> world" where
  "mirror e userId driveId driveOp msg w =
     (if truthy driveId
      then (case getValidProviderToken e userId w of
              (providerToken, w1) \<Rightarrow>
                if truthy providerToken
                then try_drive (driveOp e (js_string providerToken) (js_string driveId) w1) msg
                else w1)
      else w)"

section \<open>Metadata Store repositories\<close>

text \<open>
  A table is the list of its rows. A query filters it, an update maps over it, a delete
  filters the matching rows out; each is one call of the store, which can return an error
  and then changes nothing. Soft delete and restore are field updates.
\<close>

record project_filters =
  pf_user_id :: string
  pf_status :: "string option"
  pf_is_deleted :: "bool option"

definition projectsRepository_getAll :: "env \<Rightarrow> project_filters \<Rightarrow> world \<Rightarrow> project list \<times> world" where
  "projectsRepository_getAll e filters w =
     (case store_call e w of
        (True, w') \<Rightarrow>
          ([], console_error ''Catch error in projectsRepository.getAll:'' StoreError
                (console_error ''Supabase Error in projectsRepository.getAll:'' StoreError w'))
      | (False, w') \<Rightarrow>
          (rev (sort_key p_created_at
             (filter (\<lambda>p. p_user_id p = pf_user_id filters
                        \<and> (truthy (pf_status filters) \<longrightarrow> Some (p_status p) = pf_status filters)
                        \<and> p_is_deleted p = (case pf_is_deleted filters of Some b \<Rightarrow> b | None \<Rightarrow> False))
                (projects w'))), w'))"

definition projectsRepository_getByIdWithoutUser :: "env \<Rightarrow> string \<Rightarrow> world \<Rightarrow> project option \<times> world" where
  "projectsRepository_getByIdWithoutUser e i w =
     (case store_call e w of
        (True, w') \<Rightarrow> (None, w')
      | (False, w') \<Rightarrow> (single (filter (\<lambda>p. p_id p = i) (projects w')), w'))"

text \<open>
  The object that the create handler passes to \<^verbatim>\<open>projectsRepository.create\<close>. The
  columns it leaves out take the defaults of \<^verbatim>\<open>projectSchema\<close>: no description, not
  deleted, no deletion time; the store generates the identifier and stamps the row. The
  identifier is the key of the table: an insert that would repeat one is an error.
\<close>

record insert_project =
  ip_user_id :: string
  ip_title :: string
  ip_status :: "string option"
  ip_root_drive_id :: "string option"

definition projectsRepository_create :: "env \<Rightarrow> insert_project \<Rightarrow> world \<Rightarrow> (exn + project) \<times> world" where
  "projectsRepository_create e ins w =
     (case read_clock e w of (t, w0) \<Rightarrow>
      (case store_call e w0 of (failed, w') \<Rightarrow>
         (let row = \<lparr>p_id = new_uuid e (db_calls w0),
                     p_user_id = ip_user_id ins,
                     p_title = ip_title ins,
                     p_description = None,
                     p_root_drive_id =
                       Some (if truthy (ip_root_drive_id ins) then js_string (ip_root_drive_id ins) else []),
                     p_status = (if truthy (ip_status ins) then js_string (ip_status ins) else ''active''),
                     p_is_deleted = False,
                     p_deleted_at = None,
                     p_created_at = t,
                     p_updated_at = t\<rparr>
          in if failed \<or> p_id row \<in> set (map p_id (projects w'))
             then (Inl StoreError, w')
             else (Inr row, w'\<lparr>projects := projects w' @ [row]\<rparr>))))"

text \<open>
  \<^verbatim>\<open>UpdateProject\<close>: every column but the identifier, the owner and the two stamps,
  each optional; a nullable column can be set to \<^verbatim>\<open>null\<close>.
\<close>

record update_project =
  up_title :: "string option"
  up_description :: "string option option"
  up_root_drive_id :: "string option option"
  up_status :: "string option"
  up_is_deleted :: "bool option"
  up_deleted_at :: "nat option option"

definition apply_update_project :: "update_project \<Rightarrow> nat \<Rightarrow> project \<Rightarrow> project" where
  "apply_update_project updates t p =
     p\<lparr>p_title := (case up_title updates of None \<Rightarrow> p_title p | Some v \<Rightarrow> v),
       p_description := (case up_description updates of None \<Rightarrow> p_description p | Some v \<Rightarrow> v),
       p_root_drive_id := (case up_root_drive_id updates of None \<Rightarrow> p_root_drive_id p | Some v \<Rightarrow> v),
       p_status := (case up_status updates of None \<Rightarrow> p_status p | Some v \<Rightarrow> v),
       p_is_deleted := (case up_is_deleted updates of None \<Rightarrow> p_is_deleted p | Some v \<Rightarrow> v),
       p_deleted_at := (case up_deleted_at updates of None \<Rightarrow> p_deleted_at p | Some v \<Rightarrow> v),
       p_updated_at := t\<rparr>"

definition projectsRepository_updateWithoutUser ::
  "env \<Rightarrow> string \<Rightarrow> update_project \<Rightarrow> world \<Rightarrow> project option \<times> world" where
  "projectsRepository_updateWithoutUser e i updates w =
     (case read_clock e w of (t, w0) \<Rightarrow>
      (case store_call e w0 of
         (True, w') \<Rightarrow> (None, w')
       | (False, w') \<Rightarrow>
           (let rows = map (\<lambda>p. if p_id p = i then apply_update_project updates t p else p) (projects w')
            in (single (filter (\<lambda>p. p_id p = i) rows), w'\<lparr>projects := rows\<rparr>))))"

definition projectsRepository_softDelete :: "env \<Rightarrow> string \<Rightarrow> string \<Rightarrow> world \<Rightarrow> bool \<times> world" where
  "projectsRepository_softDelete e i userId w =
     (case read_clock e w of (t1, w1) \<Rightarrow>
      (case read_clock e w1 of (t2, w2) \<Rightarrow>
       (case store_call e w2 of
          (True, w') \<Rightarrow> (False, w')
        | (False, w') \<Rightarrow>
            (True, w'\<lparr>projects :=
               map (\<lambda>p. if p_id p = i \<and> p_user_id p = userId
                        then p\<lparr>p_is_deleted := True, p_deleted_at := Some t1, p_updated_at := t2\<rparr>
                        else p) (projects w')\<rparr>))))"

definition projectsRepository_restore :: "env \<Rightarrow> string \<Rightarrow> string \<Rightarrow> world \<Rightarrow> bool \<times> world" where
  "projectsRepository_restore e i userId w =
     (case read_clock e w of (t, w1) \<Rightarrow>
      (case store_call e w1 of
         (True, w') \<Rightarrow> (False, w')
       | (False, w') \<Rightarrow>
           (True, w'\<lparr>projects :=
              map (\<lambda>p. if p_id p = i \<and> p_user_id p = userId
                       then p\<lparr>p_is_deleted := False, p_deleted_at := None, p_updated_at := t\<rparr>
                       else p) (projects w')\<rparr>)))"

definition projectsRepository_hardDelete :: "env \<Rightarrow> string \<Rightarrow> string \<Rightarrow> world \<Rightarrow> bool \<times> world" where
  "projectsRepository_hardDelete e i userId w =
     (case store_call e w of
        (True, w') \<Rightarrow> (False, w')
      | (False, w') \<Rightarrow>
          (True, w'\<lparr>projects := filter (\<lambda>p. \<not> (p_id p = i \<and> p_user_id p = userId)) (projects w')\<rparr>))"

record folder_filters =
  ff_project_id :: string
  ff_parent_id :: "string option option"
  ff_is_deleted :: "bool option"

text \<open>\<^verbatim>\<open>foldersRepository.getAll\<close> throws the error of the store.\<close>

definition foldersRepository_getAll :: "env \<Rightarrow> folder_filters \<Rightarrow> world \<Rightarrow> (exn + folder list) \<times> world" where
  "foldersRepository_getAll e filters w =
     (case store_call e w of
        (True, w') \<Rightarrow> (Inl StoreError, w')
      | (False, w') \<Rightarrow>
          (Inr (sort_key fo_sort_order
             (filter (\<lambda>f. fo_project_id f = ff_project_id filters
                        \<and> (case ff_parent_id filters of None \<Rightarrow> True | Some v \<Rightarrow> fo_parent_id f = v)
                        \<and> fo_is_deleted f = (case ff_is_deleted filters of Some b \<Rightarrow> b | None \<Rightarrow> False))
                (folders w'))), w'))"

definition foldersRepository_getById :: "env \<Rightarrow> string \<Rightarrow> world \<Rightarrow> folder option \<times> world" where
  "foldersRepository_getById e i w =
     (case store_call e w of
        (True, w') \<Rightarrow> (None, w')
      | (False, w') \<Rightarrow> (single (filter (\<lambda>f. fo_id f = i) (folders w')), w'))"

definition foldersRepository_softDelete :: "env \<Rightarrow> string \<Rightarrow> world \<Rightarrow> bool \<times> world" where
  "foldersRepository_softDelete e i w =
     (case read_clock e w of (t1, w1) \<Rightarrow>
      (case read_clock e w1 of (t2, w2) \<Rightarrow>
       (case store_call e w2 of
          (True, w') \<Rightarrow> (False, w')
        | (False, w') \<Rightarrow>
            (True, w'\<lparr>folders :=
               map (\<lambda>f. if fo_id f = i
                        then f\<lparr>fo_is_deleted := True, fo_deleted_at := Some t1, fo_updated_at := t2\<rparr>
                        else f) (folders w')\<rparr>))))"

definition foldersRepository_restore :: "env \<Rightarrow> string \<Rightarrow> world \<Rightarrow> bool \<times> world" where
  "foldersRepository_restore e i w =
     (case read_clock e w of (t, w1) \<Rightarrow>
      (case store_call e w1 of
         (True, w') \<Rightarrow> (False, w')
       | (False, w') \<Rightarrow>
           (True, w'\<lparr>folders :=
              map (\<lambda>f. if fo_id f = i
                       then f\<lparr>fo_is_deleted := False, fo_deleted_at := None, fo_updated_at := t\<rparr>
                       else f) (folders w')\<rparr>)))"

definition foldersRepository_hardDelete :: "env \<Rightarrow> string \<Rightarrow> world \<Rightarrow> bool \<times> world" where
  "foldersRepository_hardDelete e i w =
     (case store_call e w of
        (True, w') \<Rightarrow> (False, w')
      | (False, w') \<Rightarrow> (True, w'\<lparr>folders := filter (\<lambda>f. fo_id f \<noteq> i) (folders w')\<rparr>))"

record file_filters =
  fif_project_id :: "string option"
  fif_folder_id :: "string option"
  fif_is_deleted :: "bool option"

text \<open>
  \<^verbatim>\<open>filesMetadataRepository.getAll\<close> applies the project and folder filters only when
  they are truthy, and throws the error of the store.
\<close>

definition filesMetadataRepository_getAll ::
  "env \<Rightarrow> file_filters \<Rightarrow> world \<Rightarrow> (exn + file_metadata list) \<times> world" where
  "filesMetadataRepository_getAll e filters w =
     (case store_call e w of
        (True, w') \<Rightarrow> (Inl StoreError, w')
      | (False, w') \<Rightarrow>
          (Inr (rev (sort_key fi_created_at
             (filter (\<lambda>f. (truthy (fif_project_id filters) \<longrightarrow> Some (fi_project_id f) = fif_project_id filters)
                        \<and> (truthy (fif_folder_id filters) \<longrightarrow> fi_folder_id f = fif_folder_id filters)
                        \<and> fi_is_deleted f = (case fif_is_deleted filters of Some b \<Rightarrow> b | None \<Rightarrow> False))
                (files w')))), w'))"

definition filesMetadataRepository_getById :: "env \<Rightarrow> string \<Rightarrow> world \<Rightarrow> file_metadata option \<times> world" where
  "filesMetadataRepository_getById e i w =
     (case store_call e w of
        (True, w') \<Rightarrow> (None, w')
      | (False, w') \<Rightarrow> (single (filter (\<lambda>f. fi_id f = i) (files w')), w'))"

definition filesMetadataRepository_softDelete :: "env \<Rightarrow> string \<Rightarrow> world \<Rightarrow> bool \<times> world" where
  "filesMetadataRepository_softDelete e i w =
     (case read_clock e w of (t1, w1) \<Rightarrow>
      (case read_clock e w1 of (t2, w2) \<Rightarrow>
       (case store_call e w2 of
          (True, w') \<Rightarrow> (False, w')
        | (False, w') \<Rightarrow>
            (True, w'\<lparr>files :=
               map (\<lambda>f. if fi_id f = i
                        then f\<lparr>fi_is_deleted := True, fi_deleted_at := Some t1, fi_updated_at := t2\<rparr>
                        else f) (files w')\<rparr>))))"

definition filesMetadataRepository_hardDelete :: "env \<Rightarrow> string \<Rightarrow> world \<Rightarrow> bool \<times> world" where
  "filesMetadataRepository_hardDelete e i w =
     (case store_call e w of
        (True, w') \<Rightarrow> (False, w')
      | (False, w') \<Rightarrow> (True, w'\<lparr>files := filter (\<lambda>f. fi_id f \<noteq> i) (files w')\<rparr>))"

definition filesMetadataRepository_restore :: "env \<Rightarrow> string \<Rightarrow> world \<Rightarrow> bool \<times> world" where
  "filesMetadataRepository_restore e i w =
     (case read_clock e w of (t, w1) \<Rightarrow>
      (case store_call e w1 of
         (True, w') \<Rightarrow> (False, w')
       | (False, w') \<Rightarrow>
           (True, w'\<lparr>files :=
              map (\<lambda>f. if fi_id f = i
                       then f\<lparr>fi_is_deleted := False, fi_deleted_at := None, fi_updated_at := t\<rparr>
                       else f) (files w')\<rparr>)))"

section \<open>Storage layer\<close>

text \<open>
  \<^verbatim>\<open>SupabaseStorage\<close> forwards to the repositories. \<^verbatim>\<open>storage.deleteFile\<close> is the
  soft delete of a file. \<^verbatim>\<open>storage.createProject\<close> reports the error of the insert and
  throws it again.
\<close>

definition storage_getProjects :: "env \<Rightarrow> string \<Rightarrow> world \<Rightarrow> project list \<times> world" where
  "storage_getProjects e userId =
     projectsRepository_getAll e \<lparr>pf_user_id = userId, pf_status = None, pf_is_deleted = None\<rparr>"

definition storage_getProject :: "env \<Rightarrow> string \<Rightarrow> world \<Rightarrow> project option \<times> world" where
  "storage_getProject e i = projectsRepository_getByIdWithoutUser e i"

definition storage_createProject :: "env \<Rightarrow> insert_project \<Rightarrow> world \<Rightarrow> (exn + project) \<times> world" where
  "storage_createProject e ins w =
     (case projectsRepository_create e ins w of
        (Inl x, w') \<Rightarrow> (Inl x, console_error ''Error creating project:'' x w')
      | (Inr result, w') \<Rightarrow> (Inr result, w'))"

definition storage_updateProject ::
  "env \<Rightarrow> string \<Rightarrow> update_project \<Rightarrow> world \<Rightarrow> project option \<times> world" where
  "storage_updateProject e i updates = projectsRepository_updateWithoutUser e i updates"

definition storage_getDeletedProjects :: "env \<Rightarrow> string \<Rightarrow> world \<Rightarrow> project list \<times> world" where
  "storage_getDeletedProjects e userId =
     projectsRepository_getAll e \<lparr>pf_user_id = userId, pf_status = None, pf_is_deleted = Some True\<rparr>"

definition storage_softDeleteProject :: "env \<Rightarrow> string \<Rightarrow> string \<Rightarrow> world \<Rightarrow> bool \<times> world" where
  "storage_softDeleteProject e i userId = projectsRepository_softDelete e i userId"

definition storage_restoreProject :: "env \<Rightarrow> string \<Rightarrow> string \<Rightarrow> world \<Rightarrow> bool \<times> world" where
  "storage_restoreProject e i userId = projectsRepository_restore e i userId"

definition storage_hardDeleteProject :: "env \<Rightarrow> string \<Rightarrow> string \<Rightarrow> world \<Rightarrow> bool \<times> world" where
  "storage_hardDeleteProject e i userId = projectsRepository_hardDelete e i userId"

definition storage_getFolder :: "env \<Rightarrow> string \<Rightarrow> world \<Rightarrow> folder option \<times> world" where
  "storage_getFolder e i = foldersRepository_getById e i"

definition storage_getDeletedFolders :: "env \<Rightarrow> string \<Rightarrow> world \<Rightarrow> (exn + folder list) \<times> world" where
  "storage_getDeletedFolders e projectId =
     foldersRepository_getAll e
       \<lparr>ff_project_id = projectId, ff_parent_id = None, ff_is_deleted = Some True\<rparr>"

definition storage_softDeleteFolder :: "env \<Rightarrow> string \<Rightarrow> world \<Rightarrow> bool \<times> world" where
  "storage_softDeleteFolder e i = foldersRepository_softDelete e i"

definition storage_restoreFolder :: "env \<Rightarrow> string \<Rightarrow> world \<Rightarrow> bool \<times> world" where
  "storage_restoreFolder e i = foldersRepository_restore e i"

definition storage_hardDeleteFolder :: "env \<Rightarrow> string \<Rightarrow> world \<Rightarrow> bool \<times> world" where
  "storage_hardDeleteFolder e i = foldersRepository_hardDelete e i"

definition storage_getFile :: "env \<Rightarrow> string \<Rightarrow> world \<Rightarrow> file_metadata option \<times> world" where
  "storage_getFile e i = filesMetadataRepository_getById e i"

definition storage_getDeletedFiles ::
  "env \<Rightarrow> string \<Rightarrow> world \<Rightarrow> (exn + file_metadata list) \<times> world" where
  "storage_getDeletedFiles e projectId =
     filesMetadataRepository_getAll e
       \<lparr>fif_project_id = Some projectId, fif_folder_id = None, fif_is_deleted = Some True\<rparr>"

definition storage_deleteFile :: "env \<Rightarrow> string \<Rightarrow> world \<Rightarrow> bool \<times> world" where
  "storage_deleteFile e i = filesMetadataRepository_softDelete e i"

definition storage_restoreFile :: "env \<Rightarrow> string \<Rightarrow> world \<Rightarrow> bool \<times> world" where
  "storage_restoreFile e i = filesMetadataRepository_restore e i"

definition storage_hardDeleteFile :: "env \<Rightarrow> string \<Rightarrow> world \<Rightarrow> bool \<times> world" where
  "storage_hardDeleteFile e i = filesMetadataRepository_hardDelete e i"

section \<open>Authentication\<close>

text \<open>\<^verbatim>\<open>token.split(".")\<close>.\<close>

fun split_dot :: "string \<Rightarrow> string list" where
  "split_dot [] = [[]]"
| "split_dot (c # cs) =
     (if c = CHR ''.'' then [] # split_dot cs
      else (case split_dot cs of [] \<Rightarrow> [[c]] | part # parts \<Rightarrow> (c # part) # parts))"

text \<open>
  \<^verbatim>\<open>decodeJwt\<close>: three segments, the middle one turned from the URL alphabet of base64
  to the standard one and handed to the library decoding. No signature is checked. A
  decoding that throws gives \<^verbatim>\<open>null\<close>.
\<close>

definition decodeJwt :: "env \<Rightarrow> string \<Rightarrow> jwt_payload option" where
  "decodeJwt e tok =
     (let parts = split_dot tok
      in if length parts \<noteq> 3 then None
         else json_of_base64 e
                (map (\<lambda>c. if c = CHR ''-'' then CHR ''+'' else if c = CHR ''_'' then CHR ''/'' else c)
                   (parts ! 1)))"

text \<open>
  The middleware of \<^verbatim>\<open>/api/*\<close>: from the two request headers to the
  \<^verbatim>\<open>userId\<close> and \<^verbatim>\<open>userEmail\<close> of the request context. The clock is read only after
  a subject was found.
\<close>

definition auth_middleware ::
  "env \<Rightarrow> string option \<Rightarrow> string option \<Rightarrow> world \<Rightarrow> (string option \<times> string option) \<times> world" where
  "auth_middleware e accessToken userIdHeader w =
     (if truthy accessToken then
        (case decodeJwt e (js_string accessToken) of
           None \<Rightarrow> ((None, None), w)
         | Some decoded \<Rightarrow>
             if truthy (jwt_sub decoded) then
               (case read_clock e w of (ms, w') \<Rightarrow>
                  (let now = int (ms div 1000)
                   in if (case jwt_exp decoded of None \<Rightarrow> False | Some x \<Rightarrow> x \<noteq> 0 \<and> x < now)
                      then ((None, None), w')
                      else if truthy userIdHeader \<and> userIdHeader \<noteq> jwt_sub decoded
                      then ((None, None), w')
                      else ((jwt_sub decoded,
                             Some (if truthy (jwt_email decoded) then js_string (jwt_email decoded) else [])),
                            w')))
             else ((None, None), w))
      else if \<not> isProduction e \<and> truthy userIdHeader then ((userIdHeader, Some []), w)
      else ((None, None), w))"

definition requireAuth :: "string option \<Rightarrow> string option" where
  "requireAuth userId = (if truthy userId then userId else None)"

section \<open>API handlers\<close>

text \<open>
  A response is its status and its JSON body. English error texts are kept; an Arabic
  text is named by an English key; a success body carries an Arabic message that is left
  out.
\<close>

datatype response_body =
    ErrorBody string
  | LocalizedError string
  | ExnMessage exn
  | SuccessBody
  | ProjectBody "project option"
  | CreatedBody project string
  | TrashBody "file_metadata list" "folder list"

type_synonym response = "nat \<times> response_body"

text \<open>
  Each handler takes the \<^verbatim>\<open>userId\<close> that the middleware left in the request context
  and the route parameter. The handlers of the trash lifecycle call nothing that throws,
  so the \<^verbatim>\<open>catch\<close> around their bodies has no case here.
\<close>

definition api_delete_project :: "env \<Rightarrow> string option \<Rightarrow> string \<Rightarrow> world \<Rightarrow> response \<times> world" where
  "api_delete_project e uid projectId w =
     (case requireAuth uid of
        None \<Rightarrow> ((401, ErrorBody ''Unauthorized''), w)
      | Some userId \<Rightarrow>
          (case storage_getProject e projectId w of
             (None, w1) \<Rightarrow> ((404, ErrorBody ''Project not found''), w1)
           | (Some project, w1) \<Rightarrow>
               if p_user_id project \<noteq> userId then ((403, ErrorBody ''Forbidden''), w1)
               else
                 (case storage_softDeleteProject e projectId userId
                         (mirror e userId (p_root_drive_id project) googleDrive_trashFile
                            ''Failed to trash Drive folder:'' w1) of
                    (_, w3) \<Rightarrow> ((200, SuccessBody), w3))))"

definition api_restore_project :: "env \<Rightarrow> string option \<Rightarrow> string \<Rightarrow> world \<Rightarrow> response \<times> world" where
  "api_restore_project e uid projectId w =
     (case requireAuth uid of
        None \<Rightarrow> ((401, ErrorBody ''Unauthorized''), w)
      | Some userId \<Rightarrow>
          (case storage_getDeletedProjects e userId w of
             (deletedProjects, w1) \<Rightarrow>
               (case find (\<lambda>p. p_id p = projectId) deletedProjects of
                  None \<Rightarrow> ((404, ErrorBody ''Project not found in trash''), w1)
                | Some project \<Rightarrow>
                    if p_user_id project \<noteq> userId then ((403, ErrorBody ''Forbidden''), w1)
                    else
                      (case storage_restoreProject e projectId userId
                              (mirror e userId (p_root_drive_id project) googleDrive_untrashFile
                                 ''Failed to restore Drive folder:'' w1) of
                         (_, w3) \<Rightarrow> ((200, SuccessBody), w3)))))"

definition api_permanent_delete_project ::
  "env \<Rightarrow> string option \<Rightarrow> string \<Rightarrow> world \<Rightarrow> response \<times> world" where
  "api_permanent_delete_project e uid projectId w =
     (case requireAuth uid of
        None \<Rightarrow> ((401, ErrorBody ''Unauthorized''), w)
      | Some userId \<Rightarrow>
          (case storage_getDeletedProjects e userId w of
             (deletedProjects, w1) \<Rightarrow>
               (case find (\<lambda>p. p_id p = projectId) deletedProjects of
                  None \<Rightarrow> ((404, ErrorBody ''Project not found''), w1)
                | Some project \<Rightarrow>
                    if p_user_id project \<noteq> userId then ((403, ErrorBody ''Forbidden''), w1)
                    else
                      (case storage_hardDeleteProject e projectId userId
                              (mirror e userId (p_root_drive_id project) googleDrive_permanentDeleteFile
                                 ''Failed to delete Drive folder:'' w1) of
                         (_, w3) \<Rightarrow> ((200, SuccessBody), w3)))))"

definition api_delete_folder :: "env \<Rightarrow> string option \<Rightarrow> string \<Rightarrow> world \<Rightarrow> response \<times> world" where
  "api_delete_folder e uid folderId w =
     (case requireAuth uid of
        None \<Rightarrow> ((401, ErrorBody ''Unauthorized''), w)
      | Some userId \<Rightarrow>
          (case storage_getFolder e folderId w of
             (None, w1) \<Rightarrow> ((404, ErrorBody ''Folder not found''), w1)
           | (Some folder, w1) \<Rightarrow>
               (case storage_getProject e (fo_project_id folder) w1 of
                  (project, w2) \<Rightarrow>
                    if (case project of None \<Rightarrow> True | Some p \<Rightarrow> p_user_id p \<noteq> userId)
                    then ((403, ErrorBody ''Forbidden''), w2)
                    else
                      (case storage_softDeleteFolder e folderId
                              (mirror e userId (Some (fo_drive_folder_id folder)) googleDrive_trashFile
                                 ''Failed to trash Drive folder:'' w2) of
                         (_, w4) \<Rightarrow> ((200, SuccessBody), w4)))))"

definition api_restore_folder :: "env \<Rightarrow> string option \<Rightarrow> string \<Rightarrow> world \<Rightarrow> response \<times> world" where
  "api_restore_folder e uid folderId w =
     (case requireAuth uid of
        None \<Rightarrow> ((401, ErrorBody ''Unauthorized''), w)
      | Some userId \<Rightarrow>
          (case storage_getFolder e folderId w of
             (folder_opt, w1) \<Rightarrow>
               (case (case folder_opt of None \<Rightarrow> None
                      | Some f \<Rightarrow> if \<not> fo_is_deleted f then None else Some f) of
                  None \<Rightarrow> ((404, ErrorBody ''Folder not found in trash''), w1)
                | Some folder \<Rightarrow>
                    (case storage_getProject e (fo_project_id folder) w1 of
                       (project, w2) \<Rightarrow>
                         if (case project of None \<Rightarrow> True | Some p \<Rightarrow> p_user_id p \<noteq> userId)
                         then ((403, ErrorBody ''Forbidden''), w2)
                         else
                           (case storage_restoreFolder e folderId
                                   (mirror e userId (Some (fo_drive_folder_id folder)) googleDrive_untrashFile
                                      ''Failed to restore Drive folder:'' w2) of
                              (_, w4) \<Rightarrow> ((200, SuccessBody), w4))))))"

definition api_permanent_delete_folder ::
  "env \<Rightarrow> string option \<Rightarrow> string \<Rightarrow> world \<Rightarrow> response \<times> world" where
  "api_permanent_delete_folder e uid folderId w =
     (case requireAuth uid of
        None \<Rightarrow> ((401, ErrorBody ''Unauthorized''), w)
      | Some userId \<Rightarrow>
          (case storage_getFolder e folderId w of
             (folder_opt, w1) \<Rightarrow>
               (case (case folder_opt of None \<Rightarrow> None
                      | Some f \<Rightarrow> if \<not> fo_is_deleted f then None else Some f) of
                  None \<Rightarrow> ((404, ErrorBody ''Folder not found''), w1)
                | Some folder \<Rightarrow>
                    (case storage_getProject e (fo_project_id folder) w1 of
                       (project, w2) \<Rightarrow>
                         if (case project of None \<Rightarrow> True | Some p \<Rightarrow> p_user_id p \<noteq> userId)
                         then ((403, ErrorBody ''Forbidden''), w2)
                         else
                           (case storage_hardDeleteFolder e folderId
                                   (mirror e userId (Some (fo_drive_folder_id folder))
                                      googleDrive_permanentDeleteFile ''Failed to delete Drive folder:'' w2) of
                              (_, w4) \<Rightarrow> ((200, SuccessBody), w4))))))"

definition api_delete_file :: "env \<Rightarrow> string option \<Rightarrow> string \<Rightarrow> world \<Rightarrow> response \<times> world" where
  "api_delete_file e uid fileId w =
     (case requireAuth uid of
        None \<Rightarrow> ((401, ErrorBody ''Unauthorized''), w)
      | Some userId \<Rightarrow>
          (case storage_getFile e fileId w of
             (None, w1) \<Rightarrow> ((404, ErrorBody ''File not found''), w1)
           | (Some file, w1) \<Rightarrow>
               (case storage_getProject e (fi_project_id file) w1 of
                  (project, w2) \<Rightarrow>
                    if (case project of None \<Rightarrow> True | Some p \<Rightarrow> p_user_id p \<noteq> userId)
                    then ((403, ErrorBody ''Forbidden''), w2)
                    else
                      (case storage_deleteFile e fileId
                              (mirror e userId (Some (fi_drive_file_id file)) googleDrive_trashFile
                                 ''Failed to trash Drive file:'' w2) of
                         (_, w4) \<Rightarrow> ((200, SuccessBody), w4)))))"

definition api_restore_file :: "env \<Rightarrow> string option \<Rightarrow> string \<Rightarrow> world \<Rightarrow> response \<times> world" where
  "api_restore_file e uid fileId w =
     (case requireAuth uid of
        None \<Rightarrow> ((401, ErrorBody ''Unauthorized''), w)
      | Some userId \<Rightarrow>
          (case storage_getFile e fileId w of
             (file_opt, w1) \<Rightarrow>
               (case (case file_opt of None \<Rightarrow> None
                      | Some f \<Rightarrow> if \<not> fi_is_deleted f then None else Some f) of
                  None \<Rightarrow> ((404, ErrorBody ''File not found in trash''), w1)
                | Some file \<Rightarrow>
                    (case storage_getProject e (fi_project_id file) w1 of
                       (project, w2) \<Rightarrow>
                         if (case project of None \<Rightarrow> True | Some p \<Rightarrow> p_user_id p \<noteq> userId)
                         then ((403, ErrorBody ''Forbidden''), w2)
                         else
                           (case storage_restoreFile e fileId
                                   (mirror e userId (Some (fi_drive_file_id file)) googleDrive_untrashFile
                                      ''Failed to restore Drive file:'' w2) of
                              (_, w4) \<Rightarrow> ((200, SuccessBody), w4))))))"

definition api_permanent_delete_file ::
  "env \<Rightarrow> string option \<Rightarrow> string \<Rightarrow> world \<Rightarrow> response \<times> world" where
  "api_permanent_delete_file e uid fileId w =
     (case requireAuth uid of
        None \<Rightarrow> ((401, ErrorBody ''Unauthorized''), w)
      | Some userId \<Rightarrow>
          (case storage_getFile e fileId w of
             (file_opt, w1) \<Rightarrow>
               (case (case file_opt of None \<Rightarrow> None
                      | Some f \<Rightarrow> if \<not> fi_is_deleted f then None else Some f) of
                  None \<Rightarrow> ((404, ErrorBody ''File not found''), w1)
                | Some file \<Rightarrow>
                    (case storage_getProject e (fi_project_id file) w1 of
                       (project, w2) \<Rightarrow>
                         if (case project of None \<Rightarrow> True | Some p \<Rightarrow> p_user_id p \<noteq> userId)
                         then ((403, ErrorBody ''Forbidden''), w2)
                         else
                           (case storage_hardDeleteFile e fileId
                                   (mirror e userId (Some (fi_drive_file_id file))
                                      googleDrive_permanentDeleteFile ''Failed to delete Drive file:'' w2) of
                              (_, w4) \<Rightarrow> ((200, SuccessBody), w4))))))"

text \<open>
  Listing the trash of a project. The two queries throw the error of the store, which the
  \<^verbatim>\<open>catch\<close> of the handler reports and answers with 500.
\<close>

definition api_get_trash :: "env \<Rightarrow> string option \<Rightarrow> string \<Rightarrow> world \<Rightarrow> response \<times> world" where
  "api_get_trash e uid projectId w =
     (case requireAuth uid of
        None \<Rightarrow> ((401, ErrorBody ''Unauthorized''), w)
      | Some userId \<Rightarrow>
          (case storage_getProject e projectId w of
             (None, w1) \<Rightarrow> ((404, ErrorBody ''Project not found''), w1)
           | (Some project, w1) \<Rightarrow>
               if p_user_id project \<noteq> userId then ((403, ErrorBody ''Forbidden''), w1)
               else
                 (case storage_getDeletedFiles e projectId w1 of
                    (Inl x, w2) \<Rightarrow>
                      ((500, ErrorBody ''Failed to get trash''), console_error ''Get trash error:'' x w2)
                  | (Inr deletedFiles, w2) \<Rightarrow>
                      (case storage_getDeletedFolders e projectId w2 of
                         (Inl x, w3) \<Rightarrow>
                           ((500, ErrorBody ''Failed to get trash''), console_error ''Get trash error:'' x w3)
                       | (Inr deletedFolders, w3) \<Rightarrow>
                           ((200, TrashBody deletedFiles deletedFolders), w3)))))"

text \<open>
  The two loops of emptying the trash. The credential was fetched once before them; each
  row is purged from the store whatever the provider answered.
\<close>

fun purge_files :: "env \<Rightarrow> string option \<Rightarrow> file_metadata list \<Rightarrow> world \<Rightarrow> world" where
  "purge_files e providerToken [] w = w"
| "purge_files e providerToken (file # rest) w =
     purge_files e providerToken rest
       (snd (storage_hardDeleteFile e (fi_id file)
          (if truthy (Some (fi_drive_file_id file)) \<and> truthy providerToken
           then try_drive (googleDrive_permanentDeleteFile e (js_string providerToken) (fi_drive_file_id file) w)
                  ''Failed to delete Drive file:''
           else w)))"

fun purge_folders :: "env \<Rightarrow> string option \<Rightarrow> folder list \<Rightarrow> world \<Rightarrow> world" where
  "purge_folders e providerToken [] w = w"
| "purge_folders e providerToken (folder # rest) w =
     purge_folders e providerToken rest
       (snd (storage_hardDeleteFolder e (fo_id folder)
          (if truthy (Some (fo_drive_folder_id folder)) \<and> truthy providerToken
           then try_drive (googleDrive_permanentDeleteFile e (js_string providerToken) (fo_drive_folder_id folder) w)
                  ''Failed to delete Drive folder:''
           else w)))"

definition api_empty_trash :: "env \<Rightarrow> string option \<Rightarrow> string \<Rightarrow> world \<Rightarrow> response \<times> world" where
  "api_empty_trash e uid projectId w =
     (case requireAuth uid of
        None \<Rightarrow> ((401, ErrorBody ''Unauthorized''), w)
      | Some userId \<Rightarrow>
          (case storage_getProject e projectId w of
             (None, w1) \<Rightarrow> ((404, ErrorBody ''Project not found''), w1)
           | (Some project, w1) \<Rightarrow>
               if p_user_id project \<noteq> userId then ((403, ErrorBody ''Forbidden''), w1)
               else
                 (case getValidProviderToken e userId w1 of
                    (providerToken, w2) \<Rightarrow>
                      (case storage_getDeletedFiles e projectId w2 of
                         (Inl x, w3) \<Rightarrow>
                           ((500, ErrorBody ''Failed to empty trash''),
                            console_error ''Empty trash error:'' x w3)
                       | (Inr deletedFiles, w3) \<Rightarrow>
                           (case storage_getDeletedFolders e projectId
                                   (purge_files e providerToken deletedFiles w3) of
                              (Inl x, w5) \<Rightarrow>
                                ((500, ErrorBody ''Failed to empty trash''),
                                 console_error ''Empty trash error:'' x w5)
                            | (Inr deletedFolders, w5) \<Rightarrow>
                                ((200, SuccessBody),
                                 purge_folders e providerToken deletedFolders w5))))))"

text \<open>
  A request body is the list of its fields, or \<open>None\<close> when it is not JSON and parsing
  it throws. \<^verbatim>\<open>PATCH /api/projects/:id\<close> reads the title and the status from the body
  and nothing else.
\<close>

type_synonym json_fields = "(string \<times> string) list"

definition api_patch_project ::
  "env \<Rightarrow> string option \<Rightarrow> string \<Rightarrow> json_fields option \<Rightarrow> world \<Rightarrow> response \<times> world" where
  "api_patch_project e uid projectId body w =
     (case requireAuth uid of
        None \<Rightarrow> ((401, ErrorBody ''Unauthorized''), w)
      | Some userId \<Rightarrow>
          (case storage_getProject e projectId w of
             (None, w1) \<Rightarrow> ((404, ErrorBody ''Project not found''), w1)
           | (Some project, w1) \<Rightarrow>
               if p_user_id project \<noteq> userId then ((403, ErrorBody ''Forbidden''), w1)
               else
                 (case body of
                    None \<Rightarrow>
                      ((500, ErrorBody ''Failed to update project''),
                       console_error ''Update project error:'' JsonError w1)
                  | Some obj \<Rightarrow>
                      (let title = map_of obj ''title'';
                           status = map_of obj ''status'';
                           updates = \<lparr>up_title = (if truthy title then title else None),
                                      up_description = None,
                                      up_root_drive_id = None,
                                      up_status = (if truthy status then status else None),
                                      up_is_deleted = None,
                                      up_deleted_at = None\<rparr>
                       in (case storage_updateProject e projectId updates w1 of
                             (updated, w2) \<Rightarrow> ((200, ProjectBody updated), w2))))))"

text \<open>
  \<^verbatim>\<open>POST /api/projects\<close>, in two definitions. The second half of the handler, from the
  credential on: the container is created at the provider first, then the row is inserted;
  when the insert throws, the container is deleted under \<^verbatim>\<open>try\<close> and the error of the
  insert is thrown on to the \<^verbatim>\<open>catch\<close> of the handler.
\<close>

definition create_project_in_drive_and_store ::
  "env \<Rightarrow> string \<Rightarrow> string \<Rightarrow> string \<Rightarrow> string option \<Rightarrow> world \<Rightarrow> response \<times> world" where
  "create_project_in_drive_and_store e userId providerToken folderDisplayName status w3 =
     (case googleDrive_createFolder e providerToken folderDisplayName None w3 of
        (Inl driveError, w4) \<Rightarrow>
          ((500, LocalizedError ''creating the Drive folder failed''),
           console_error ''Failed to create Drive folder:'' driveError w4)
      | (Inr driveFolderId, w4) \<Rightarrow>
          (case storage_createProject e
                  \<lparr>ip_user_id = userId,
                   ip_title = folderDisplayName,
                   ip_status = Some (if truthy status then js_string status else ''active''),
                   ip_root_drive_id = driveFolderId\<rparr> w4 of
             (Inl createError, w5) \<Rightarrow>
               ((500, ExnMessage createError),
                console_error ''Create project error:'' createError
                  (try_drive
                     (googleDrive_deleteFile e providerToken (js_string driveFolderId)
                        (console_error ''Database create error, cleaning up Drive folder:'' createError w5))
                     ''Failed to cleanup Drive folder:''))
           | (Inr project, w5) \<Rightarrow> ((201, CreatedBody project folderDisplayName), w5)))"

text \<open>
  The first half: authentication, the body, the title, the name of the container (the
  title and the academic year, or else the current year), the check for a project of that
  name among the active projects of the user, and the credential.
\<close>

definition api_post_projects ::
  "env \<Rightarrow> string option \<Rightarrow> json_fields option \<Rightarrow> world \<Rightarrow> response \<times> world" where
  "api_post_projects e uid body w =
     (case requireAuth uid of
        None \<Rightarrow> ((401, ErrorBody ''Unauthorized''), w)
      | Some userId \<Rightarrow>
          (case body of
             None \<Rightarrow> ((500, ExnMessage JsonError), console_error ''Create project error:'' JsonError w)
           | Some obj \<Rightarrow>
               (let title = map_of obj ''title'';
                    academicYear = map_of obj ''academicYear'';
                    status = map_of obj ''status''
                in if \<not> truthy title then ((400, LocalizedError ''title is required''), w)
                   else
                     (case (if truthy academicYear then (js_string academicYear, w)
                            else (case read_clock e w of (t, w0) \<Rightarrow> (year_string e t, w0))) of
                        (yearSuffix, w1) \<Rightarrow>
                          (let folderDisplayName = js_string title @ '' - '' @ yearSuffix
                           in (case storage_getProjects e userId w1 of
                                 (existingProjects, w2) \<Rightarrow>
                                   (case find (\<lambda>p. p_title p = folderDisplayName) existingProjects of
                                      Some duplicateProject \<Rightarrow>
                                        ((400, LocalizedError ''a project of this name exists''), w2)
                                    | None \<Rightarrow>
                                        (case getValidProviderToken e userId w2 of
                                           (providerToken, w3) \<Rightarrow>
                                             if \<not> truthy providerToken
                                             then ((400, LocalizedError ''Google Drive is not connected''), w3)
                                             else create_project_in_drive_and_store e userId
                                                    (js_string providerToken) folderDisplayName status w3))))))))"

text \<open>
  The requests of the project, folder, file and trash routes, and their dispatch. These are
  the routes that call a writing method of the storage layer on one of the three entity
  tables, together with the listing of the trash.
\<close>

datatype api_request =
    PostProjects "json_fields option"
  | PatchProject string "json_fields option"
  | DeleteProject string
  | RestoreProject string
  | PermanentDeleteProject string
  | DeleteFolder string
  | RestoreFolder string
  | PermanentDeleteFolder string
  | DeleteFile string
  | RestoreFile string
  | PermanentDeleteFile string
  | GetTrash string
  | EmptyTrash string

fun handle :: "env \<Rightarrow> string option \<Rightarrow> api_request \<Rightarrow> world \<Rightarrow> response \<times> world" where
  "handle e uid (PostProjects body) w = api_post_projects e uid body w"
| "handle e uid (PatchProject i body) w = api_patch_project e uid i body w"
| "handle e uid (DeleteProject i) w = api_delete_project e uid i w"
| "handle e uid (RestoreProject i) w = api_restore_project e uid i w"
| "handle e uid (PermanentDeleteProject i) w = api_permanent_delete_project e uid i w"
| "handle e uid (DeleteFolder i) w = api_delete_folder e uid i w"
| "handle e uid (RestoreFolder i) w = api_restore_folder e uid i w"
| "handle e uid (PermanentDeleteFolder i) w = api_permanent_delete_folder e uid i w"
| "handle e uid (DeleteFile i) w = api_delete_file e uid i w"
| "handle e uid (RestoreFile i) w = api_restore_file e uid i w"
| "handle e uid (PermanentDeleteFile i) w = api_permanent_delete_file e uid i w"
| "handle e uid (GetTrash i) w = api_get_trash e uid i w"
| "handle e uid (EmptyTrash i) w = api_empty_trash e uid i w"

text \<open>A request with its two authentication headers, through the middleware.\<close>

definition serve ::
  "env \<Rightarrow> string option \<Rightarrow> string option \<Rightarrow> api_request \<Rightarrow> world \<Rightarrow> response \<times> world" where
  "serve e accessToken userIdHeader rq w =
     (case auth_middleware e accessToken userIdHeader w of
        ((userId, userEmail), w') \<Rightarrow> handle e userId rq w')"

section \<open>Vocabulary of the statements\<close>

text \<open>
  The definitions of this section are not code of the repository: they name what the
  theorems below talk about. The store is reliable when none of its calls returns an
  error.
\<close>

definition db_reliable :: "env \<Rightarrow> bool" where
  "db_reliable e = (\<forall>n. \<not> db_error e n)"

text \<open>The content of the Metadata Store: the three entity tables.\<close>

definition store :: "world \<Rightarrow> project list \<times> folder list \<times> file_metadata list" where
  "store w = (projects w, folders w, files w)"

text \<open>
  A request left the state alone: the three tables are as before, no request was sent to
  the provider and nothing was reported.
\<close>

definition untouched :: "world \<Rightarrow> world \<Rightarrow> bool" where
  "untouched w w' = (store w' = store w \<and> trace w' = trace w \<and> errlog w' = errlog w)"

text \<open>
  The three entity kinds, the three transitions of the lifecycle, and the route of each
  transition on each kind.
\<close>

datatype entity_kind = Project | Folder | File

datatype lifecycle_op = SoftDelete | Restore | HardDelete

fun lifecycle_route :: "lifecycle_op \<Rightarrow> entity_kind \<Rightarrow> string \<Rightarrow> api_request" where
  "lifecycle_route SoftDelete Project i = DeleteProject i"
| "lifecycle_route Restore Project i = RestoreProject i"
| "lifecycle_route HardDelete Project i = PermanentDeleteProject i"
| "lifecycle_route SoftDelete Folder i = DeleteFolder i"
| "lifecycle_route Restore Folder i = RestoreFolder i"
| "lifecycle_route HardDelete Folder i = PermanentDeleteFolder i"
| "lifecycle_route SoftDelete File i = DeleteFile i"
| "lifecycle_route Restore File i = RestoreFile i"
| "lifecycle_route HardDelete File i = PermanentDeleteFile i"

text \<open>
  What the store holds of an entity: the soft-delete flag and the deletion time of every
  row with the identifier. One pair is an entity that exists; \<open>[(False, None)]\<close> is an
  active one, \<open>[(True, Some t)]\<close> one that was soft-deleted at \<open>t\<close>, and \<open>[]\<close> one
  that is not in the store.
\<close>

fun entity_flags :: "entity_kind \<Rightarrow> string \<Rightarrow> world \<Rightarrow> (bool \<times> nat option) list" where
  "entity_flags Project i w =
     map (\<lambda>p. (p_is_deleted p, p_deleted_at p)) (filter (\<lambda>p. p_id p = i) (projects w))"
| "entity_flags Folder i w =
     map (\<lambda>f. (fo_is_deleted f, fo_deleted_at f)) (filter (\<lambda>f. fo_id f = i) (folders w))"
| "entity_flags File i w =
     map (\<lambda>f. (fi_is_deleted f, fi_deleted_at f)) (filter (\<lambda>f. fi_id f = i) (files w))"

text \<open>
  The owner of an entity: the user of the project row itself, and for a folder or a file
  the user of the project row that it refers to. \<open>None\<close> when there is not exactly one
  such row.
\<close>

definition project_owner :: "string \<Rightarrow> world \<Rightarrow> string option" where
  "project_owner i w = map_option p_user_id (single (filter (\<lambda>p. p_id p = i) (projects w)))"

fun entity_owner :: "entity_kind \<Rightarrow> string \<Rightarrow> world \<Rightarrow> string option" where
  "entity_owner Project i w = project_owner i w"
| "entity_owner Folder i w =
     (case single (filter (\<lambda>f. fo_id f = i) (folders w)) of
        None \<Rightarrow> None
      | Some f \<Rightarrow> project_owner (fo_project_id f) w)"
| "entity_owner File i w =
     (case single (filter (\<lambda>f. fi_id f = i) (files w)) of
        None \<Rightarrow> None
      | Some f \<Rightarrow> project_owner (fi_project_id f) w)"

text \<open>
  The store with the \<^verbatim>\<open>updated_at\<close> stamp of one entity replaced and nothing else
  changed.
\<close>

fun restamped :: "entity_kind \<Rightarrow> string \<Rightarrow> nat \<Rightarrow> world
    \<Rightarrow> project list \<times> folder list \<times> file_metadata list" where
  "restamped Project i t w =
     (map (\<lambda>p. if p_id p = i then p\<lparr>p_updated_at := t\<rparr> else p) (projects w), folders w, files w)"
| "restamped Folder i t w =
     (projects w, map (\<lambda>f. if fo_id f = i then f\<lparr>fo_updated_at := t\<rparr> else f) (folders w), files w)"
| "restamped File i t w =
     (projects w, folders w, map (\<lambda>f. if fi_id f = i then f\<lparr>fi_updated_at := t\<rparr> else f) (files w))"

text \<open>
  The requests that mirror a transition at the provider, and the outcomes on which the
  storage client throws.
\<close>

fun is_mirror_request :: "drive_request \<Rightarrow> bool" where
  "is_mirror_request (PatchTrashedReq accessToken fileId trashed) = True"
| "is_mirror_request (DeleteReq accessToken fileId) = True"
| "is_mirror_request rq = False"

fun failing_outcome :: "http_outcome \<Rightarrow> bool" where
  "failing_outcome FetchRejected = True"
| "failing_outcome (Response s b) = (\<not> response_ok s \<and> s \<noteq> 404)"

text \<open>
  The requests of the credential check, and the outcome of a request to create a folder
  that gives the caller the created folder.
\<close>

fun is_credential_request :: "drive_request \<Rightarrow> bool" where
  "is_credential_request (AboutReq accessToken) = True"
| "is_credential_request (RefreshReq clientId clientSecret refresh) = True"
| "is_credential_request rq = False"

fun container_created :: "http_outcome \<Rightarrow> bool" where
  "container_created (Response s (JsonObj d)) = response_ok s"
| "container_created outcome = False"

text \<open>
  Between two states, every request that mirrors a transition and got a failing outcome
  was reported: the requests sent and the reports written in between are \<open>rs\<close> and
  \<open>es\<close>, and for a mirror request among \<open>rs\<close> whose outcome is failing there is a
  report under the message \<open>msg\<close> among \<open>es\<close>.
\<close>

definition mirror_reported :: "env \<Rightarrow> string \<Rightarrow> world \<Rightarrow> world \<Rightarrow> bool" where
  "mirror_reported e msg w w' =
     (\<exists>rs es. trace w' = trace w @ rs \<and> errlog w' = errlog w @ es \<and>
        (\<forall>n<length rs. is_mirror_request (rs ! n) \<and> failing_outcome (net e (length (trace w) + n))
            \<longrightarrow> (\<exists>x. (msg, x) \<in> set es)))"

text \<open>The message under which each lifecycle handler reports a failed mirror call.\<close>

fun mirror_failure_message :: "lifecycle_op \<Rightarrow> entity_kind \<Rightarrow> string" where
  "mirror_failure_message SoftDelete Project = ''Failed to trash Drive folder:''"
| "mirror_failure_message Restore Project = ''Failed to restore Drive folder:''"
| "mirror_failure_message HardDelete Project = ''Failed to delete Drive folder:''"
| "mirror_failure_message SoftDelete Folder = ''Failed to trash Drive folder:''"
| "mirror_failure_message Restore Folder = ''Failed to restore Drive folder:''"
| "mirror_failure_message HardDelete Folder = ''Failed to delete Drive folder:''"
| "mirror_failure_message SoftDelete File = ''Failed to trash Drive file:''"
| "mirror_failure_message Restore File = ''Failed to restore Drive file:''"
| "mirror_failure_message HardDelete File = ''Failed to delete Drive file:''"

text \<open>
  The four ways in which the creation of a project can end, seen from outside. Up to the
  credential check the handler has sent the requests \<open>rs0\<close>; \<open>es\<close> are the reports it
  has written. Either no container was asked for, and no row was written and the answer is
  not 201; or the request for the container failed, and no row was written and the answer
  is 500; or the container was created and no row was written: then the answer is 500, the
  one request that follows is the deletion of that container, and its failure was
  reported; or the container was created and the answer is 201 with the one new row, which
  refers to the container.
\<close>

definition two_phase_outcome ::
  "env \<Rightarrow> world \<Rightarrow> drive_request list \<Rightarrow> response \<Rightarrow> world \<Rightarrow> bool" where
  "two_phase_outcome e w rs0 resp w' =
     (\<exists>es. errlog w' = errlog w @ es \<and> folders w' = folders w \<and> files w' = files w \<and>
        ((trace w' = trace w @ rs0 \<and> projects w' = projects w \<and> fst resp \<noteq> 201)
         \<or> (\<exists>tok name.
               trace w' = trace w @ rs0 @ [CreateFolderReq tok name None]
               \<and> \<not> container_created (net e (length (trace w) + length rs0))
               \<and> projects w' = projects w \<and> fst resp = 500)
         \<or> (\<exists>tok name s d.
               trace w' = trace w @ rs0 @ [CreateFolderReq tok name None, DeleteReq tok (js_string d)]
               \<and> net e (length (trace w) + length rs0) = Response s (JsonObj d) \<and> response_ok s
               \<and> projects w' = projects w \<and> fst resp = 500
               \<and> (failing_outcome (net e (Suc (length (trace w) + length rs0)))
                    \<longrightarrow> (\<exists>x. (''Failed to cleanup Drive folder:'', x) \<in> set es)))
         \<or> (\<exists>tok name s d row.
               trace w' = trace w @ rs0 @ [CreateFolderReq tok name None]
               \<and> net e (length (trace w) + length rs0) = Response s (JsonObj d) \<and> response_ok s
               \<and> projects w' = projects w @ [row] \<and> resp = (201, CreatedBody row name)
               \<and> p_id row \<notin> p_id ` set (projects w)
               \<and> p_root_drive_id row = Some (if truthy d then js_string d else [])
               \<and> p_title row = name \<and> \<not> p_is_deleted row)))"

text \<open>The root storage reference of every project row, by position and identifier.\<close>

definition root_refs :: "world \<Rightarrow> (string \<times> string option) list" where
  "root_refs w = map (\<lambda>p. (p_id p, p_root_drive_id p)) (projects w)"

text \<open>
  A project row without the three columns that \<^verbatim>\<open>PATCH /api/projects/:id\<close> can write:
  the title, the status and the time of the last update.
\<close>

definition beside_patch :: "project \<Rightarrow> project" where
  "beside_patch p = p\<lparr>p_title := [], p_status := [], p_updated_at := 0\<rparr>"

section \<open>Example data\<close>

text \<open>
  A small store for the concrete instances: two users, alice owning an active project, a
  soft-deleted project, and in the first project an active and a soft-deleted folder and
  an active and two soft-deleted files; bob owning one project. Alice has a provider
  credential on record.
\<close>

definition demo_project :: "string \<Rightarrow> string \<Rightarrow> bool \<Rightarrow> nat \<Rightarrow> project" where
  "demo_project i u deleted t =
     \<lparr>p_id = i, p_user_id = u, p_title = ''Portfolio - 2024'', p_description = None,
      p_root_drive_id = Some (''drive-'' @ i), p_status = ''active'',
      p_is_deleted = deleted, p_deleted_at = (if deleted then Some 40 else None),
      p_created_at = t, p_updated_at = t\<rparr>"

definition demo_folder :: "string \<Rightarrow> string \<Rightarrow> bool \<Rightarrow> nat \<Rightarrow> folder" where
  "demo_folder i pid deleted t =
     \<lparr>fo_id = i, fo_project_id = pid, fo_parent_id = None, fo_drive_folder_id = ''drive-'' @ i,
      fo_folder_name = ''Lessons'', fo_sort_order = int t,
      fo_is_deleted = deleted, fo_deleted_at = (if deleted then Some 40 else None),
      fo_created_at = t, fo_updated_at = t\<rparr>"

definition demo_file :: "string \<Rightarrow> string \<Rightarrow> bool \<Rightarrow> nat \<Rightarrow> file_metadata" where
  "demo_file i pid deleted t =
     \<lparr>fi_id = i, fi_project_id = pid, fi_folder_id = None, fi_drive_file_id = ''drive-'' @ i,
      fi_file_name = ''plan.pdf'', fi_mime_type = ''application/pdf'', fi_size_bytes = Some 1024,
      fi_checksum = None, fi_web_view_link = None,
      fi_is_deleted = deleted, fi_deleted_at = (if deleted then Some 40 else None),
      fi_created_at = t, fi_updated_at = t\<rparr>"

definition demo_world :: world where
  "demo_world =
     \<lparr>projects = [demo_project ''p1'' ''alice'' False 10, demo_project ''p2'' ''alice'' True 11,
                  demo_project ''p3'' ''bob'' False 12],
      folders = [demo_folder ''f1'' ''p1'' False 20, demo_folder ''f2'' ''p1'' True 21],
      files = [demo_file ''x1'' ''p1'' False 30, demo_file ''x2'' ''p1'' True 31,
               demo_file ''x3'' ''p1'' True 32],
      drive_connections =
        (\<lambda>u. if u = ''alice'' then Some \<lparr>token = Some ''ya29'', refreshToken = None\<rparr> else None),
      providerTokensCache = (\<lambda>u. None),
      trace = [],
      db_calls = 0,
      clock_reads = 0,
      errlog = []\<rparr>"

text \<open>
  An environment with a reliable store, a clock that starts at 5000 and advances by one
  with each reading, and the given answers of the provider and decoding of token payloads.
\<close>

definition demo_env :: "(nat \<Rightarrow> http_outcome) \<Rightarrow> (string \<Rightarrow> jwt_payload option) \<Rightarrow> env" where
  "demo_env answers decode =
     \<lparr>net = answers,
      db_error = (\<lambda>n. False),
      clock = (\<lambda>n. 5000 + n),
      new_uuid = (\<lambda>n. ''p9''),
      isProduction = True,
      GOOGLE_CLIENT_ID = None,
      GOOGLE_CLIENT_SECRET = None,
      json_of_base64 = decode,
      year_string = (\<lambda>t. ''2024'')\<rparr>"

text \<open>
  The decoding of three payload segments: \<^verbatim>\<open>{"sub":"alice"}\<close>, \<^verbatim>\<open>{"sub":""}\<close> and
  \<^verbatim>\<open>{"sub":"alice","exp":1}\<close>.
\<close>

definition demo_decode :: "string \<Rightarrow> jwt_payload option" where
  "demo_decode s =
     (if s = ''eyJzdWIiOiJhbGljZSJ9''
      then Some \<lparr>jwt_sub = Some ''alice'', jwt_exp = None, jwt_email = None\<rparr>
      else if s = ''eyJzdWIiOiIifQ''
      then Some \<lparr>jwt_sub = Some [], jwt_exp = None, jwt_email = None\<rparr>
      else if s = ''eyJzdWIiOiJhbGljZSIsImV4cCI6MX0''
      then Some \<lparr>jwt_sub = Some ''alice'', jwt_exp = Some 1, jwt_email = None\<rparr>
      else None)"

text \<open>
  The provider accepts the credential test (the first exchange) and answers every later
  request with status 500.
\<close>

definition failing_provider :: "nat \<Rightarrow> http_outcome" where
  "failing_provider n = (if n = 0 then Response 200 (JsonObj None) else Response 500 (JsonObj None))"

text \<open>The provider accepts every request; a created folder has the identifier \<open>drive-new\<close>.\<close>

definition healthy_provider :: "nat \<Rightarrow> http_outcome" where
  "healthy_provider n = Response 200 (JsonObj (Some ''drive-new''))"

text \<open>The provider accepts the first \<open>k\<close> requests and answers the later ones with status 500.\<close>

definition provider_failing_from :: "nat \<Rightarrow> nat \<Rightarrow> http_outcome" where
  "provider_failing_from k n =
     (if n < k then Response 200 (JsonObj (Some ''drive-new'')) else Response 500 (JsonObj None))"

text \<open>An environment as \<open>demo_env\<close> whose store returns an error on every call from the n-th on.\<close>

definition failing_store_env :: "(nat \<Rightarrow> http_outcome) \<Rightarrow> nat \<Rightarrow> env" where
  "failing_store_env answers n = (demo_env answers (\<lambda>s. None))\<lparr>db_error := (\<lambda>k. n \<le> k)\<rparr>"

text \<open>An environment as \<open>demo_env\<close> whose store returns an error on its n-th call and on no other.\<close>

definition flaky_store_env :: "(nat \<Rightarrow> http_outcome) \<Rightarrow> nat \<Rightarrow> env" where
  "flaky_store_env answers n = (demo_env answers (\<lambda>s. None))\<lparr>db_error := (\<lambda>k. k = n)\<rparr>"


section \<open>The provider calls and the credential check leave the store alone\<close>

text \<open>
  Nothing in the storage client or in the credential handling writes to one of the three
  entity tables.
\<close>

lemmas io_defs = fetch_def console_error_def read_clock_def store_call_def

lemma store_io [simp]:
  "store (snd (fetch e rq w)) = store w"
  "store (console_error m x w) = store w"
  "store (snd (read_clock e w)) = store w"
  "store (snd (store_call e w)) = store w"
  by (simp_all add: store_def io_defs)

lemma store_drive_void_call [simp]: "store (snd (drive_void_call e rq m w)) = store w"
  by (simp add: drive_void_call_def store_def io_defs split: http_outcome.splits http_body.splits)

lemma store_drive_ops [simp]:
  "store (snd (googleDrive_deleteFile e a i w)) = store w"
  "store (snd (googleDrive_trashFile e a i w)) = store w"
  "store (snd (googleDrive_untrashFile e a i w)) = store w"
  "store (snd (googleDrive_permanentDeleteFile e a i w)) = store w"
  by (simp_all add: googleDrive_deleteFile_def googleDrive_trashFile_def
      googleDrive_untrashFile_def googleDrive_permanentDeleteFile_def)

lemma store_createFolder [simp]: "store (snd (googleDrive_createFolder e a n p w)) = store w"
  by (simp add: googleDrive_createFolder_def store_def io_defs split: http_outcome.splits http_body.splits)

lemma store_refresh [simp]: "store (snd (googleDrive_refreshAccessToken e a b c w)) = store w"
  by (simp add: googleDrive_refreshAccessToken_def store_def io_defs split: http_outcome.splits http_body.splits)

lemma store_getTokens [simp]: "store (snd (driveConnectionsRepository_getTokens e u w)) = store w"
  by (simp add: driveConnectionsRepository_getTokens_def store_def io_defs split: bool.splits)

lemma store_storeTokens [simp]: "store (snd (driveConnectionsRepository_storeTokens e u a r w)) = store w"
  by (simp add: driveConnectionsRepository_storeTokens_def store_def io_defs split: bool.splits)

lemma store_getProviderToken [simp]: "store (snd (storage_getProviderToken e u w)) = store w"
  by (simp add: storage_getProviderToken_def driveConnectionsRepository_getTokens_def store_def io_defs split: bool.splits option.splits)

lemma store_storeProviderToken [simp]: "store (snd (storage_storeProviderToken e u a r w)) = store w"
  by (simp add: storage_storeProviderToken_def driveConnectionsRepository_storeTokens_def store_def io_defs split: bool.splits sum.splits prod.splits)

lemma store_clearCache [simp]: "store (storage_clearProviderTokenCache u w) = store w"
  by (simp add: storage_clearProviderTokenCache_def store_def)

lemma store_getValidProviderToken [simp]: "store (snd (getValidProviderToken e u w)) = store w"
  unfolding getValidProviderToken_def
  by (simp add: case_prod_beta split: option.splits http_outcome.splits sum.splits)

lemma store_try_drive [simp]: "store (try_drive r m) = store (snd r)"
  by (simp add: try_drive_def split: prod.splits sum.splits)

lemma store_mirror:
  assumes "\<And>a i w. store (snd (driveOp e a i w)) = store w"
  shows "store (mirror e u d driveOp m w) = store w"
  unfolding mirror_def by (simp add: case_prod_beta assms)

lemma tables_console_error [simp]:
  "projects (console_error m x w) = projects w"
  "folders (console_error m x w) = folders w"
  "files (console_error m x w) = files w"
  by (simp_all add: console_error_def)

section \<open>What the credential check sends and reports\<close>

text \<open>
  The credential check sends no request that mirrors a transition, and it only appends to
  the error log.
\<close>

lemma trace_io [simp]:
  "trace (snd (fetch e rq w)) = trace w @ [rq]"
  "trace (console_error m x w) = trace w"
  "trace (snd (read_clock e w)) = trace w"
  "trace (snd (store_call e w)) = trace w"
  by (simp_all add: io_defs)

lemma errlog_io [simp]:
  "errlog (snd (fetch e rq w)) = errlog w"
  "errlog (console_error m x w) = errlog w @ [(m, x)]"
  "errlog (snd (read_clock e w)) = errlog w"
  "errlog (snd (store_call e w)) = errlog w"
  by (simp_all add: io_defs)

lemma fst_fetch [simp]: "fst (fetch e rq w) = net e (length (trace w))"
  by (simp add: fetch_def)

lemma trace_credentials [simp]:
  "trace (snd (driveConnectionsRepository_getTokens e u w)) = trace w"
  "trace (snd (driveConnectionsRepository_storeTokens e u a r w)) = trace w"
  "trace (snd (storage_getProviderToken e u w)) = trace w"
  "trace (snd (storage_storeProviderToken e u a r w)) = trace w"
  "trace (storage_clearProviderTokenCache u w) = trace w"
  "trace (snd (googleDrive_refreshAccessToken e ci cs rt w)) = trace w @ [RefreshReq ci cs rt]"
  by (simp_all add: driveConnectionsRepository_getTokens_def driveConnectionsRepository_storeTokens_def
      storage_getProviderToken_def storage_storeProviderToken_def storage_clearProviderTokenCache_def
      googleDrive_refreshAccessToken_def io_defs case_prod_beta
      split: bool.splits option.splits sum.splits http_outcome.splits http_body.splits)

lemma errlog_credentials [simp]:
  "errlog (snd (driveConnectionsRepository_getTokens e u w)) = errlog w"
  "errlog (snd (storage_getProviderToken e u w)) = errlog w"
  "errlog (storage_clearProviderTokenCache u w) = errlog w"
  "errlog (snd (googleDrive_refreshAccessToken e ci cs rt w)) = errlog w"
  by (simp_all add: driveConnectionsRepository_getTokens_def
      storage_getProviderToken_def storage_clearProviderTokenCache_def
      googleDrive_refreshAccessToken_def io_defs case_prod_beta
      split: bool.splits option.splits sum.splits http_outcome.splits http_body.splits)

lemma errlog_storeTokens [simp]:
  "errlog (snd (driveConnectionsRepository_storeTokens e u a r w)) =
     errlog w @ (if db_error e (db_calls w) then [(''Failed to store tokens:'', StoreError)] else [])"
  "errlog (snd (storage_storeProviderToken e u a r w)) =
     errlog w @ (if db_error e (db_calls w) then [(''Failed to store tokens:'', StoreError)] else [])"
  by (simp_all add: driveConnectionsRepository_storeTokens_def storage_storeProviderToken_def
      io_defs case_prod_beta split: bool.splits sum.splits)

lemma trace_getValidProviderToken:
  "\<exists>rs. trace (snd (getValidProviderToken e u w)) = trace w @ rs \<and> (\<forall>r\<in>set rs. \<not> is_mirror_request r)"
  unfolding getValidProviderToken_def
  by (simp add: case_prod_beta split: option.splits http_outcome.splits sum.splits)

lemma errlog_getValidProviderToken:
  "\<exists>es. errlog (snd (getValidProviderToken e u w)) = errlog w @ es"
  unfolding getValidProviderToken_def
  by (simp add: case_prod_beta split: option.splits http_outcome.splits sum.splits)

text \<open>
  A drive call under \<^verbatim>\<open>try\<close> sends one request and reports exactly the failing
  outcome; so the best-effort block reports every failed mirror request.
\<close>

lemma drive_void_call_effect:
  "trace (snd (drive_void_call e rq m w)) = trace w @ [rq]"
  "errlog (snd (drive_void_call e rq m w)) = errlog w"
  "isl (fst (drive_void_call e rq m w)) = failing_outcome (net e (length (trace w)))"
  by (simp_all add: drive_void_call_def case_prod_beta split: http_outcome.splits http_body.splits)

lemma try_drive_effect:
  "trace (try_drive (drive_void_call e rq m w) msg) = trace w @ [rq]"
  "errlog (try_drive (drive_void_call e rq m w) msg) =
     errlog w @ (if failing_outcome (net e (length (trace w)))
                 then [(msg, projl (fst (drive_void_call e rq m w)))] else [])"
  using drive_void_call_effect[of e rq m w]
  by (auto simp add: try_drive_def split: prod.splits sum.splits)

lemma mirror_reports:
  assumes op: "\<And>a i w. driveOp e a i w = drive_void_call e (rq a i) (m0 a i) w"
  shows "mirror_reported e msg w (mirror e u d driveOp msg w)"
proof (cases "truthy d")
  case False
  then show ?thesis by (simp add: mirror_def mirror_reported_def)
next
  case True
  obtain rs1 where rs1: "trace (snd (getValidProviderToken e u w)) = trace w @ rs1"
      "\<forall>r\<in>set rs1. \<not> is_mirror_request r"
    using trace_getValidProviderToken by blast
  obtain es1 where es1: "errlog (snd (getValidProviderToken e u w)) = errlog w @ es1"
    using errlog_getValidProviderToken by blast
  show ?thesis
  proof (cases "truthy (fst (getValidProviderToken e u w))")
    case False
    with True rs1 es1 show ?thesis
      by (auto simp add: mirror_def mirror_reported_def case_prod_beta)
  next
    case tok: True
    let ?w1 = "snd (getValidProviderToken e u w)"
    let ?r = "rq (js_string (fst (getValidProviderToken e u w))) (js_string d)"
    let ?m = "m0 (js_string (fst (getValidProviderToken e u w))) (js_string d)"
    have m: "mirror e u d driveOp msg w = try_drive (drive_void_call e ?r ?m ?w1) msg"
      using True tok by (simp add: mirror_def case_prod_beta op)
    have t: "trace (mirror e u d driveOp msg w) = trace w @ (rs1 @ [?r])"
      by (simp add: m try_drive_effect rs1)
    have l: "errlog (mirror e u d driveOp msg w) =
        errlog w @ (es1 @ (if failing_outcome (net e (length (trace w) + length rs1))
                          then [(msg, projl (fst (drive_void_call e ?r ?m ?w1)))] else []))"
      by (simp add: m try_drive_effect rs1 es1)
    have "\<forall>n<length (rs1 @ [?r]). is_mirror_request ((rs1 @ [?r]) ! n) \<and>
             failing_outcome (net e (length (trace w) + n)) \<longrightarrow>
           (\<exists>x. (msg, x) \<in> set (es1 @ (if failing_outcome (net e (length (trace w) + length rs1))
                          then [(msg, projl (fst (drive_void_call e ?r ?m ?w1)))] else [])))"
    proof (intro allI impI)
      fix n assume n: "n < length (rs1 @ [?r])"
        and h: "is_mirror_request ((rs1 @ [?r]) ! n) \<and> failing_outcome (net e (length (trace w) + n))"
      show "\<exists>x. (msg, x) \<in> set (es1 @ (if failing_outcome (net e (length (trace w) + length rs1))
                          then [(msg, projl (fst (drive_void_call e ?r ?m ?w1)))] else []))"
      proof (cases "n < length rs1")
        case True
        then have "\<not> is_mirror_request ((rs1 @ [?r]) ! n)"
          using rs1(2) by (simp add: nth_append)
        with h show ?thesis by simp
      next
        case False
        with n have "n = length rs1" by simp
        with h show ?thesis by auto
      qed
    qed
    with t l show ?thesis unfolding mirror_reported_def by blast
  qed
qed

text \<open>Nothing takes a reading of the clock back.\<close>

lemma clock_reads_io [simp]:
  "clock_reads (snd (fetch e rq w)) = clock_reads w"
  "clock_reads (console_error m x w) = clock_reads w"
  "clock_reads (snd (read_clock e w)) = Suc (clock_reads w)"
  "clock_reads (snd (store_call e w)) = clock_reads w"
  by (simp_all add: io_defs)

lemma clock_reads_credentials [simp]:
  "clock_reads (snd (driveConnectionsRepository_getTokens e u w)) = clock_reads w"
  "clock_reads (snd (driveConnectionsRepository_storeTokens e u a r w)) = Suc (clock_reads w)"
  "clock_reads (snd (storage_getProviderToken e u w)) = clock_reads w"
  "clock_reads (snd (storage_storeProviderToken e u a r w)) = Suc (clock_reads w)"
  "clock_reads (storage_clearProviderTokenCache u w) = clock_reads w"
  "clock_reads (snd (googleDrive_refreshAccessToken e ci cs rt w)) = clock_reads w"
  "clock_reads (snd (drive_void_call e rq m w)) = clock_reads w"
  by (simp_all add: driveConnectionsRepository_getTokens_def driveConnectionsRepository_storeTokens_def
      storage_getProviderToken_def storage_storeProviderToken_def storage_clearProviderTokenCache_def
      googleDrive_refreshAccessToken_def drive_void_call_def io_defs case_prod_beta
      split: bool.splits option.splits sum.splits http_outcome.splits http_body.splits)

lemma clock_reads_getValidProviderToken:
  "clock_reads w \<le> clock_reads (snd (getValidProviderToken e u w))"
  unfolding getValidProviderToken_def
  by (simp add: case_prod_beta split: option.splits http_outcome.splits sum.splits)

lemma clock_reads_try_drive [simp]: "clock_reads (try_drive r m) = clock_reads (snd r)"
  by (simp add: try_drive_def split: prod.splits sum.splits)

lemma clock_reads_mirror:
  assumes "\<And>a i w. clock_reads (snd (driveOp e a i w)) = clock_reads w"
  shows "clock_reads w \<le> clock_reads (mirror e u d driveOp m w)"
  unfolding mirror_def
  using clock_reads_getValidProviderToken[of w e u] by (simp add: case_prod_beta assms)

lemma clock_reads_mirror_ops:
  "clock_reads w \<le> clock_reads (mirror e u d googleDrive_trashFile m w)"
  "clock_reads w \<le> clock_reads (mirror e u d googleDrive_untrashFile m w)"
  "clock_reads w \<le> clock_reads (mirror e u d googleDrive_permanentDeleteFile m w)"
  by (rule clock_reads_mirror, simp add: googleDrive_trashFile_def googleDrive_untrashFile_def
        googleDrive_permanentDeleteFile_def)+

section \<open>The repositories on a reliable store\<close>

lemmas storage_defs =
  storage_getProjects_def storage_getProject_def storage_createProject_def storage_updateProject_def
  storage_getDeletedProjects_def storage_softDeleteProject_def storage_restoreProject_def
  storage_hardDeleteProject_def storage_getFolder_def storage_getDeletedFolders_def
  storage_softDeleteFolder_def storage_restoreFolder_def storage_hardDeleteFolder_def
  storage_getFile_def storage_getDeletedFiles_def storage_deleteFile_def storage_restoreFile_def
  storage_hardDeleteFile_def

lemmas repository_defs =
  projectsRepository_getAll_def projectsRepository_getByIdWithoutUser_def projectsRepository_create_def
  projectsRepository_updateWithoutUser_def projectsRepository_softDelete_def
  projectsRepository_restore_def projectsRepository_hardDelete_def
  foldersRepository_getAll_def foldersRepository_getById_def foldersRepository_softDelete_def
  foldersRepository_restore_def foldersRepository_hardDelete_def
  filesMetadataRepository_getAll_def filesMetadataRepository_getById_def
  filesMetadataRepository_softDelete_def filesMetadataRepository_hardDelete_def
  filesMetadataRepository_restore_def

lemmas credential_defs = getValidProviderToken_def storage_getProviderToken_def
  storage_storeProviderToken_def storage_clearProviderTokenCache_def
  driveConnectionsRepository_getTokens_def driveConnectionsRepository_storeTokens_def
  googleDrive_refreshAccessToken_def mirror_def try_drive_def

lemmas drive_defs = drive_void_call_def googleDrive_deleteFile_def googleDrive_trashFile_def
  googleDrive_untrashFile_def googleDrive_permanentDeleteFile_def googleDrive_createFolder_def

lemmas handler_defs = api_delete_project_def api_restore_project_def api_permanent_delete_project_def
  api_delete_folder_def api_restore_folder_def api_permanent_delete_folder_def
  api_delete_file_def api_restore_file_def api_permanent_delete_file_def
  api_get_trash_def api_empty_trash_def api_patch_project_def api_post_projects_def
  create_project_in_drive_and_store_def

lemmas demo_defs = demo_world_def demo_env_def demo_project_def demo_folder_def demo_file_def
  failing_provider_def healthy_provider_def provider_failing_from_def failing_store_env_def
  flaky_store_env_def

text \<open>Everything that a run on concrete data unfolds.\<close>

lemmas run_defs = handler_defs storage_defs repository_defs credential_defs drive_defs io_defs
  requireAuth_def truthy_def js_string_def single_def response_ok_def

lemma reliable_store_call [simp]:
  "db_reliable e \<Longrightarrow> store_call e w = (False, w\<lparr>db_calls := Suc (db_calls w)\<rparr>)"
  by (simp add: store_call_def db_reliable_def)

lemma requireAuth_Some [simp]: "u \<noteq> [] \<Longrightarrow> requireAuth (Some u) = Some u"
  by (simp add: requireAuth_def truthy_def)

lemma single_singleton [simp]: "single [x] = Some x"
  by (simp add: single_def)

lemma single_SomeD: "single xs = Some x \<Longrightarrow> xs = [x]"
  by (simp add: single_def split: list.splits)

lemma tables_of_store:
  "store a = store b \<Longrightarrow> projects a = projects b \<and> folders a = folders b \<and> files a = files b"
  by (simp add: store_def)

lemma mirror_tables [simp]:
  assumes "\<And>a i w. store (snd (driveOp e a i w)) = store w"
  shows "projects (mirror e u d driveOp m w) = projects w"
    and "folders (mirror e u d driveOp m w) = folders w"
    and "files (mirror e u d driveOp m w) = files w"
  using tables_of_store[OF store_mirror[of driveOp e u d m w, OF assms]] by simp_all

lemma mirror_reports_ops:
  "mirror_reported e msg w (mirror e u d googleDrive_trashFile msg w)"
  "mirror_reported e msg w (mirror e u d googleDrive_untrashFile msg w)"
  "mirror_reported e msg w (mirror e u d googleDrive_permanentDeleteFile msg w)"
  by (rule mirror_reports, simp add: googleDrive_trashFile_def googleDrive_untrashFile_def
        googleDrive_permanentDeleteFile_def)+

lemma mirror_reported_shift:
  assumes "mirror_reported e msg a b"
    and "trace a = trace w" "errlog a = errlog w" "trace w' = trace b" "errlog w' = errlog b"
  shows "mirror_reported e msg w w'"
  using assms unfolding mirror_reported_def by simp

lemma unique_rowD:
  "filter P xs = [x] \<Longrightarrow> x \<in> set xs \<and> P x \<and> (\<forall>y\<in>set xs. P y \<longrightarrow> y = x)"
proof -
  assume a: "filter P xs = [x]"
  then have "set (filter P xs) = {x}" by simp
  then show ?thesis by auto
qed

lemma find_SomeD: "find P xs = Some x \<Longrightarrow> x \<in> set xs \<and> P x"
  by (induction xs) (auto split: if_splits)

lemma find_unique_row:
  assumes "filter P xs = [x]" and "Q x"
  shows "find P (rev (sort_key k (filter Q xs))) = Some x"
proof -
  let ?ys = "rev (sort_key k (filter Q xs))"
  have x: "x \<in> set ?ys" "P x" using unique_rowD[OF assms(1)] assms(2) by auto
  then have "find P ?ys \<noteq> None" by (auto simp add: find_None_iff)
  then obtain y where y: "find P ?ys = Some y" by blast
  then have "y \<in> set ?ys \<and> P y" by (rule find_SomeD)
  then have "y = x" using unique_rowD[OF assms(1)] by auto
  with y show ?thesis by simp
qed

section \<open>The effect of the lifecycle handlers\<close>

text \<open>
  For the owner of an entity that is there once, on a reliable store, each of the nine
  handlers answers 200, writes its transition to the store and nothing else, and reports
  a failed mirror request. The nine proofs are one proof, as the nine handlers are one
  handler.
\<close>

lemma api_delete_project_effect:
  assumes "db_reliable e" "u \<noteq> []"
    and "filter (\<lambda>p. p_id p = i) (projects w) = [p]" "p_user_id p = u"
  shows "\<exists>w' n. api_delete_project e (Some u) i w = ((200, SuccessBody), w')
     \<and> folders w' = folders w
     \<and> files w' = files w
     \<and> projects w' = map
         (\<lambda>r. if p_id r = i
              then r\<lparr>p_is_deleted := True, p_deleted_at := Some (clock e n), p_updated_at := clock e (Suc n)\<rparr>
              else r) (projects w)
     \<and> clock_reads w \<le> n
     \<and> clock_reads w' = Suc (Suc n)
     \<and> mirror_reported e ''Failed to trash Drive folder:'' w w'"
proof -
  let ?W = "w\<lparr>db_calls := Suc (db_calls w)\<rparr>"
  let ?M = "mirror e u (p_root_drive_id p) googleDrive_trashFile ''Failed to trash Drive folder:'' ?W"
  have run: "api_delete_project e (Some u) i w =
      ((200, SuccessBody), snd (storage_softDeleteProject e i u ?M))"
    using assms
    by (simp add: api_delete_project_def storage_getProject_def projectsRepository_getByIdWithoutUser_def
        case_prod_beta)
  have rep: "mirror_reported e ''Failed to trash Drive folder:'' w (snd (storage_softDeleteProject e i u ?M))"
    by (rule mirror_reported_shift
          [OF mirror_reports_ops(1)[of e _ ?W u "p_root_drive_id p"]])
       (simp_all add: storage_softDeleteProject_def projectsRepository_softDelete_def assms(1) read_clock_def)
  have own: "\<And>q. q \<in> set (projects w) \<Longrightarrow> p_id q = i \<Longrightarrow> p_user_id q = u"
    using unique_rowD[OF assms(3)] assms(4) by blast
  have clk: "clock_reads w \<le> clock_reads ?M"
    using clock_reads_mirror_ops[of ?W e u "p_root_drive_id p"] by simp
  show ?thesis
    apply (rule exI[of _ "snd (storage_softDeleteProject e i u ?M)"])
    apply (rule exI[of _ "clock_reads ?M"])
    using rep run clk
    by (auto simp add: storage_softDeleteProject_def projectsRepository_softDelete_def assms(1) read_clock_def
          own
          intro!: map_cong filter_cong)
qed

lemma api_restore_project_effect:
  assumes "db_reliable e" "u \<noteq> []"
    and "filter (\<lambda>p. p_id p = i) (projects w) = [p]" "p_user_id p = u"
    and "p_is_deleted p"
  shows "\<exists>w' n. api_restore_project e (Some u) i w = ((200, SuccessBody), w')
     \<and> folders w' = folders w
     \<and> files w' = files w
     \<and> projects w' = map
         (\<lambda>r. if p_id r = i
              then r\<lparr>p_is_deleted := False, p_deleted_at := None, p_updated_at := clock e n\<rparr>
              else r) (projects w)
     \<and> clock_reads w \<le> n
     \<and> clock_reads w' = Suc n
     \<and> mirror_reported e ''Failed to restore Drive folder:'' w w'"
proof -
  let ?W = "w\<lparr>db_calls := Suc (db_calls w)\<rparr>"
  let ?M = "mirror e u (p_root_drive_id p) googleDrive_untrashFile ''Failed to restore Drive folder:'' ?W"
  have run: "api_restore_project e (Some u) i w =
      ((200, SuccessBody), snd (storage_restoreProject e i u ?M))"
    using assms
    by (simp add: api_restore_project_def storage_getDeletedProjects_def projectsRepository_getAll_def
        case_prod_beta find_unique_row truthy_def)
  have rep: "mirror_reported e ''Failed to restore Drive folder:'' w (snd (storage_restoreProject e i u ?M))"
    by (rule mirror_reported_shift
          [OF mirror_reports_ops(2)[of e _ ?W u "p_root_drive_id p"]])
       (simp_all add: storage_restoreProject_def projectsRepository_restore_def assms(1) read_clock_def)
  have own: "\<And>q. q \<in> set (projects w) \<Longrightarrow> p_id q = i \<Longrightarrow> p_user_id q = u"
    using unique_rowD[OF assms(3)] assms(4) by blast
  have clk: "clock_reads w \<le> clock_reads ?M"
    using clock_reads_mirror_ops[of ?W e u "p_root_drive_id p"] by simp
  show ?thesis
    apply (rule exI[of _ "snd (storage_restoreProject e i u ?M)"])
    apply (rule exI[of _ "clock_reads ?M"])
    using rep run clk
    by (auto simp add: storage_restoreProject_def projectsRepository_restore_def assms(1) read_clock_def
          own
          intro!: map_cong filter_cong)
qed

lemma api_permanent_delete_project_effect:
  assumes "db_reliable e" "u \<noteq> []"
    and "filter (\<lambda>p. p_id p = i) (projects w) = [p]" "p_user_id p = u"
    and "p_is_deleted p"
  shows "\<exists>w'. api_permanent_delete_project e (Some u) i w = ((200, SuccessBody), w')
     \<and> folders w' = folders w
     \<and> files w' = files w
     \<and> projects w' = filter (\<lambda>r. p_id r \<noteq> i) (projects w)
     \<and> mirror_reported e ''Failed to delete Drive folder:'' w w'"
proof -
  let ?W = "w\<lparr>db_calls := Suc (db_calls w)\<rparr>"
  let ?M = "mirror e u (p_root_drive_id p) googleDrive_permanentDeleteFile ''Failed to delete Drive folder:'' ?W"
  have run: "api_permanent_delete_project e (Some u) i w =
      ((200, SuccessBody), snd (storage_hardDeleteProject e i u ?M))"
    using assms
    by (simp add: api_permanent_delete_project_def storage_getDeletedProjects_def projectsRepository_getAll_def
        case_prod_beta find_unique_row truthy_def)
  have rep: "mirror_reported e ''Failed to delete Drive folder:'' w (snd (storage_hardDeleteProject e i u ?M))"
    by (rule mirror_reported_shift
          [OF mirror_reports_ops(3)[of e _ ?W u "p_root_drive_id p"]])
       (simp_all add: storage_hardDeleteProject_def projectsRepository_hardDelete_def assms(1) read_clock_def)
  have own: "\<And>q. q \<in> set (projects w) \<Longrightarrow> p_id q = i \<Longrightarrow> p_user_id q = u"
    using unique_rowD[OF assms(3)] assms(4) by blast
  have clk: "clock_reads w \<le> clock_reads ?M"
    using clock_reads_mirror_ops[of ?W e u "p_root_drive_id p"] by simp
  show ?thesis
    apply (rule exI[of _ "snd (storage_hardDeleteProject e i u ?M)"])
    using rep run clk
    by (auto simp add: storage_hardDeleteProject_def projectsRepository_hardDelete_def assms(1) read_clock_def
          own
          intro!: map_cong filter_cong)
qed

lemma api_delete_folder_effect:
  assumes "db_reliable e" "u \<noteq> []"
    and "filter (\<lambda>r. fo_id r = i) (folders w) = [f]"
    and "filter (\<lambda>p. p_id p = fo_project_id f) (projects w) = [p]" "p_user_id p = u"
  shows "\<exists>w' n. api_delete_folder e (Some u) i w = ((200, SuccessBody), w')
     \<and> projects w' = projects w
     \<and> files w' = files w
     \<and> folders w' = map
         (\<lambda>r. if fo_id r = i
              then r\<lparr>fo_is_deleted := True, fo_deleted_at := Some (clock e n), fo_updated_at := clock e (Suc n)\<rparr>
              else r) (folders w)
     \<and> clock_reads w \<le> n
     \<and> clock_reads w' = Suc (Suc n)
     \<and> mirror_reported e ''Failed to trash Drive folder:'' w w'"
proof -
  let ?W = "w\<lparr>db_calls := Suc (Suc (db_calls w))\<rparr>"
  let ?M = "mirror e u (Some (fo_drive_folder_id f)) googleDrive_trashFile ''Failed to trash Drive folder:'' ?W"
  have run: "api_delete_folder e (Some u) i w =
      ((200, SuccessBody), snd (storage_softDeleteFolder e i ?M))"
    using assms
    by (simp add: api_delete_folder_def storage_getFolder_def foldersRepository_getById_def storage_getProject_def
        projectsRepository_getByIdWithoutUser_def case_prod_beta)
  have rep: "mirror_reported e ''Failed to trash Drive folder:'' w (snd (storage_softDeleteFolder e i ?M))"
    by (rule mirror_reported_shift
          [OF mirror_reports_ops(1)[of e _ ?W u "Some (fo_drive_folder_id f)"]])
       (simp_all add: storage_softDeleteFolder_def foldersRepository_softDelete_def assms(1) read_clock_def)
  have clk: "clock_reads w \<le> clock_reads ?M"
    using clock_reads_mirror_ops[of ?W e u "Some (fo_drive_folder_id f)"] by simp
  show ?thesis
    apply (rule exI[of _ "snd (storage_softDeleteFolder e i ?M)"])
    apply (rule exI[of _ "clock_reads ?M"])
    using rep run clk
    by (simp add: storage_softDeleteFolder_def foldersRepository_softDelete_def assms(1) read_clock_def)
qed

lemma api_restore_folder_effect:
  assumes "db_reliable e" "u \<noteq> []"
    and "filter (\<lambda>r. fo_id r = i) (folders w) = [f]"
    and "filter (\<lambda>p. p_id p = fo_project_id f) (projects w) = [p]" "p_user_id p = u"
    and "fo_is_deleted f"
  shows "\<exists>w' n. api_restore_folder e (Some u) i w = ((200, SuccessBody), w')
     \<and> projects w' = projects w
     \<and> files w' = files w
     \<and> folders w' = map
         (\<lambda>r. if fo_id r = i
              then r\<lparr>fo_is_deleted := False, fo_deleted_at := None, fo_updated_at := clock e n\<rparr>
              else r) (folders w)
     \<and> clock_reads w \<le> n
     \<and> clock_reads w' = Suc n
     \<and> mirror_reported e ''Failed to restore Drive folder:'' w w'"
proof -
  let ?W = "w\<lparr>db_calls := Suc (Suc (db_calls w))\<rparr>"
  let ?M = "mirror e u (Some (fo_drive_folder_id f)) googleDrive_untrashFile ''Failed to restore Drive folder:'' ?W"
  have run: "api_restore_folder e (Some u) i w =
      ((200, SuccessBody), snd (storage_restoreFolder e i ?M))"
    using assms
    by (simp add: api_restore_folder_def storage_getFolder_def foldersRepository_getById_def storage_getProject_def
        projectsRepository_getByIdWithoutUser_def case_prod_beta)
  have rep: "mirror_reported e ''Failed to restore Drive folder:'' w (snd (storage_restoreFolder e i ?M))"
    by (rule mirror_reported_shift
          [OF mirror_reports_ops(2)[of e _ ?W u "Some (fo_drive_folder_id f)"]])
       (simp_all add: storage_restoreFolder_def foldersRepository_restore_def assms(1) read_clock_def)
  have clk: "clock_reads w \<le> clock_reads ?M"
    using clock_reads_mirror_ops[of ?W e u "Some (fo_drive_folder_id f)"] by simp
  show ?thesis
    apply (rule exI[of _ "snd (storage_restoreFolder e i ?M)"])
    apply (rule exI[of _ "clock_reads ?M"])
    using rep run clk
    by (simp add: storage_restoreFolder_def foldersRepository_restore_def assms(1) read_clock_def)
qed

lemma api_permanent_delete_folder_effect:
  assumes "db_reliable e" "u \<noteq> []"
    and "filter (\<lambda>r. fo_id r = i) (folders w) = [f]"
    and "filter (\<lambda>p. p_id p = fo_project_id f) (projects w) = [p]" "p_user_id p = u"
    and "fo_is_deleted f"
  shows "\<exists>w'. api_permanent_delete_folder e (Some u) i w = ((200, SuccessBody), w')
     \<and> projects w' = projects w
     \<and> files w' = files w
     \<and> folders w' = filter (\<lambda>r. fo_id r \<noteq> i) (folders w)
     \<and> mirror_reported e ''Failed to delete Drive folder:'' w w'"
proof -
  let ?W = "w\<lparr>db_calls := Suc (Suc (db_calls w))\<rparr>"
  let ?M = "mirror e u (Some (fo_drive_folder_id f)) googleDrive_permanentDeleteFile ''Failed to delete Drive folder:'' ?W"
  have run: "api_permanent_delete_folder e (Some u) i w =
      ((200, SuccessBody), snd (storage_hardDeleteFolder e i ?M))"
    using assms
    by (simp add: api_permanent_delete_folder_def storage_getFolder_def foldersRepository_getById_def storage_getProject_def
        projectsRepository_getByIdWithoutUser_def case_prod_beta)
  have rep: "mirror_reported e ''Failed to delete Drive folder:'' w (snd (storage_hardDeleteFolder e i ?M))"
    by (rule mirror_reported_shift
          [OF mirror_reports_ops(3)[of e _ ?W u "Some (fo_drive_folder_id f)"]])
       (simp_all add: storage_hardDeleteFolder_def foldersRepository_hardDelete_def assms(1) read_clock_def)
  have clk: "clock_reads w \<le> clock_reads ?M"
    using clock_reads_mirror_ops[of ?W e u "Some (fo_drive_folder_id f)"] by simp
  show ?thesis
    apply (rule exI[of _ "snd (storage_hardDeleteFolder e i ?M)"])
    using rep run clk
    by (simp add: storage_hardDeleteFolder_def foldersRepository_hardDelete_def assms(1) read_clock_def)
qed

lemma api_delete_file_effect:
  assumes "db_reliable e" "u \<noteq> []"
    and "filter (\<lambda>r. fi_id r = i) (files w) = [f]"
    and "filter (\<lambda>p. p_id p = fi_project_id f) (projects w) = [p]" "p_user_id p = u"
  shows "\<exists>w' n. api_delete_file e (Some u) i w = ((200, SuccessBody), w')
     \<and> projects w' = projects w
     \<and> folders w' = folders w
     \<and> files w' = map
         (\<lambda>r. if fi_id r = i
              then r\<lparr>fi_is_deleted := True, fi_deleted_at := Some (clock e n), fi_updated_at := clock e (Suc n)\<rparr>
              else r) (files w)
     \<and> clock_reads w \<le> n
     \<and> clock_reads w' = Suc (Suc n)
     \<and> mirror_reported e ''Failed to trash Drive file:'' w w'"
proof -
  let ?W = "w\<lparr>db_calls := Suc (Suc (db_calls w))\<rparr>"
  let ?M = "mirror e u (Some (fi_drive_file_id f)) googleDrive_trashFile ''Failed to trash Drive file:'' ?W"
  have run: "api_delete_file e (Some u) i w =
      ((200, SuccessBody), snd (storage_deleteFile e i ?M))"
    using assms
    by (simp add: api_delete_file_def storage_getFile_def filesMetadataRepository_getById_def storage_getProject_def
        projectsRepository_getByIdWithoutUser_def case_prod_beta)
  have rep: "mirror_reported e ''Failed to trash Drive file:'' w (snd (storage_deleteFile e i ?M))"
    by (rule mirror_reported_shift
          [OF mirror_reports_ops(1)[of e _ ?W u "Some (fi_drive_file_id f)"]])
       (simp_all add: storage_deleteFile_def filesMetadataRepository_softDelete_def assms(1) read_clock_def)
  have clk: "clock_reads w \<le> clock_reads ?M"
    using clock_reads_mirror_ops[of ?W e u "Some (fi_drive_file_id f)"] by simp
  show ?thesis
    apply (rule exI[of _ "snd (storage_deleteFile e i ?M)"])
    apply (rule exI[of _ "clock_reads ?M"])
    using rep run clk
    by (simp add: storage_deleteFile_def filesMetadataRepository_softDelete_def assms(1) read_clock_def)
qed

lemma api_restore_file_effect:
  assumes "db_reliable e" "u \<noteq> []"
    and "filter (\<lambda>r. fi_id r = i) (files w) = [f]"
    and "filter (\<lambda>p. p_id p = fi_project_id f) (projects w) = [p]" "p_user_id p = u"
    and "fi_is_deleted f"
  shows "\<exists>w' n. api_restore_file e (Some u) i w = ((200, SuccessBody), w')
     \<and> projects w' = projects w
     \<and> folders w' = folders w
     \<and> files w' = map
         (\<lambda>r. if fi_id r = i
              then r\<lparr>fi_is_deleted := False, fi_deleted_at := None, fi_updated_at := clock e n\<rparr>
              else r) (files w)
     \<and> clock_reads w \<le> n
     \<and> clock_reads w' = Suc n
     \<and> mirror_reported e ''Failed to restore Drive file:'' w w'"
proof -
  let ?W = "w\<lparr>db_calls := Suc (Suc (db_calls w))\<rparr>"
  let ?M = "mirror e u (Some (fi_drive_file_id f)) googleDrive_untrashFile ''Failed to restore Drive file:'' ?W"
  have run: "api_restore_file e (Some u) i w =
      ((200, SuccessBody), snd (storage_restoreFile e i ?M))"
    using assms
    by (simp add: api_restore_file_def storage_getFile_def filesMetadataRepository_getById_def storage_getProject_def
        projectsRepository_getByIdWithoutUser_def case_prod_beta)
  have rep: "mirror_reported e ''Failed to restore Drive file:'' w (snd (storage_restoreFile e i ?M))"
    by (rule mirror_reported_shift
          [OF mirror_reports_ops(2)[of e _ ?W u "Some (fi_drive_file_id f)"]])
       (simp_all add: storage_restoreFile_def filesMetadataRepository_restore_def assms(1) read_clock_def)
  have clk: "clock_reads w \<le> clock_reads ?M"
    using clock_reads_mirror_ops[of ?W e u "Some (fi_drive_file_id f)"] by simp
  show ?thesis
    apply (rule exI[of _ "snd (storage_restoreFile e i ?M)"])
    apply (rule exI[of _ "clock_reads ?M"])
    using rep run clk
    by (simp add: storage_restoreFile_def filesMetadataRepository_restore_def assms(1) read_clock_def)
qed

lemma api_permanent_delete_file_effect:
  assumes "db_reliable e" "u \<noteq> []"
    and "filter (\<lambda>r. fi_id r = i) (files w) = [f]"
    and "filter (\<lambda>p. p_id p = fi_project_id f) (projects w) = [p]" "p_user_id p = u"
    and "fi_is_deleted f"
  shows "\<exists>w'. api_permanent_delete_file e (Some u) i w = ((200, SuccessBody), w')
     \<and> projects w' = projects w
     \<and> folders w' = folders w
     \<and> files w' = filter (\<lambda>r. fi_id r \<noteq> i) (files w)
     \<and> mirror_reported e ''Failed to delete Drive file:'' w w'"
proof -
  let ?W = "w\<lparr>db_calls := Suc (Suc (db_calls w))\<rparr>"
  let ?M = "mirror e u (Some (fi_drive_file_id f)) googleDrive_permanentDeleteFile ''Failed to delete Drive file:'' ?W"
  have run: "api_permanent_delete_file e (Some u) i w =
      ((200, SuccessBody), snd (storage_hardDeleteFile e i ?M))"
    using assms
    by (simp add: api_permanent_delete_file_def storage_getFile_def filesMetadataRepository_getById_def storage_getProject_def
        projectsRepository_getByIdWithoutUser_def case_prod_beta)
  have rep: "mirror_reported e ''Failed to delete Drive file:'' w (snd (storage_hardDeleteFile e i ?M))"
    by (rule mirror_reported_shift
          [OF mirror_reports_ops(3)[of e _ ?W u "Some (fi_drive_file_id f)"]])
       (simp_all add: storage_hardDeleteFile_def filesMetadataRepository_hardDelete_def assms(1) read_clock_def)
  have clk: "clock_reads w \<le> clock_reads ?M"
    using clock_reads_mirror_ops[of ?W e u "Some (fi_drive_file_id f)"] by simp
  show ?thesis
    apply (rule exI[of _ "snd (storage_hardDeleteFile e i ?M)"])
    using rep run clk
    by (simp add: storage_hardDeleteFile_def filesMetadataRepository_hardDelete_def assms(1) read_clock_def)
qed


section \<open>From the vocabulary to the rows\<close>

lemma filter_map_update:
  "(\<And>x. P (g x) = P x) \<Longrightarrow> filter P (map (\<lambda>x. if P x then g x else x) xs) = map g (filter P xs)"
  by (induction xs) auto

lemma project_ownerD:
  "project_owner i w = Some u \<Longrightarrow>
     \<exists>p. filter (\<lambda>p. p_id p = i) (projects w) = [p] \<and> p_user_id p = u"
  by (auto simp add: project_owner_def dest: single_SomeD)

lemma folder_ownerD:
  "entity_owner Folder i w = Some u \<Longrightarrow>
     \<exists>f p. filter (\<lambda>f. fo_id f = i) (folders w) = [f] \<and>
           filter (\<lambda>p. p_id p = fo_project_id f) (projects w) = [p] \<and> p_user_id p = u"
  by (auto simp add: split: option.splits dest!: single_SomeD project_ownerD)

lemma file_ownerD:
  "entity_owner File i w = Some u \<Longrightarrow>
     \<exists>f p. filter (\<lambda>f. fi_id f = i) (files w) = [f] \<and>
           filter (\<lambda>p. p_id p = fi_project_id f) (projects w) = [p] \<and> p_user_id p = u"
  by (auto simp add: split: option.splits dest!: single_SomeD project_ownerD)



lemma map_update_twice:
  assumes "filter P xs = [x]" and "\<And>y. P y \<Longrightarrow> P (g y)" and "h (g x) = k x"
  shows "map (\<lambda>y. if P y then h y else y) (map (\<lambda>y. if P y then g y else y) xs)
         = map (\<lambda>y. if P y then k y else y) xs"
proof -
  have "\<And>y. y \<in> set xs \<Longrightarrow> P y \<Longrightarrow> y = x" using unique_rowD[OF assms(1)] by blast
  then show ?thesis using assms(2,3) by (auto simp add: comp_def)
qed

lemma clear_flags:
  "\<not> fi_is_deleted f \<Longrightarrow> fi_deleted_at f = None \<Longrightarrow>
     f\<lparr>fi_is_deleted := False, fi_deleted_at := None, fi_updated_at := c\<rparr> = f\<lparr>fi_updated_at := c\<rparr>"
  "\<not> fo_is_deleted g \<Longrightarrow> fo_deleted_at g = None \<Longrightarrow>
     g\<lparr>fo_is_deleted := False, fo_deleted_at := None, fo_updated_at := c\<rparr> = g\<lparr>fo_updated_at := c\<rparr>"
  "\<not> p_is_deleted p \<Longrightarrow> p_deleted_at p = None \<Longrightarrow>
     p\<lparr>p_is_deleted := False, p_deleted_at := None, p_updated_at := c\<rparr> = p\<lparr>p_updated_at := c\<rparr>"
  by (cases f, simp) (cases g, simp, cases p, simp)


section \<open>The reads of the store, reliable or not\<close>

lemma single_Some_mem: "single (filter P xs) = Some x \<Longrightarrow> x \<in> set xs \<and> P x"
  by (drule single_SomeD, drule unique_rowD, simp)

lemma getById_any_store:
  "storage_getFile e i w =
     (if db_error e (db_calls w) then None else single (filter (\<lambda>f. fi_id f = i) (files w)),
      w\<lparr>db_calls := Suc (db_calls w)\<rparr>)"
  "storage_getFolder e i w =
     (if db_error e (db_calls w) then None else single (filter (\<lambda>f. fo_id f = i) (folders w)),
      w\<lparr>db_calls := Suc (db_calls w)\<rparr>)"
  "storage_getProject e i w =
     (if db_error e (db_calls w) then None else single (filter (\<lambda>p. p_id p = i) (projects w)),
      w\<lparr>db_calls := Suc (db_calls w)\<rparr>)"
  by (simp_all add: storage_getFile_def storage_getFolder_def storage_getProject_def
      filesMetadataRepository_getById_def foldersRepository_getById_def
      projectsRepository_getByIdWithoutUser_def store_call_def)

lemma getDeletedProjects_any_store:
  "fst (storage_getDeletedProjects e u w) =
     (if db_error e (db_calls w) then []
      else rev (sort_key p_created_at (filter (\<lambda>p. p_user_id p = u \<and> p_is_deleted p) (projects w))))"
  "store (snd (storage_getDeletedProjects e u w)) = store w"
  "trace (snd (storage_getDeletedProjects e u w)) = trace w"
  by (simp_all add: storage_getDeletedProjects_def projectsRepository_getAll_def store_call_def
      store_def console_error_def truthy_def bool.case_eq_if)


lemma reliable_getById [simp]:
  assumes "db_reliable e"
  shows "storage_getFile e i w =
           (single (filter (\<lambda>f. fi_id f = i) (files w)), w\<lparr>db_calls := Suc (db_calls w)\<rparr>)"
    and "storage_getFolder e i w =
           (single (filter (\<lambda>f. fo_id f = i) (folders w)), w\<lparr>db_calls := Suc (db_calls w)\<rparr>)"
    and "storage_getProject e i w =
           (single (filter (\<lambda>p. p_id p = i) (projects w)), w\<lparr>db_calls := Suc (db_calls w)\<rparr>)"
  using assms by (simp_all add: getById_any_store db_reliable_def)


section \<open>A failed mirror call does not stop a transition\<close>

text \<open>
  Claim C1, as stated, fails when the write to the store fails as well: the repositories
  return \<^verbatim>\<open>!error\<close> and the handlers do not look at it. Alice soft-deletes her active
  file \<open>x1\<close>; the provider answers the trash request with status 500 and the fourth
  call of the store, which is the write, returns an error. The failure of the mirror is
  caught and logged and the handler answers 200 with the success body, but the transition
  is not applied: the file is as active as before and the store is unchanged.
\<close>

theorem mirror_failure_is_swallowed_counterexample:
  "entity_owner File ''x1'' demo_world = Some ''alice''
   \<and> entity_flags File ''x1'' demo_world = [(False, None)]
   \<and> failing_outcome (failing_provider 1)
   \<and> map (db_error (failing_store_env failing_provider 3)) [0, 1, 2, 3] = [False, False, False, True]
   \<and> fst (handle (failing_store_env failing_provider 3) (Some ''alice'') (DeleteFile ''x1'') demo_world) = (200, SuccessBody)
   \<and> trace (snd (handle (failing_store_env failing_provider 3) (Some ''alice'') (DeleteFile ''x1'') demo_world)) = [AboutReq ''ya29'', PatchTrashedReq ''ya29'' ''drive-x1'' True]
   \<and> errlog (snd (handle (failing_store_env failing_provider 3) (Some ''alice'') (DeleteFile ''x1'') demo_world)) = [(''Failed to trash Drive file:'', DriveError ''Failed to trash file'')]
   \<and> db_calls (snd (handle (failing_store_env failing_provider 3) (Some ''alice'') (DeleteFile ''x1'') demo_world)) = 4
   \<and> entity_flags File ''x1'' (snd (handle (failing_store_env failing_provider 3) (Some ''alice'') (DeleteFile ''x1'') demo_world)) = [(False, None)]
   \<and> store (snd (handle (failing_store_env failing_provider 3) (Some ''alice'') (DeleteFile ''x1'') demo_world)) = store demo_world"
  by (simp add: run_defs demo_defs store_def project_owner_def)

text \<open>
  Claim C1, amended. On a store whose calls do not fail, when its owner soft-deletes,
  restores or hard-deletes a project, folder or file (the last two on an entity that is in
  the trash), then whatever the provider answers to the mirrored call: the handler answers
  200 with the success body; the store holds the transition (the flag set and a deletion
  time, or the flag and the time cleared, or no row); and a mirrored request that failed
  was caught and reported under the message of the handler.
\<close>

theorem mirror_failure_is_swallowed:
  assumes "db_reliable e" and "u \<noteq> []"
    and "entity_owner k i w = Some u"
    and "op = SoftDelete \<or> map fst (entity_flags k i w) = [True]"
  shows "fst (handle e (Some u) (lifecycle_route op k i) w) = (200, SuccessBody)
     \<and> (\<exists>t. entity_flags k i (snd (handle e (Some u) (lifecycle_route op k i) w)) =
            (case op of SoftDelete \<Rightarrow> [(True, Some t)] | Restore \<Rightarrow> [(False, None)] | HardDelete \<Rightarrow> []))
     \<and> mirror_reported e (mirror_failure_message op k) w
          (snd (handle e (Some u) (lifecycle_route op k i) w))"
proof (cases k)
  case Project
  from assms(3) Project obtain p where p: "filter (\<lambda>p. p_id p = i) (projects w) = [p]" "p_user_id p = u"
    using project_ownerD by fastforce
  show ?thesis
  proof (cases op)
    case SoftDelete
    from api_delete_project_effect[OF assms(1,2) p] show ?thesis
      using Project SoftDelete p(1) by (auto simp add: filter_map_update)
  next
    case Restore
    with assms(4) Project p have "p_is_deleted p" by simp
    from api_restore_project_effect[OF assms(1,2) p this] show ?thesis
      using Project Restore p(1) by (auto simp add: filter_map_update)
  next
    case HardDelete
    with assms(4) Project p have "p_is_deleted p" by simp
    from api_permanent_delete_project_effect[OF assms(1,2) p this] show ?thesis
      using Project HardDelete p(1) by auto
  qed
next
  case Folder
  from assms(3) Folder obtain f p where f: "filter (\<lambda>f. fo_id f = i) (folders w) = [f]"
    and p: "filter (\<lambda>p. p_id p = fo_project_id f) (projects w) = [p]" "p_user_id p = u"
    using folder_ownerD by blast
  show ?thesis
  proof (cases op)
    case SoftDelete
    from api_delete_folder_effect[OF assms(1,2) f p] show ?thesis
      using Folder SoftDelete f by (auto simp add: filter_map_update)
  next
    case Restore
    with assms(4) Folder f have "fo_is_deleted f" by simp
    from api_restore_folder_effect[OF assms(1,2) f p this] show ?thesis
      using Folder Restore f by (auto simp add: filter_map_update)
  next
    case HardDelete
    with assms(4) Folder f have "fo_is_deleted f" by simp
    from api_permanent_delete_folder_effect[OF assms(1,2) f p this] show ?thesis
      using Folder HardDelete f by auto
  qed
next
  case File
  from assms(3) File obtain f p where f: "filter (\<lambda>f. fi_id f = i) (files w) = [f]"
    and p: "filter (\<lambda>p. p_id p = fi_project_id f) (projects w) = [p]" "p_user_id p = u"
    using file_ownerD by blast
  show ?thesis
  proof (cases op)
    case SoftDelete
    from api_delete_file_effect[OF assms(1,2) f p] show ?thesis
      using File SoftDelete f by (auto simp add: filter_map_update)
  next
    case Restore
    with assms(4) File f have "fi_is_deleted f" by simp
    from api_restore_file_effect[OF assms(1,2) f p this] show ?thesis
      using File Restore f by (auto simp add: filter_map_update)
  next
    case HardDelete
    with assms(4) File f have "fi_is_deleted f" by simp
    from api_permanent_delete_file_effect[OF assms(1,2) f p this] show ?thesis
      using File HardDelete f by auto
  qed
qed

text \<open>
  The instances: alice soft-deletes her file \<open>x1\<close>, restores her project \<open>p2\<close> and
  hard-deletes her folder \<open>f2\<close>, while the provider accepts her credential and answers
  every mirrored request with status 500. Each time the one mirrored request is sent, its
  failure is in the log, and the store holds the transition.
\<close>

theorem mirror_failure_is_swallowed_witness:
  "db_reliable (demo_env failing_provider (\<lambda>s. None))
   \<and> entity_owner File ''x1'' demo_world = Some ''alice''
   \<and> fst (handle (demo_env failing_provider (\<lambda>s. None)) (Some ''alice'') (DeleteFile ''x1'') demo_world)
       = (200, SuccessBody)
   \<and> entity_flags File ''x1''
        (snd (handle (demo_env failing_provider (\<lambda>s. None)) (Some ''alice'') (DeleteFile ''x1'') demo_world))
       = [(True, Some 5000)]
   \<and> trace (snd (handle (demo_env failing_provider (\<lambda>s. None)) (Some ''alice'') (DeleteFile ''x1'') demo_world))
       = [AboutReq ''ya29'', PatchTrashedReq ''ya29'' ''drive-x1'' True]
   \<and> failing_outcome (failing_provider 1)
   \<and> errlog (snd (handle (demo_env failing_provider (\<lambda>s. None)) (Some ''alice'') (DeleteFile ''x1'') demo_world))
       = [(''Failed to trash Drive file:'', DriveError ''Failed to trash file'')]
   \<and> mirror_reported (demo_env failing_provider (\<lambda>s. None)) ''Failed to trash Drive file:'' demo_world
        (snd (handle (demo_env failing_provider (\<lambda>s. None)) (Some ''alice'') (DeleteFile ''x1'') demo_world))
   \<and> entity_owner Project ''p2'' demo_world = Some ''alice''
   \<and> map fst (entity_flags Project ''p2'' demo_world) = [True]
   \<and> fst (handle (demo_env failing_provider (\<lambda>s. None)) (Some ''alice'') (RestoreProject ''p2'') demo_world)
       = (200, SuccessBody)
   \<and> entity_flags Project ''p2''
        (snd (handle (demo_env failing_provider (\<lambda>s. None)) (Some ''alice'') (RestoreProject ''p2'') demo_world))
       = [(False, None)]
   \<and> trace (snd (handle (demo_env failing_provider (\<lambda>s. None)) (Some ''alice'') (RestoreProject ''p2'') demo_world))
       = [AboutReq ''ya29'', PatchTrashedReq ''ya29'' ''drive-p2'' False]
   \<and> errlog (snd (handle (demo_env failing_provider (\<lambda>s. None)) (Some ''alice'') (RestoreProject ''p2'') demo_world))
       = [(''Failed to restore Drive folder:'', DriveError ''Failed to untrash file'')]
   \<and> entity_owner Folder ''f2'' demo_world = Some ''alice''
   \<and> map fst (entity_flags Folder ''f2'' demo_world) = [True]
   \<and> fst (handle (demo_env failing_provider (\<lambda>s. None)) (Some ''alice'') (PermanentDeleteFolder ''f2'') demo_world)
       = (200, SuccessBody)
   \<and> entity_flags Folder ''f2''
        (snd (handle (demo_env failing_provider (\<lambda>s. None)) (Some ''alice'') (PermanentDeleteFolder ''f2'')
           demo_world))
       = []
   \<and> trace (snd (handle (demo_env failing_provider (\<lambda>s. None)) (Some ''alice'') (PermanentDeleteFolder ''f2'') demo_world))
       = [AboutReq ''ya29'', DeleteReq ''ya29'' ''drive-f2'']
   \<and> errlog (snd (handle (demo_env failing_provider (\<lambda>s. None)) (Some ''alice'') (PermanentDeleteFolder ''f2'') demo_world))
       = [(''Failed to delete Drive folder:'', DriveError ''Failed to permanently delete file'')]"
proof -
  have r: "db_reliable (demo_env failing_provider (\<lambda>s. None))"
    by (simp add: db_reliable_def demo_env_def)
  have o1: "entity_owner File ''x1'' demo_world = Some ''alice''"
    and o2: "entity_owner Project ''p2'' demo_world = Some ''alice''"
    and o3: "entity_owner Folder ''f2'' demo_world = Some ''alice''"
    by (simp_all add: project_owner_def single_def demo_defs)
  have s2: "map fst (entity_flags Project ''p2'' demo_world) = [True]"
    and s3: "map fst (entity_flags Folder ''f2'' demo_world) = [True]"
    by (simp_all add: demo_defs)
  have a: "''alice'' \<noteq> []" by simp
  note t1 = mirror_failure_is_swallowed[OF r a o1, of SoftDelete]
  note t2 = mirror_failure_is_swallowed[OF r a o2, of Restore]
  note t3 = mirror_failure_is_swallowed[OF r a o3, of HardDelete]
  show ?thesis
    using r o1 o2 o3 s2 s3 t1 t2 t3
    by (simp add: run_defs demo_defs)
qed

section \<open>Restore and hard delete answer 404 outside the trash\<close>

lemma trashed_file_guard:
  assumes "\<forall>f\<in>set (files w). fi_id f = i \<longrightarrow> \<not> fi_is_deleted f"
  shows "(case fst (storage_getFile e i w) of None \<Rightarrow> None
          | Some f \<Rightarrow> if \<not> fi_is_deleted f then None else Some f) = None"
  using assms by (auto simp add: getById_any_store split: option.splits dest!: single_Some_mem)

lemma trashed_folder_guard:
  assumes "\<forall>f\<in>set (folders w). fo_id f = i \<longrightarrow> \<not> fo_is_deleted f"
  shows "(case fst (storage_getFolder e i w) of None \<Rightarrow> None
          | Some f \<Rightarrow> if \<not> fo_is_deleted f then None else Some f) = None"
  using assms by (auto simp add: getById_any_store split: option.splits dest!: single_Some_mem)

lemma snd_getById [simp]:
  "snd (storage_getFile e i w) = w\<lparr>db_calls := Suc (db_calls w)\<rparr>"
  "snd (storage_getFolder e i w) = w\<lparr>db_calls := Suc (db_calls w)\<rparr>"
  "snd (storage_getProject e i w) = w\<lparr>db_calls := Suc (db_calls w)\<rparr>"
  by (simp_all add: getById_any_store)

lemma active_file_not_found:
  assumes "u \<noteq> []" and "\<forall>f\<in>set (files w). fi_id f = i \<longrightarrow> \<not> fi_is_deleted f"
  shows "fst (fst (api_restore_file e (Some u) i w)) = 404
       \<and> store (snd (api_restore_file e (Some u) i w)) = store w
       \<and> trace (snd (api_restore_file e (Some u) i w)) = trace w"
    and "fst (fst (api_permanent_delete_file e (Some u) i w)) = 404
       \<and> store (snd (api_permanent_delete_file e (Some u) i w)) = store w
       \<and> trace (snd (api_permanent_delete_file e (Some u) i w)) = trace w"
  using assms(1) trashed_file_guard[OF assms(2), of e]
  by (simp_all add: api_restore_file_def api_permanent_delete_file_def case_prod_beta store_def)

lemma active_folder_not_found:
  assumes "u \<noteq> []" and "\<forall>f\<in>set (folders w). fo_id f = i \<longrightarrow> \<not> fo_is_deleted f"
  shows "fst (fst (api_restore_folder e (Some u) i w)) = 404
       \<and> store (snd (api_restore_folder e (Some u) i w)) = store w
       \<and> trace (snd (api_restore_folder e (Some u) i w)) = trace w"
    and "fst (fst (api_permanent_delete_folder e (Some u) i w)) = 404
       \<and> store (snd (api_permanent_delete_folder e (Some u) i w)) = store w
       \<and> trace (snd (api_permanent_delete_folder e (Some u) i w)) = trace w"
  using assms(1) trashed_folder_guard[OF assms(2), of e]
  by (simp_all add: api_restore_folder_def api_permanent_delete_folder_def case_prod_beta store_def)

lemma find_deleted_None:
  assumes "\<forall>p\<in>set (projects w). p_id p = i \<longrightarrow> \<not> p_is_deleted p"
  shows "find (\<lambda>p. p_id p = i) (fst (storage_getDeletedProjects e u w)) = None"
  using assms by (auto simp add: getDeletedProjects_any_store find_None_iff)

lemma active_project_not_found:
  assumes "u \<noteq> []" and "\<forall>p\<in>set (projects w). p_id p = i \<longrightarrow> \<not> p_is_deleted p"
  shows "fst (fst (api_restore_project e (Some u) i w)) = 404
       \<and> store (snd (api_restore_project e (Some u) i w)) = store w
       \<and> trace (snd (api_restore_project e (Some u) i w)) = trace w"
    and "fst (fst (api_permanent_delete_project e (Some u) i w)) = 404
       \<and> store (snd (api_permanent_delete_project e (Some u) i w)) = store w
       \<and> trace (snd (api_permanent_delete_project e (Some u) i w)) = trace w"
  using assms(1) find_deleted_None[OF assms(2), of e u] getDeletedProjects_any_store(2,3)[of e u w]
  by (simp_all add: api_restore_project_def api_permanent_delete_project_def case_prod_beta)

text \<open>
  Claim C2. For an authenticated caller and every entity kind, restore and hard delete of
  an identifier of which no row is flagged as deleted (so of every active entity) answer
  404, and leave the three tables and the provider alone: nothing is written and no request
  is sent. The store may even fail. Hard delete thus gets past its guard only for a row
  that soft delete has flagged.
\<close>

theorem transition_from_active_is_not_found:
  assumes "u \<noteq> []" and "op = Restore \<or> op = HardDelete"
    and "\<forall>fl\<in>set (entity_flags k i w). \<not> fst fl"
  shows "fst (fst (handle e (Some u) (lifecycle_route op k i) w)) = 404
       \<and> store (snd (handle e (Some u) (lifecycle_route op k i) w)) = store w
       \<and> trace (snd (handle e (Some u) (lifecycle_route op k i) w)) = trace w"
proof (cases k)
  case Project
  with assms(3) have "\<forall>p\<in>set (projects w). p_id p = i \<longrightarrow> \<not> p_is_deleted p" by auto
  from active_project_not_found[OF assms(1) this] assms(2) Project show ?thesis by auto
next
  case Folder
  with assms(3) have "\<forall>f\<in>set (folders w). fo_id f = i \<longrightarrow> \<not> fo_is_deleted f" by auto
  from active_folder_not_found[OF assms(1) this] assms(2) Folder show ?thesis by auto
next
  case File
  with assms(3) have "\<forall>f\<in>set (files w). fi_id f = i \<longrightarrow> \<not> fi_is_deleted f" by auto
  from active_file_not_found[OF assms(1) this] assms(2) File show ?thesis by auto
qed

text \<open>
  The instances: alice asks to hard-delete her active file \<open>x1\<close> and to restore her
  active project \<open>p1\<close>.
\<close>

theorem transition_from_active_is_not_found_witness:
  "entity_flags File ''x1'' demo_world = [(False, None)]
   \<and> fst (handle (demo_env healthy_provider (\<lambda>s. None)) (Some ''alice'') (PermanentDeleteFile ''x1'') demo_world)
       = (404, ErrorBody ''File not found'')
   \<and> store (snd (handle (demo_env healthy_provider (\<lambda>s. None)) (Some ''alice'') (PermanentDeleteFile ''x1'')
                   demo_world))
       = store demo_world
   \<and> trace (snd (handle (demo_env healthy_provider (\<lambda>s. None)) (Some ''alice'') (PermanentDeleteFile ''x1'')
                   demo_world))
       = []
   \<and> entity_flags Project ''p1'' demo_world = [(False, None)]
   \<and> fst (handle (demo_env healthy_provider (\<lambda>s. None)) (Some ''alice'') (RestoreProject ''p1'') demo_world)
       = (404, ErrorBody ''Project not found in trash'')
   \<and> store (snd (handle (demo_env healthy_provider (\<lambda>s. None)) (Some ''alice'') (RestoreProject ''p1'')
                   demo_world))
       = store demo_world"
proof -
  have f1: "entity_flags File ''x1'' demo_world = [(False, None)]"
    and f2: "entity_flags Project ''p1'' demo_world = [(False, None)]"
    by (simp_all add: demo_defs)
  have a: "''alice'' \<noteq> []" by simp
  have h1: "\<forall>fl\<in>set (entity_flags File ''x1'' demo_world). \<not> fst fl"
    and h2: "\<forall>fl\<in>set (entity_flags Project ''p1'' demo_world). \<not> fst fl"
    by (simp_all add: f1 f2 del: entity_flags.simps)
  note t1 = transition_from_active_is_not_found[OF a _ h1, of HardDelete "demo_env healthy_provider (\<lambda>s. None)"]
  note t2 = transition_from_active_is_not_found[OF a _ h2, of Restore "demo_env healthy_provider (\<lambda>s. None)"]
  have r1: "fst (handle (demo_env healthy_provider (\<lambda>s. None)) (Some ''alice'') (PermanentDeleteFile ''x1'')
                demo_world) = (404, ErrorBody ''File not found'')"
    and r2: "fst (handle (demo_env healthy_provider (\<lambda>s. None)) (Some ''alice'') (RestoreProject ''p1'')
                demo_world) = (404, ErrorBody ''Project not found in trash'')"
    by (simp_all add: run_defs demo_defs)
  show ?thesis
    using f1 f2 r1 r2 t1 t2 by (simp add: demo_world_def)
qed

section \<open>A caller who does not own the project\<close>

lemma stranger_guard:
  "project_owner i w \<noteq> Some u \<Longrightarrow>
     (case single (filter (\<lambda>p. p_id p = i) (projects w)) of None \<Rightarrow> True | Some p \<Rightarrow> p_user_id p \<noteq> u)"
  by (simp add: project_owner_def split: option.splits)

lemma untouched_db_calls [simp]: "untouched w (w\<lparr>db_calls := n\<rparr>)"
  by (simp add: untouched_def store_def)

lemma stranger_project:
  assumes "db_reliable e" "u \<noteq> []"
    and "filter (\<lambda>p. p_id p = i) (projects w) = [p]" "p_user_id p \<noteq> u"
  shows "fst (api_delete_project e (Some u) i w) = (403, ErrorBody ''Forbidden'')"
    and "untouched w (snd (api_delete_project e (Some u) i w))"
    and "fst (api_get_trash e (Some u) i w) = (403, ErrorBody ''Forbidden'')"
    and "untouched w (snd (api_get_trash e (Some u) i w))"
    and "fst (api_empty_trash e (Some u) i w) = (403, ErrorBody ''Forbidden'')"
    and "untouched w (snd (api_empty_trash e (Some u) i w))"
  using assms by (simp_all add: api_delete_project_def api_get_trash_def api_empty_trash_def)

lemma stranger_folder:
  assumes "db_reliable e" "u \<noteq> []"
    and "filter (\<lambda>f. fo_id f = i) (folders w) = [f]" "project_owner (fo_project_id f) w \<noteq> Some u"
  shows "fst (api_delete_folder e (Some u) i w) = (403, ErrorBody ''Forbidden'')"
    and "untouched w (snd (api_delete_folder e (Some u) i w))"
    and "fo_is_deleted f \<Longrightarrow> fst (api_restore_folder e (Some u) i w) = (403, ErrorBody ''Forbidden'')"
    and "fo_is_deleted f \<Longrightarrow> untouched w (snd (api_restore_folder e (Some u) i w))"
    and "fo_is_deleted f \<Longrightarrow> fst (api_permanent_delete_folder e (Some u) i w) = (403, ErrorBody ''Forbidden'')"
    and "fo_is_deleted f \<Longrightarrow> untouched w (snd (api_permanent_delete_folder e (Some u) i w))"
  using assms(1-3) stranger_guard[OF assms(4)]
  by (simp_all add: api_delete_folder_def api_restore_folder_def api_permanent_delete_folder_def)

lemma stranger_file:
  assumes "db_reliable e" "u \<noteq> []"
    and "filter (\<lambda>f. fi_id f = i) (files w) = [f]" "project_owner (fi_project_id f) w \<noteq> Some u"
  shows "fst (api_delete_file e (Some u) i w) = (403, ErrorBody ''Forbidden'')"
    and "untouched w (snd (api_delete_file e (Some u) i w))"
    and "fi_is_deleted f \<Longrightarrow> fst (api_restore_file e (Some u) i w) = (403, ErrorBody ''Forbidden'')"
    and "fi_is_deleted f \<Longrightarrow> untouched w (snd (api_restore_file e (Some u) i w))"
    and "fi_is_deleted f \<Longrightarrow> fst (api_permanent_delete_file e (Some u) i w) = (403, ErrorBody ''Forbidden'')"
    and "fi_is_deleted f \<Longrightarrow> untouched w (snd (api_permanent_delete_file e (Some u) i w))"
  using assms(1-3) stranger_guard[OF assms(4)]
  by (simp_all add: api_delete_file_def api_restore_file_def api_permanent_delete_file_def)

lemma length_one: "length xs = Suc 0 \<Longrightarrow> \<exists>x. xs = [x]"
  by (cases xs) auto

text \<open>
  The restore and the hard delete of a project look the project up among the deleted
  projects of the caller, so for a caller who owns no row of that identifier they answer
  404; the comparison of the owner that follows the lookup in both handlers is never
  false.
\<close>

lemma stranger_to_project_trash_is_not_found:
  assumes "u \<noteq> []" and "\<forall>p\<in>set (projects w). p_id p = i \<longrightarrow> p_user_id p \<noteq> u"
  shows "fst (api_restore_project e (Some u) i w) = (404, ErrorBody ''Project not found in trash'')"
    and "fst (api_permanent_delete_project e (Some u) i w) = (404, ErrorBody ''Project not found'')"
proof -
  have "find (\<lambda>p. p_id p = i) (fst (storage_getDeletedProjects e u w)) = None"
    using assms(2) by (auto simp add: getDeletedProjects_any_store find_None_iff)
  then show "fst (api_restore_project e (Some u) i w) = (404, ErrorBody ''Project not found in trash'')"
    and "fst (api_permanent_delete_project e (Some u) i w) = (404, ErrorBody ''Project not found'')"
    using assms(1)
    by (simp_all add: api_restore_project_def api_permanent_delete_project_def case_prod_beta)
qed

lemma stranger_to_project_trash_example:
  "entity_flags Project ''p2'' demo_world = [(True, Some 40)]
   \<and> entity_owner Project ''p2'' demo_world = Some ''alice''
   \<and> fst (handle (demo_env healthy_provider (\<lambda>s. None)) (Some ''bob'') (RestoreProject ''p2'') demo_world)
       = (404, ErrorBody ''Project not found in trash'')
   \<and> fst (handle (demo_env healthy_provider (\<lambda>s. None)) (Some ''bob'') (PermanentDeleteProject ''p2'') demo_world)
       = (404, ErrorBody ''Project not found'')"
  by (simp add: run_defs demo_defs project_owner_def)

text \<open>
  Claim C4, as stated, fails: the restore of a file that is not in the trash answers 404
  to a caller who does not own the project, since the handler checks the state of the
  file before it checks the owner. Bob asks to restore the active file \<open>x1\<close> of alice.
\<close>

theorem stranger_is_forbidden_counterexample:
  "entity_flags File ''x1'' demo_world = [(False, None)]
   \<and> entity_owner File ''x1'' demo_world = Some ''alice''
   \<and> fst (handle (demo_env healthy_provider (\<lambda>s. None)) (Some ''bob'') (RestoreFile ''x1'') demo_world)
       = (404, ErrorBody ''File not found in trash'')"
  by (simp add: run_defs demo_defs project_owner_def)

text \<open>
  Claim C4, amended. On a reliable store, an authenticated caller who is not the owner of
  the project of an entity that is there once is answered 403, and the request leaves the
  state alone, for: the soft delete of a project, folder or file; the restore and the
  hard delete of a folder or file that is in the trash; listing and emptying the trash of
  a project. Nothing is said of the restore and the hard delete of a project.
\<close>

theorem stranger_is_forbidden:
  assumes "db_reliable e" and "u \<noteq> []"
    and "length (entity_flags k i w) = 1" and "entity_owner k i w \<noteq> Some u"
    and "rq = lifecycle_route SoftDelete k i
         \<or> (k \<noteq> Project \<and> map fst (entity_flags k i w) = [True]
              \<and> (rq = lifecycle_route Restore k i \<or> rq = lifecycle_route HardDelete k i))
         \<or> (k = Project \<and> (rq = GetTrash i \<or> rq = EmptyTrash i))"
  shows "fst (handle e (Some u) rq w) = (403, ErrorBody ''Forbidden'')
       \<and> untouched w (snd (handle e (Some u) rq w))"
proof (cases k)
  case Project
  with assms(3) obtain p where p: "filter (\<lambda>p. p_id p = i) (projects w) = [p]"
    using length_one[of "filter (\<lambda>p. p_id p = i) (projects w)"] by auto
  with assms(4) Project have "p_user_id p \<noteq> u" by (simp add: project_owner_def)
  from stranger_project[OF assms(1,2) p this] assms(5) Project show ?thesis by auto
next
  case Folder
  with assms(3) obtain f where f: "filter (\<lambda>f. fo_id f = i) (folders w) = [f]"
    using length_one[of "filter (\<lambda>f. fo_id f = i) (folders w)"] by auto
  with assms(4) Folder have o: "project_owner (fo_project_id f) w \<noteq> Some u" by simp
  from stranger_folder[OF assms(1,2) f o] assms(5) Folder f show ?thesis by auto
next
  case File
  with assms(3) obtain f where f: "filter (\<lambda>f. fi_id f = i) (files w) = [f]"
    using length_one[of "filter (\<lambda>f. fi_id f = i) (files w)"] by auto
  with assms(4) File have o: "project_owner (fi_project_id f) w \<noteq> Some u" by simp
  from stranger_file[OF assms(1,2) f o] assms(5) File f show ?thesis by auto
qed

text \<open>
  The instances: bob asks to soft-delete the file \<open>x1\<close> of alice, to restore her
  trashed file \<open>x2\<close>, to hard-delete her trashed folder \<open>f2\<close> and to empty the trash
  of her project \<open>p1\<close>.
\<close>

theorem stranger_is_forbidden_witness:
  "db_reliable (demo_env healthy_provider (\<lambda>s. None))
   \<and> length (entity_flags File ''x1'' demo_world) = 1
   \<and> entity_owner File ''x1'' demo_world = Some ''alice''
   \<and> fst (handle (demo_env healthy_provider (\<lambda>s. None)) (Some ''bob'') (DeleteFile ''x1'') demo_world)
       = (403, ErrorBody ''Forbidden'')
   \<and> store (snd (handle (demo_env healthy_provider (\<lambda>s. None)) (Some ''bob'') (DeleteFile ''x1'') demo_world))
       = store demo_world
   \<and> map fst (entity_flags File ''x2'' demo_world) = [True]
   \<and> entity_owner File ''x2'' demo_world = Some ''alice''
   \<and> fst (handle (demo_env healthy_provider (\<lambda>s. None)) (Some ''bob'') (RestoreFile ''x2'') demo_world)
       = (403, ErrorBody ''Forbidden'')
   \<and> untouched demo_world
        (snd (handle (demo_env healthy_provider (\<lambda>s. None)) (Some ''bob'') (RestoreFile ''x2'') demo_world))
   \<and> map fst (entity_flags Folder ''f2'' demo_world) = [True]
   \<and> entity_owner Folder ''f2'' demo_world = Some ''alice''
   \<and> fst (handle (demo_env healthy_provider (\<lambda>s. None)) (Some ''bob'') (PermanentDeleteFolder ''f2'') demo_world)
       = (403, ErrorBody ''Forbidden'')
   \<and> length (entity_flags Project ''p1'' demo_world) = 1
   \<and> entity_owner Project ''p1'' demo_world = Some ''alice''
   \<and> fst (handle (demo_env healthy_provider (\<lambda>s. None)) (Some ''bob'') (EmptyTrash ''p1'') demo_world)
       = (403, ErrorBody ''Forbidden'')
   \<and> untouched demo_world
        (snd (handle (demo_env healthy_provider (\<lambda>s. None)) (Some ''bob'') (EmptyTrash ''p1'') demo_world))"
proof -
  let ?e = "demo_env healthy_provider (\<lambda>s. None)"
  have r: "db_reliable ?e" by (simp add: db_reliable_def demo_env_def)
  have b: "''bob'' \<noteq> []" by simp
  have l1: "length (entity_flags File ''x1'' demo_world) = 1"
    and l2: "length (entity_flags File ''x2'' demo_world) = 1"
    and l3: "length (entity_flags Folder ''f2'' demo_world) = 1"
    and l4: "length (entity_flags Project ''p1'' demo_world) = 1"
    and s2: "map fst (entity_flags File ''x2'' demo_world) = [True]"
    and s3: "map fst (entity_flags Folder ''f2'' demo_world) = [True]"
    by (simp_all add: demo_defs)
  have o1: "entity_owner File ''x1'' demo_world = Some ''alice''"
    and o2: "entity_owner File ''x2'' demo_world = Some ''alice''"
    and o3: "entity_owner Folder ''f2'' demo_world = Some ''alice''"
    and o4: "entity_owner Project ''p1'' demo_world = Some ''alice''"
    by (simp_all add: demo_defs project_owner_def single_def)
  have n1: "entity_owner File ''x1'' demo_world \<noteq> Some ''bob''"
    and n2: "entity_owner File ''x2'' demo_world \<noteq> Some ''bob''"
    and n3: "entity_owner Folder ''f2'' demo_world \<noteq> Some ''bob''"
    and n4: "entity_owner Project ''p1'' demo_world \<noteq> Some ''bob''"
    by (simp_all add: o1 o2 o3 o4 del: entity_owner.simps)
  have t1: "fst (handle ?e (Some ''bob'') (DeleteFile ''x1'') demo_world) = (403, ErrorBody ''Forbidden'')
            \<and> untouched demo_world (snd (handle ?e (Some ''bob'') (DeleteFile ''x1'') demo_world))"
    by (rule stranger_is_forbidden[OF r b l1 n1]) simp
  have t2: "fst (handle ?e (Some ''bob'') (RestoreFile ''x2'') demo_world) = (403, ErrorBody ''Forbidden'')
            \<and> untouched demo_world (snd (handle ?e (Some ''bob'') (RestoreFile ''x2'') demo_world))"
    by (rule stranger_is_forbidden[OF r b l2 n2]) (simp add: s2 del: entity_flags.simps)
  have t3: "fst (handle ?e (Some ''bob'') (PermanentDeleteFolder ''f2'') demo_world) = (403, ErrorBody ''Forbidden'')
            \<and> untouched demo_world (snd (handle ?e (Some ''bob'') (PermanentDeleteFolder ''f2'') demo_world))"
    by (rule stranger_is_forbidden[OF r b l3 n3]) (simp add: s3 del: entity_flags.simps)
  have t4: "fst (handle ?e (Some ''bob'') (EmptyTrash ''p1'') demo_world) = (403, ErrorBody ''Forbidden'')
            \<and> untouched demo_world (snd (handle ?e (Some ''bob'') (EmptyTrash ''p1'') demo_world))"
    by (rule stranger_is_forbidden[OF r b l4 n4]) simp
  show ?thesis
    using r l1 l4 s2 s3 o1 o2 o3 o4 t1 t2 t3 t4
    by (simp add: untouched_def del: entity_flags.simps entity_owner.simps handle.simps)
qed

section \<open>Soft delete does not look at the state\<close>





section \<open>Soft delete followed by restore\<close>

lemma file_round_trip:
  assumes r: "db_reliable e" and u: "u \<noteq> []"
    and f: "filter (\<lambda>f. fi_id f = i) (files w) = [f]"
    and p: "filter (\<lambda>p. p_id p = fi_project_id f) (projects w) = [p]" "p_user_id p = u"
    and a: "\<not> fi_is_deleted f" "fi_deleted_at f = None"
  shows "fst (api_restore_file e (Some u) i (snd (api_delete_file e (Some u) i w))) = (200, SuccessBody)
     \<and> clock_reads (snd (api_delete_file e (Some u) i w)) < clock_reads (snd (api_restore_file e (Some u) i (snd (api_delete_file e (Some u) i w))))
     \<and> store (snd (api_restore_file e (Some u) i (snd (api_delete_file e (Some u) i w))))
        = restamped File i (clock e (clock_reads (snd (api_restore_file e (Some u) i (snd (api_delete_file e (Some u) i w)))) - 1)) w"
proof -
  from api_delete_file_effect[OF r u f p] obtain w1 n where w1:
    "api_delete_file e (Some u) i w = ((200, SuccessBody), w1)"
    "projects w1 = projects w" "folders w1 = folders w"
    "files w1 = map (\<lambda>r. if fi_id r = i
         then r\<lparr>fi_is_deleted := True, fi_deleted_at := Some (clock e n), fi_updated_at := clock e (Suc n)\<rparr>
         else r) (files w)"
    by blast
  let ?f1 = "f\<lparr>fi_is_deleted := True, fi_deleted_at := Some (clock e n), fi_updated_at := clock e (Suc n)\<rparr>"
  have f1: "filter (\<lambda>f. fi_id f = i) (files w1) = [?f1]"
    by (simp add: w1(4) filter_map_update f)
  have p1: "filter (\<lambda>p. p_id p = fi_project_id ?f1) (projects w1) = [p]"
    by (simp add: w1(2) p)
  from api_restore_file_effect[OF r u f1 p1 p(2)] obtain w2 m where w2:
    "api_restore_file e (Some u) i w1 = ((200, SuccessBody), w2)"
    "clock_reads w1 \<le> m" "clock_reads w2 = Suc m"
    "projects w2 = projects w1" "folders w2 = folders w1"
    "files w2 = map (\<lambda>r. if fi_id r = i
         then r\<lparr>fi_is_deleted := False, fi_deleted_at := None, fi_updated_at := clock e m\<rparr>
         else r) (files w1)"
    by auto
  have "files w2 = map (\<lambda>r. if fi_id r = i then r\<lparr>fi_updated_at := clock e m\<rparr> else r) (files w)"
    unfolding w2(6) w1(4)
    by (rule map_update_twice[OF f]) (simp_all add: clear_flags a)
  then show ?thesis
    using w1 w2 by (auto simp add: store_def)
qed

lemma folder_round_trip:
  assumes r: "db_reliable e" and u: "u \<noteq> []"
    and f: "filter (\<lambda>f. fo_id f = i) (folders w) = [f]"
    and p: "filter (\<lambda>p. p_id p = fo_project_id f) (projects w) = [p]" "p_user_id p = u"
    and a: "\<not> fo_is_deleted f" "fo_deleted_at f = None"
  shows "fst (api_restore_folder e (Some u) i (snd (api_delete_folder e (Some u) i w))) = (200, SuccessBody)
     \<and> clock_reads (snd (api_delete_folder e (Some u) i w)) < clock_reads (snd (api_restore_folder e (Some u) i (snd (api_delete_folder e (Some u) i w))))
     \<and> store (snd (api_restore_folder e (Some u) i (snd (api_delete_folder e (Some u) i w))))
        = restamped Folder i (clock e (clock_reads (snd (api_restore_folder e (Some u) i (snd (api_delete_folder e (Some u) i w)))) - 1)) w"
proof -
  from api_delete_folder_effect[OF r u f p] obtain w1 n where w1:
    "api_delete_folder e (Some u) i w = ((200, SuccessBody), w1)"
    "projects w1 = projects w" "files w1 = files w"
    "folders w1 = map (\<lambda>r. if fo_id r = i
         then r\<lparr>fo_is_deleted := True, fo_deleted_at := Some (clock e n), fo_updated_at := clock e (Suc n)\<rparr>
         else r) (folders w)"
    by blast
  let ?f1 = "f\<lparr>fo_is_deleted := True, fo_deleted_at := Some (clock e n), fo_updated_at := clock e (Suc n)\<rparr>"
  have f1: "filter (\<lambda>f. fo_id f = i) (folders w1) = [?f1]"
    by (simp add: w1(4) filter_map_update f)
  have p1: "filter (\<lambda>p. p_id p = fo_project_id ?f1) (projects w1) = [p]"
    by (simp add: w1(2) p)
  from api_restore_folder_effect[OF r u f1 p1 p(2)] obtain w2 m where w2:
    "api_restore_folder e (Some u) i w1 = ((200, SuccessBody), w2)"
    "clock_reads w1 \<le> m" "clock_reads w2 = Suc m"
    "projects w2 = projects w1" "files w2 = files w1"
    "folders w2 = map (\<lambda>r. if fo_id r = i
         then r\<lparr>fo_is_deleted := False, fo_deleted_at := None, fo_updated_at := clock e m\<rparr>
         else r) (folders w1)"
    by auto
  have "folders w2 = map (\<lambda>r. if fo_id r = i then r\<lparr>fo_updated_at := clock e m\<rparr> else r) (folders w)"
    unfolding w2(6) w1(4)
    by (rule map_update_twice[OF f]) (simp_all add: clear_flags a)
  then show ?thesis
    using w1 w2 by (auto simp add: store_def)
qed

lemma project_round_trip:
  assumes r: "db_reliable e" and u: "u \<noteq> []"
    and p: "filter (\<lambda>p. p_id p = i) (projects w) = [p]" "p_user_id p = u"
    and a: "\<not> p_is_deleted p" "p_deleted_at p = None"
  shows "fst (api_restore_project e (Some u) i (snd (api_delete_project e (Some u) i w))) = (200, SuccessBody)
     \<and> clock_reads (snd (api_delete_project e (Some u) i w)) < clock_reads (snd (api_restore_project e (Some u) i (snd (api_delete_project e (Some u) i w))))
     \<and> store (snd (api_restore_project e (Some u) i (snd (api_delete_project e (Some u) i w))))
        = restamped Project i (clock e (clock_reads (snd (api_restore_project e (Some u) i (snd (api_delete_project e (Some u) i w)))) - 1)) w"
proof -
  from api_delete_project_effect[OF r u p] obtain w1 n where w1:
    "api_delete_project e (Some u) i w = ((200, SuccessBody), w1)"
    "folders w1 = folders w" "files w1 = files w"
    "projects w1 = map (\<lambda>r. if p_id r = i
         then r\<lparr>p_is_deleted := True, p_deleted_at := Some (clock e n), p_updated_at := clock e (Suc n)\<rparr>
         else r) (projects w)"
    by blast
  let ?p1 = "p\<lparr>p_is_deleted := True, p_deleted_at := Some (clock e n), p_updated_at := clock e (Suc n)\<rparr>"
  have p1: "filter (\<lambda>p. p_id p = i) (projects w1) = [?p1]"
    by (simp add: w1(4) filter_map_update p)
  have "p_user_id ?p1 = u" "p_is_deleted ?p1" using p(2) by simp_all
  from api_restore_project_effect[OF r u p1 this] obtain w2 m where w2:
    "api_restore_project e (Some u) i w1 = ((200, SuccessBody), w2)"
    "clock_reads w1 \<le> m" "clock_reads w2 = Suc m"
    "folders w2 = folders w1" "files w2 = files w1"
    "projects w2 = map (\<lambda>r. if p_id r = i
         then r\<lparr>p_is_deleted := False, p_deleted_at := None, p_updated_at := clock e m\<rparr>
         else r) (projects w1)"
    by auto
  have "projects w2 = map (\<lambda>r. if p_id r = i then r\<lparr>p_updated_at := clock e m\<rparr> else r) (projects w)"
    unfolding w2(6) w1(4)
    by (rule map_update_twice[OF p(1)]) (simp_all add: clear_flags a)
  then show ?thesis
    using w1 w2 by (auto simp add: store_def)
qed

text \<open>
  Claim C5, as stated, fails: both repository updates write \<^verbatim>\<open>updated_at\<close>, so the round
  trip does not leave all other fields untouched. Alice soft-deletes her file \<open>x1\<close> and
  restores it; the file was last updated at time 30 and now carries the time of the
  restore.
\<close>

theorem soft_delete_then_restore_counterexample:
  "entity_flags File ''x1'' demo_world = [(False, None)]
   \<and> map fi_updated_at (files demo_world) = [30, 31, 32]
   \<and> map fi_updated_at
        (files (snd (handle (demo_env healthy_provider (\<lambda>s. None)) (Some ''alice'') (RestoreFile ''x1'')
                  (snd (handle (demo_env healthy_provider (\<lambda>s. None)) (Some ''alice'') (DeleteFile ''x1'') demo_world)))))
       = [5002, 31, 32]
   \<and> store (snd (handle (demo_env healthy_provider (\<lambda>s. None)) (Some ''alice'') (RestoreFile ''x1'')
                  (snd (handle (demo_env healthy_provider (\<lambda>s. None)) (Some ''alice'') (DeleteFile ''x1'') demo_world))))
       \<noteq> store demo_world"
  by (simp add: run_defs demo_defs store_def)

text \<open>
  Claim C5, amended. On a reliable store, when the owner soft-deletes an active entity and
  then restores it, the restore answers 200 and the store is the store from before the
  soft delete except for the \<^verbatim>\<open>updated_at\<close> stamp of the entity, which carries the time
  of the restore: the restore request reads the clock, and the stamp is its last reading.
  The flag is false and the deletion time is cleared again, every other field of the
  entity but that stamp and every other row are as they were.
\<close>

theorem soft_delete_then_restore:
  assumes "db_reliable e" and "u \<noteq> []"
    and "entity_owner k i w = Some u" and "entity_flags k i w = [(False, None)]"
  shows "fst (handle e (Some u) (lifecycle_route Restore k i)
                (snd (handle e (Some u) (lifecycle_route SoftDelete k i) w))) = (200, SuccessBody)
     \<and> clock_reads (snd (handle e (Some u) (lifecycle_route SoftDelete k i) w))
         < clock_reads (snd (handle e (Some u) (lifecycle_route Restore k i)
                              (snd (handle e (Some u) (lifecycle_route SoftDelete k i) w))))
     \<and> store (snd (handle e (Some u) (lifecycle_route Restore k i)
                   (snd (handle e (Some u) (lifecycle_route SoftDelete k i) w))))
        = restamped k i
            (clock e (clock_reads (snd (handle e (Some u) (lifecycle_route Restore k i)
                                          (snd (handle e (Some u) (lifecycle_route SoftDelete k i) w)))) - 1))
            w"
proof (cases k)
  case Project
  from assms(3) Project obtain p where p: "filter (\<lambda>p. p_id p = i) (projects w) = [p]" "p_user_id p = u"
    using project_ownerD by fastforce
  with assms(4) Project have "\<not> p_is_deleted p" "p_deleted_at p = None" by simp_all
  from project_round_trip[OF assms(1,2) p this] Project show ?thesis by simp
next
  case Folder
  from assms(3) Folder obtain f p where f: "filter (\<lambda>f. fo_id f = i) (folders w) = [f]"
    and p: "filter (\<lambda>p. p_id p = fo_project_id f) (projects w) = [p]" "p_user_id p = u"
    using folder_ownerD by blast
  with assms(4) Folder have "\<not> fo_is_deleted f" "fo_deleted_at f = None" by simp_all
  from folder_round_trip[OF assms(1,2) f p this] Folder show ?thesis by simp
next
  case File
  from assms(3) File obtain f p where f: "filter (\<lambda>f. fi_id f = i) (files w) = [f]"
    and p: "filter (\<lambda>p. p_id p = fi_project_id f) (projects w) = [p]" "p_user_id p = u"
    using file_ownerD by blast
  with assms(4) File have "\<not> fi_is_deleted f" "fi_deleted_at f = None" by simp_all
  from file_round_trip[OF assms(1,2) f p this] File show ?thesis by simp
qed

text \<open>
  The instance: alice soft-deletes and restores her active file \<open>x1\<close>. The soft delete
  reads the clock twice, the restore once: its reading is the third, 5002.
\<close>

theorem soft_delete_then_restore_witness:
  "db_reliable (demo_env healthy_provider (\<lambda>s. None))
   \<and> entity_owner File ''x1'' demo_world = Some ''alice''
   \<and> entity_flags File ''x1'' demo_world = [(False, None)]
   \<and> fst (handle (demo_env healthy_provider (\<lambda>s. None)) (Some ''alice'') (RestoreFile ''x1'') (snd (handle (demo_env healthy_provider (\<lambda>s. None)) (Some ''alice'') (DeleteFile ''x1'') demo_world))) = (200, SuccessBody)
   \<and> clock_reads (snd (handle (demo_env healthy_provider (\<lambda>s. None)) (Some ''alice'') (DeleteFile ''x1'') demo_world)) = 2
   \<and> clock_reads (snd (handle (demo_env healthy_provider (\<lambda>s. None)) (Some ''alice'') (RestoreFile ''x1'') (snd (handle (demo_env healthy_provider (\<lambda>s. None)) (Some ''alice'') (DeleteFile ''x1'') demo_world)))) = 3
   \<and> clock (demo_env healthy_provider (\<lambda>s. None)) 2 = 5002
   \<and> store (snd (handle (demo_env healthy_provider (\<lambda>s. None)) (Some ''alice'') (RestoreFile ''x1'') (snd (handle (demo_env healthy_provider (\<lambda>s. None)) (Some ''alice'') (DeleteFile ''x1'') demo_world)))) = restamped File ''x1'' 5002 demo_world
   \<and> map fi_updated_at (files (snd (handle (demo_env healthy_provider (\<lambda>s. None)) (Some ''alice'') (RestoreFile ''x1'') (snd (handle (demo_env healthy_provider (\<lambda>s. None)) (Some ''alice'') (DeleteFile ''x1'') demo_world))))) = [5002, 31, 32]
   \<and> entity_flags File ''x1'' (snd (handle (demo_env healthy_provider (\<lambda>s. None)) (Some ''alice'') (RestoreFile ''x1'') (snd (handle (demo_env healthy_provider (\<lambda>s. None)) (Some ''alice'') (DeleteFile ''x1'') demo_world)))) = [(False, None)]"
proof -
  have r: "db_reliable (demo_env healthy_provider (\<lambda>s. None))" by (simp add: db_reliable_def demo_env_def)
  have a: "''alice'' \<noteq> []" by simp
  have o: "entity_owner File ''x1'' demo_world = Some ''alice''"
    by (simp add: demo_defs project_owner_def single_def)
  have f: "entity_flags File ''x1'' demo_world = [(False, None)]"
    by (simp add: demo_defs)
  have c: "clock_reads (snd (handle (demo_env healthy_provider (\<lambda>s. None)) (Some ''alice'') (DeleteFile ''x1'') demo_world)) = 2" "clock_reads (snd (handle (demo_env healthy_provider (\<lambda>s. None)) (Some ''alice'') (RestoreFile ''x1'') (snd (handle (demo_env healthy_provider (\<lambda>s. None)) (Some ''alice'') (DeleteFile ''x1'') demo_world)))) = 3" "clock (demo_env healthy_provider (\<lambda>s. None)) 2 = 5002"
    by (simp_all add: run_defs demo_defs)
  have g: "map fi_updated_at (files (snd (handle (demo_env healthy_provider (\<lambda>s. None)) (Some ''alice'') (RestoreFile ''x1'') (snd (handle (demo_env healthy_provider (\<lambda>s. None)) (Some ''alice'') (DeleteFile ''x1'') demo_world))))) = [5002, 31, 32]"
    "entity_flags File ''x1'' (snd (handle (demo_env healthy_provider (\<lambda>s. None)) (Some ''alice'') (RestoreFile ''x1'') (snd (handle (demo_env healthy_provider (\<lambda>s. None)) (Some ''alice'') (DeleteFile ''x1'') demo_world)))) = [(False, None)]"
    by (simp_all add: run_defs demo_defs)
  from soft_delete_then_restore[OF r a o f]
  have t: "fst (handle (demo_env healthy_provider (\<lambda>s. None)) (Some ''alice'') (RestoreFile ''x1'') (snd (handle (demo_env healthy_provider (\<lambda>s. None)) (Some ''alice'') (DeleteFile ''x1'') demo_world))) = (200, SuccessBody)"
    "store (snd (handle (demo_env healthy_provider (\<lambda>s. None)) (Some ''alice'') (RestoreFile ''x1'') (snd (handle (demo_env healthy_provider (\<lambda>s. None)) (Some ''alice'') (DeleteFile ''x1'') demo_world)))) = restamped File ''x1'' (clock (demo_env healthy_provider (\<lambda>s. None)) (clock_reads (snd (handle (demo_env healthy_provider (\<lambda>s. None)) (Some ''alice'') (RestoreFile ''x1'') (snd (handle (demo_env healthy_provider (\<lambda>s. None)) (Some ''alice'') (DeleteFile ''x1'') demo_world)))) - 1)) demo_world"
    by (simp_all del: restamped.simps handle.simps)
  have "clock (demo_env healthy_provider (\<lambda>s. None)) (clock_reads (snd (handle (demo_env healthy_provider (\<lambda>s. None)) (Some ''alice'') (RestoreFile ''x1'') (snd (handle (demo_env healthy_provider (\<lambda>s. None)) (Some ''alice'') (DeleteFile ''x1'') demo_world)))) - 1) = 5002"
    unfolding c(2) using c(3) by simp
  with t(2) have "store (snd (handle (demo_env healthy_provider (\<lambda>s. None)) (Some ''alice'') (RestoreFile ''x1'') (snd (handle (demo_env healthy_provider (\<lambda>s. None)) (Some ''alice'') (DeleteFile ''x1'') demo_world)))) = restamped File ''x1'' 5002 demo_world"
    by (simp only:)
  with t(1) r o f c g show ?thesis by (simp only: simp_thms)
qed

section \<open>Emptying the trash of a project\<close>

lemma tables_try_permanent_delete [simp]:
  "projects (try_drive (googleDrive_permanentDeleteFile e a i w) m) = projects w"
  "folders (try_drive (googleDrive_permanentDeleteFile e a i w) m) = folders w"
  "files (try_drive (googleDrive_permanentDeleteFile e a i w) m) = files w"
  using tables_of_store[of "try_drive (googleDrive_permanentDeleteFile e a i w) m" w] by simp_all

lemma tables_getValidProviderToken [simp]:
  "projects (snd (getValidProviderToken e u w)) = projects w"
  "folders (snd (getValidProviderToken e u w)) = folders w"
  "files (snd (getValidProviderToken e u w)) = files w"
  using tables_of_store[of "snd (getValidProviderToken e u w)" w] by simp_all

lemma purge_files_effect:
  assumes "db_reliable e"
  shows "files (purge_files e tok fs w) = filter (\<lambda>f. fi_id f \<notin> fi_id ` set fs) (files w)
       \<and> folders (purge_files e tok fs w) = folders w
       \<and> projects (purge_files e tok fs w) = projects w"
proof (induction fs arbitrary: w)
  case Nil
  show ?case by simp
next
  case (Cons f fs)
  show ?case
    by (simp add: Cons.IH storage_hardDeleteFile_def filesMetadataRepository_hardDelete_def assms
        conj_commute)
qed

lemma purge_folders_effect:
  assumes "db_reliable e"
  shows "folders (purge_folders e tok fs w) = filter (\<lambda>f. fo_id f \<notin> fo_id ` set fs) (folders w)
       \<and> files (purge_folders e tok fs w) = files w
       \<and> projects (purge_folders e tok fs w) = projects w"
proof (induction fs arbitrary: w)
  case Nil
  show ?case by simp
next
  case (Cons f fs)
  show ?case
    by (simp add: Cons.IH storage_hardDeleteFolder_def foldersRepository_hardDelete_def assms
        conj_commute)
qed

lemma filter_by_key_image:
  assumes "distinct (map key xs)"
  shows "filter (\<lambda>x. key x \<notin> key ` {y \<in> set xs. P y}) xs = filter (\<lambda>x. \<not> P x) xs"
proof (rule filter_cong[OF refl])
  fix x assume x: "x \<in> set xs"
  have "inj_on key (set xs)" using assms by (simp add: distinct_map)
  then have "key x \<in> key ` {y \<in> set xs. P y} \<longleftrightarrow> P x"
    using x by (auto dest: inj_onD)
  then show "(key x \<notin> key ` {y \<in> set xs. P y}) = (\<not> P x)" by simp
qed

lemma reliable_getDeleted:
  assumes "db_reliable e" and "i \<noteq> []"
  shows "storage_getDeletedFiles e i w =
           (Inr (rev (sort_key fi_created_at
                   (filter (\<lambda>f. fi_project_id f = i \<and> fi_is_deleted f) (files w)))),
            w\<lparr>db_calls := Suc (db_calls w)\<rparr>)"
    and "storage_getDeletedFolders e i w =
           (Inr (sort_key fo_sort_order
                   (filter (\<lambda>f. fo_project_id f = i \<and> fo_is_deleted f) (folders w))),
            w\<lparr>db_calls := Suc (db_calls w)\<rparr>)"
  using assms
  by (simp_all add: storage_getDeletedFiles_def storage_getDeletedFolders_def
      filesMetadataRepository_getAll_def foldersRepository_getAll_def truthy_def)

text \<open>
  Claim C3, as stated, fails when a delete in the store fails: both loops drop the result
  of \<^verbatim>\<open>storage.hardDeleteFile\<close> and \<^verbatim>\<open>storage.hardDeleteFolder\<close>. Alice empties the trash
  of her project \<open>p1\<close>, which holds the files \<open>x2\<close> and \<open>x3\<close> and the folder
  \<open>f2\<close>; the fourth call of the store, which is the delete of \<open>x3\<close>, returns an
  error. The handler answers 200 with the success body, and the trashed file \<open>x3\<close> is
  still in the store.
\<close>

theorem empty_trash_purges_the_trash_counterexample:
  "project_owner ''p1'' demo_world = Some ''alice''
   \<and> filter (\<lambda>f. fi_project_id f = ''p1'' \<and> fi_is_deleted f) (files demo_world)
       = [demo_file ''x2'' ''p1'' True 31, demo_file ''x3'' ''p1'' True 32]
   \<and> map (db_error (flaky_store_env failing_provider 3)) [0, 1, 2, 3, 4, 5, 6] = [False, False, False, True, False, False, False]
   \<and> fst (handle (flaky_store_env failing_provider 3) (Some ''alice'') (EmptyTrash ''p1'') demo_world) = (200, SuccessBody)
   \<and> db_calls (snd (handle (flaky_store_env failing_provider 3) (Some ''alice'') (EmptyTrash ''p1'') demo_world)) = 7
   \<and> files (snd (handle (flaky_store_env failing_provider 3) (Some ''alice'') (EmptyTrash ''p1'') demo_world)) = [demo_file ''x1'' ''p1'' False 30, demo_file ''x3'' ''p1'' True 32]
   \<and> folders (snd (handle (flaky_store_env failing_provider 3) (Some ''alice'') (EmptyTrash ''p1'') demo_world)) = [demo_folder ''f1'' ''p1'' False 20]
   \<and> filter (\<lambda>f. fi_project_id f = ''p1'' \<and> fi_is_deleted f) (files (snd (handle (flaky_store_env failing_provider 3) (Some ''alice'') (EmptyTrash ''p1'') demo_world)))
       = [demo_file ''x3'' ''p1'' True 32]"
proof -
  have run: "(case (handle (flaky_store_env failing_provider 3) (Some ''alice'') (EmptyTrash ''p1'') demo_world) of (r, w) \<Rightarrow> (r, db_calls w, files w, folders w))
      = ((200, SuccessBody), 7, [demo_file ''x1'' ''p1'' False 30, demo_file ''x3'' ''p1'' True 32],
         [demo_folder ''f1'' ''p1'' False 20])"
    by (simp add: run_defs demo_defs)
  have before: "project_owner ''p1'' demo_world = Some ''alice''"
    "filter (\<lambda>f. fi_project_id f = ''p1'' \<and> fi_is_deleted f) (files demo_world)
       = [demo_file ''x2'' ''p1'' True 31, demo_file ''x3'' ''p1'' True 32]"
    "map (db_error (flaky_store_env failing_provider 3)) [0, 1, 2, 3, 4, 5, 6] = [False, False, False, True, False, False, False]"
    by (simp_all add: demo_defs project_owner_def single_def)
  from run have after: "fst (handle (flaky_store_env failing_provider 3) (Some ''alice'') (EmptyTrash ''p1'') demo_world) = (200, SuccessBody)" "db_calls (snd (handle (flaky_store_env failing_provider 3) (Some ''alice'') (EmptyTrash ''p1'') demo_world)) = 7"
    "files (snd (handle (flaky_store_env failing_provider 3) (Some ''alice'') (EmptyTrash ''p1'') demo_world)) = [demo_file ''x1'' ''p1'' False 30, demo_file ''x3'' ''p1'' True 32]"
    "folders (snd (handle (flaky_store_env failing_provider 3) (Some ''alice'') (EmptyTrash ''p1'') demo_world)) = [demo_folder ''f1'' ''p1'' False 20]"
    by (simp_all add: case_prod_beta del: handle.simps)
  have "filter (\<lambda>f. fi_project_id f = ''p1'' \<and> fi_is_deleted f) (files (snd (handle (flaky_store_env failing_provider 3) (Some ''alice'') (EmptyTrash ''p1'') demo_world)))
       = [demo_file ''x3'' ''p1'' True 32]"
    unfolding after(3) by (simp add: demo_defs)
  with before after show ?thesis by (simp only: simp_thms)
qed

text \<open>
  Claim C3, amended. On a store whose calls do not fail and whose file and folder
  identifiers are keys, when the owner empties the trash of a project, then whatever the
  provider answers to each of the permanent-delete requests: the handler answers 200; the
  files table is left with exactly the rows that are not trashed files of the project, the
  folders table likewise; and the projects table is as before.
\<close>

theorem empty_trash_purges_the_trash:
  assumes "db_reliable e" and "u \<noteq> []" and "i \<noteq> []"
    and "project_owner i w = Some u"
    and "distinct (map fi_id (files w))" and "distinct (map fo_id (folders w))"
  shows "fst (handle e (Some u) (EmptyTrash i) w) = (200, SuccessBody)
       \<and> files (snd (handle e (Some u) (EmptyTrash i) w))
           = filter (\<lambda>f. \<not> (fi_project_id f = i \<and> fi_is_deleted f)) (files w)
       \<and> folders (snd (handle e (Some u) (EmptyTrash i) w))
           = filter (\<lambda>f. \<not> (fo_project_id f = i \<and> fo_is_deleted f)) (folders w)
       \<and> projects (snd (handle e (Some u) (EmptyTrash i) w)) = projects w"
proof -
  from assms(4) obtain p where p: "filter (\<lambda>p. p_id p = i) (projects w) = [p]" "p_user_id p = u"
    using project_ownerD by blast
  let ?W = "snd (getValidProviderToken e u (w\<lparr>db_calls := Suc (db_calls w)\<rparr>))"
  let ?tok = "fst (getValidProviderToken e u (w\<lparr>db_calls := Suc (db_calls w)\<rparr>))"
  let ?fs = "rev (sort_key fi_created_at (filter (\<lambda>f. fi_project_id f = i \<and> fi_is_deleted f) (files w)))"
  let ?gs = "sort_key fo_sort_order (filter (\<lambda>f. fo_project_id f = i \<and> fo_is_deleted f) (folders w))"
  let ?W1 = "purge_files e ?tok ?fs (?W\<lparr>db_calls := Suc (db_calls ?W)\<rparr>)"
  let ?W2 = "purge_folders e ?tok ?gs (?W1\<lparr>db_calls := Suc (db_calls ?W1)\<rparr>)"
  have w1: "folders ?W1 = folders w"
    using purge_files_effect[OF assms(1), of ?tok ?fs "?W\<lparr>db_calls := Suc (db_calls ?W)\<rparr>"] by simp
  have run: "api_empty_trash e (Some u) i w = ((200, SuccessBody), ?W2)"
    using assms(1,2) p
    by (simp add: api_empty_trash_def reliable_getDeleted[OF assms(1,3)] case_prod_beta w1)
  have fset: "fi_id ` set ?fs = fi_id ` {y \<in> set (files w). fi_project_id y = i \<and> fi_is_deleted y}"
    and gset: "fo_id ` set ?gs = fo_id ` {y \<in> set (folders w). fo_project_id y = i \<and> fo_is_deleted y}"
    by auto
  have files: "files ?W2 = filter (\<lambda>f. \<not> (fi_project_id f = i \<and> fi_is_deleted f)) (files w)"
    using purge_folders_effect[OF assms(1), of ?tok ?gs "?W1\<lparr>db_calls := Suc (db_calls ?W1)\<rparr>"]
      purge_files_effect[OF assms(1), of ?tok ?fs "?W\<lparr>db_calls := Suc (db_calls ?W)\<rparr>"]
      filter_by_key_image[OF assms(5), of "\<lambda>f. fi_project_id f = i \<and> fi_is_deleted f"]
    by (simp add: fset del: set_rev set_sort set_filter)
  have folders: "folders ?W2 = filter (\<lambda>f. \<not> (fo_project_id f = i \<and> fo_is_deleted f)) (folders w)"
    using purge_folders_effect[OF assms(1), of ?tok ?gs "?W1\<lparr>db_calls := Suc (db_calls ?W1)\<rparr>"]
      filter_by_key_image[OF assms(6), of "\<lambda>f. fo_project_id f = i \<and> fo_is_deleted f"]
    by (simp add: gset w1 del: set_sort set_filter)
  have projects: "projects ?W2 = projects w"
    using purge_folders_effect[OF assms(1), of ?tok ?gs "?W1\<lparr>db_calls := Suc (db_calls ?W1)\<rparr>"]
      purge_files_effect[OF assms(1), of ?tok ?fs "?W\<lparr>db_calls := Suc (db_calls ?W)\<rparr>"]
    by simp
  show ?thesis using run files folders projects by simp
qed

text \<open>
  The instance: alice empties the trash of her project \<open>p1\<close> while the provider answers
  every permanent-delete request with status 500. The two trashed files and the trashed
  folder are gone from the store, the active file and folder are left, and the three
  failures are in the error log.
\<close>

theorem empty_trash_purges_the_trash_witness:
  "db_reliable (demo_env failing_provider (\<lambda>s. None))
   \<and> project_owner ''p1'' demo_world = Some ''alice''
   \<and> distinct (map fi_id (files demo_world)) \<and> distinct (map fo_id (folders demo_world))
   \<and> fst (handle (demo_env failing_provider (\<lambda>s. None)) (Some ''alice'') (EmptyTrash ''p1'') demo_world) = (200, SuccessBody)
   \<and> files (snd (handle (demo_env failing_provider (\<lambda>s. None)) (Some ''alice'') (EmptyTrash ''p1'') demo_world))
       = [demo_file ''x1'' ''p1'' False 30]
   \<and> folders (snd (handle (demo_env failing_provider (\<lambda>s. None)) (Some ''alice'') (EmptyTrash ''p1'') demo_world))
       = [demo_folder ''f1'' ''p1'' False 20]
   \<and> projects (snd (handle (demo_env failing_provider (\<lambda>s. None)) (Some ''alice'') (EmptyTrash ''p1'') demo_world)) = projects demo_world
   \<and> map fst (errlog (snd (handle (demo_env failing_provider (\<lambda>s. None)) (Some ''alice'') (EmptyTrash ''p1'') demo_world)))
       = [''Failed to delete Drive file:'', ''Failed to delete Drive file:'',
          ''Failed to delete Drive folder:'']"
proof -
  have r: "db_reliable (demo_env failing_provider (\<lambda>s. None))" by (simp add: db_reliable_def demo_env_def)
  have a: "''alice'' \<noteq> []" and i: "''p1'' \<noteq> []" by simp_all
  have o: "project_owner ''p1'' demo_world = Some ''alice''"
    by (simp add: demo_defs project_owner_def single_def)
  have d: "distinct (map fi_id (files demo_world))" "distinct (map fo_id (folders demo_world))"
    by (simp_all add: demo_defs)
  have l: "map fst (errlog (snd (handle (demo_env failing_provider (\<lambda>s. None)) (Some ''alice'') (EmptyTrash ''p1'') demo_world)))
       = [''Failed to delete Drive file:'', ''Failed to delete Drive file:'',
          ''Failed to delete Drive folder:'']"
    by (simp add: run_defs demo_defs)
  have f: "filter (\<lambda>f. \<not> (fi_project_id f = ''p1'' \<and> fi_is_deleted f)) (files demo_world)
             = [demo_file ''x1'' ''p1'' False 30]"
    and g: "filter (\<lambda>f. \<not> (fo_project_id f = ''p1'' \<and> fo_is_deleted f)) (folders demo_world)
             = [demo_folder ''f1'' ''p1'' False 20]"
    by (simp_all add: demo_defs)
  from empty_trash_purges_the_trash[OF r a i o d] r o d l f g show ?thesis
    by (simp del: handle.simps)
qed

section \<open>The creation of a project\<close>

text \<open>
  The requests that the credential step sends are requests about the credential; the
  listing of the projects writes nothing; the insert either fails and leaves the tables
  alone, or appends the one new row.
\<close>

lemma trace_getValidProviderToken_credential:
  "\<exists>rs. trace (snd (getValidProviderToken e u w)) = trace w @ rs \<and> (\<forall>r\<in>set rs. is_credential_request r)"
  unfolding getValidProviderToken_def
  by (simp add: case_prod_beta split: option.splits http_outcome.splits sum.splits)

lemma getProjects_any_store:
  "store (snd (storage_getProjects e u w)) = store w"
  "trace (snd (storage_getProjects e u w)) = trace w"
  "\<exists>es. errlog (snd (storage_getProjects e u w)) = errlog w @ es"
  by (simp_all add: storage_getProjects_def projectsRepository_getAll_def store_call_def
      store_def console_error_def truthy_def bool.case_eq_if)

lemma createProject_cases [case_names failed inserted]:
  assumes "\<lbrakk>fst (storage_createProject e ins w) = Inl StoreError;
            store (snd (storage_createProject e ins w)) = store w;
            trace (snd (storage_createProject e ins w)) = trace w;
            errlog (snd (storage_createProject e ins w)) = errlog w @ [(''Error creating project:'', StoreError)]\<rbrakk>
           \<Longrightarrow> thesis"
    and "\<And>row. \<lbrakk>fst (storage_createProject e ins w) = Inr row;
            projects (snd (storage_createProject e ins w)) = projects w @ [row];
            folders (snd (storage_createProject e ins w)) = folders w;
            files (snd (storage_createProject e ins w)) = files w;
            trace (snd (storage_createProject e ins w)) = trace w;
            errlog (snd (storage_createProject e ins w)) = errlog w;
            p_id row \<notin> p_id ` set (projects w);
            p_title row = ip_title ins; \<not> p_is_deleted row;
            p_root_drive_id row =
              Some (if truthy (ip_root_drive_id ins) then js_string (ip_root_drive_id ins) else [])\<rbrakk>
           \<Longrightarrow> thesis"
  shows thesis
proof (cases "db_error e (db_calls w) \<or> new_uuid e (db_calls w) \<in> p_id ` set (projects w)")
  case True
  show ?thesis
    by (rule assms(1))
       (use True in \<open>simp_all add: storage_createProject_def projectsRepository_create_def io_defs
          store_def Let_def\<close>)
next
  case False
  show ?thesis
    by (rule assms(2)[of "\<lparr>p_id = new_uuid e (db_calls w),
                     p_user_id = ip_user_id ins,
                     p_title = ip_title ins,
                     p_description = None,
                     p_root_drive_id =
                       Some (if truthy (ip_root_drive_id ins) then js_string (ip_root_drive_id ins) else []),
                     p_status = (if truthy (ip_status ins) then js_string (ip_status ins) else ''active''),
                     p_is_deleted = False,
                     p_deleted_at = None,
                     p_created_at = clock e (clock_reads w),
                     p_updated_at = clock e (clock_reads w)\<rparr>"])
       (use False in \<open>simp_all add: storage_createProject_def projectsRepository_create_def io_defs
          store_def Let_def\<close>)
qed

lemma createFolder_effect:
  "trace (snd (googleDrive_createFolder e tok name None w)) = trace w @ [CreateFolderReq tok name None]"
  "errlog (snd (googleDrive_createFolder e tok name None w)) = errlog w"
  "\<not> container_created (net e (length (trace w))) \<Longrightarrow> isl (fst (googleDrive_createFolder e tok name None w))"
  "net e (length (trace w)) = Response s (JsonObj d) \<Longrightarrow> response_ok s \<Longrightarrow>
     fst (googleDrive_createFolder e tok name None w) = Inr d"
  by (auto simp add: googleDrive_createFolder_def case_prod_beta truthy_def
      split: http_outcome.splits http_body.splits)

lemma container_createdD:
  "container_created outcome \<Longrightarrow> \<exists>s d. outcome = Response s (JsonObj d) \<and> response_ok s"
  by (cases outcome rule: container_created.cases) auto

lemma two_phase_second_half:
  assumes t: "trace w3 = trace w @ rs0" and l: "errlog w3 = errlog w @ es0" and s: "store w3 = store w"
  shows "two_phase_outcome e w rs0
           (fst (create_project_in_drive_and_store e u tok name status w3))
           (snd (create_project_in_drive_and_store e u tok name status w3))"
proof (cases "container_created (net e (length (trace w3)))")
  case False
  let ?c = "googleDrive_createFolder e tok name None w3"
  from createFolder_effect(3)[OF False, of tok name] obtain x where x: "fst ?c = Inl x"
    by (cases "fst ?c") auto
  have run: "create_project_in_drive_and_store e u tok name status w3 =
      ((500, LocalizedError ''creating the Drive folder failed''),
       console_error ''Failed to create Drive folder:'' x (snd ?c))"
    using x by (simp add: create_project_in_drive_and_store_def case_prod_beta)
  have tabs: "projects (snd ?c) = projects w" "folders (snd ?c) = folders w" "files (snd ?c) = files w"
    using tables_of_store[of "snd ?c" w3] tables_of_store[OF s] by simp_all
  show ?thesis
    unfolding two_phase_outcome_def run
    apply (rule exI[of _ "es0 @ [(''Failed to create Drive folder:'', x)]"])
    using False t l tabs by (simp add: createFolder_effect)
next
  case True
  then obtain st d where o: "net e (length (trace w3)) = Response st (JsonObj d)" "response_ok st"
    using container_createdD by blast
  let ?c = "googleDrive_createFolder e tok name None w3"
  let ?ins = "\<lparr>ip_user_id = u, ip_title = name,
               ip_status = Some (if truthy status then js_string status else ''active''),
               ip_root_drive_id = d\<rparr>"
  let ?p = "storage_createProject e ?ins (snd ?c)"
  have c: "fst ?c = Inr d" using createFolder_effect(4)[OF o, of tok name] .
  have ctabs: "projects (snd ?c) = projects w" "folders (snd ?c) = folders w" "files (snd ?c) = files w"
    using tables_of_store[of "snd ?c" w3] tables_of_store[OF s] by simp_all
  show ?thesis
  proof (cases e ?ins "snd ?c" rule: createProject_cases)
    case failed
    note f = failed
    let ?w6 = "console_error ''Database create error, cleaning up Drive folder:'' StoreError (snd ?p)"
    let ?w7 = "try_drive (googleDrive_deleteFile e tok (js_string d) ?w6) ''Failed to cleanup Drive folder:''"
    have run: "create_project_in_drive_and_store e u tok name status w3 =
        ((500, ExnMessage StoreError), console_error ''Create project error:'' StoreError ?w7)"
      using c f by (simp add: create_project_in_drive_and_store_def case_prod_beta)
    have ptabs: "projects (snd ?p) = projects w" "folders (snd ?p) = folders w" "files (snd ?p) = files w"
      using tables_of_store[of "snd ?p" "snd ?c"] f ctabs by simp_all
    have tabs7: "projects ?w7 = projects w" "folders ?w7 = folders w" "files ?w7 = files w"
      using tables_of_store[of ?w7 "snd ?p"] ptabs by simp_all
    have tr7: "trace ?w7 = trace w @ rs0 @ [CreateFolderReq tok name None, DeleteReq tok (js_string d)]"
      using f t by (simp add: googleDrive_deleteFile_def try_drive_effect createFolder_effect)
    define x0 where "x0 = projl (fst (drive_void_call e (DeleteReq tok (js_string d))
                                         ''Failed to delete file'' ?w6))"
    define es where "es = es0 @ [(''Error creating project:'', StoreError),
                      (''Database create error, cleaning up Drive folder:'', StoreError)]
                 @ (if failing_outcome (net e (Suc (length (trace w) + length rs0)))
                    then [(''Failed to cleanup Drive folder:'', x0)] else [])
                 @ [(''Create project error:'', StoreError)]"
    have lg: "errlog (console_error ''Create project error:'' StoreError ?w7) = errlog w @ es"
      using f t l unfolding es_def x0_def
      by (simp add: googleDrive_deleteFile_def try_drive_effect createFolder_effect)
    have rep: "failing_outcome (net e (Suc (length (trace w) + length rs0)))
                 \<longrightarrow> (\<exists>x. (''Failed to cleanup Drive folder:'', x) \<in> set es)"
      unfolding es_def by (rule impI, rule exI[of _ x0]) simp
    have third: "\<exists>tok' name' s' d'.
               trace ?w7 = trace w @ rs0 @ [CreateFolderReq tok' name' None, DeleteReq tok' (js_string d')]
               \<and> net e (length (trace w) + length rs0) = Response s' (JsonObj d') \<and> response_ok s'
               \<and> projects ?w7 = projects w
               \<and> (failing_outcome (net e (Suc (length (trace w) + length rs0)))
                    \<longrightarrow> (\<exists>x. (''Failed to cleanup Drive folder:'', x) \<in> set es))"
      apply (rule exI[of _ tok], rule exI[of _ name], rule exI[of _ st], rule exI[of _ d])
      using o t tr7 tabs7(1) rep by simp
    show ?thesis
      unfolding two_phase_outcome_def run
      apply (rule exI[of _ es])
      apply (intro conjI)
         apply (simp only: snd_conv lg)
        apply (simp add: tabs7)
       apply (simp add: tabs7)
      apply (rule disjI2, rule disjI2, rule disjI1)
      using third by simp
  next
    case (inserted row)
    note r = inserted
    have run: "create_project_in_drive_and_store e u tok name status w3 =
        ((201, CreatedBody row name), snd ?p)"
      using c r(1) by (simp add: create_project_in_drive_and_store_def case_prod_beta)
    show ?thesis
      unfolding two_phase_outcome_def run
      apply (rule exI[of _ es0])
      apply (intro conjI)
         apply (simp add: r createFolder_effect l)
        apply (simp add: r ctabs)
       apply (simp add: r ctabs)
      apply (rule disjI2, rule disjI2, rule disjI2)
      apply (rule exI[of _ tok], rule exI[of _ name], rule exI[of _ st], rule exI[of _ d], rule exI[of _ row])
      using o t r ctabs by (simp add: createFolder_effect)
  qed
qed

lemma two_phase_early:
  assumes "trace w' = trace w @ rs0" and "\<exists>es. errlog w' = errlog w @ es" and "store w' = store w"
    and "fst resp \<noteq> 201"
  shows "two_phase_outcome e w rs0 resp w'"
  using assms tables_of_store[of w' w] unfolding two_phase_outcome_def by auto

lemma year_suffix_frame:
  "store (snd (if truthy y then (js_string y, w)
               else (case read_clock e w of (t, w0) \<Rightarrow> (year_string e t, w0)))) = store w"
  "trace (snd (if truthy y then (js_string y, w)
               else (case read_clock e w of (t, w0) \<Rightarrow> (year_string e t, w0)))) = trace w"
  "errlog (snd (if truthy y then (js_string y, w)
               else (case read_clock e w of (t, w0) \<Rightarrow> (year_string e t, w0)))) = errlog w"
  by (simp_all add: case_prod_beta)

lemma api_post_projects_two_phase:
  "\<exists>rs0. (\<forall>r\<in>set rs0. is_credential_request r) \<and>
     two_phase_outcome e w rs0 (fst (api_post_projects e uid body w)) (snd (api_post_projects e uid body w))"
proof (cases "requireAuth uid")
  case None
  have "two_phase_outcome e w [] (fst (api_post_projects e uid body w)) (snd (api_post_projects e uid body w))"
    by (rule two_phase_early) (simp_all add: api_post_projects_def None)
  then show ?thesis by (intro exI[of _ "[]"]) simp
next
  case (Some userId)
  show ?thesis
  proof (cases body)
    case None
    have "two_phase_outcome e w [] (fst (api_post_projects e uid body w)) (snd (api_post_projects e uid body w))"
      by (rule two_phase_early) (simp_all add: api_post_projects_def None Some)
    then show ?thesis by (intro exI[of _ "[]"]) simp
  next
    case (Some obj)
    note b = Some
    show ?thesis
    proof (cases "truthy (map_of obj ''title'')")
      case False
      have "two_phase_outcome e w [] (fst (api_post_projects e uid body w)) (snd (api_post_projects e uid body w))"
        by (rule two_phase_early) (simp_all add: api_post_projects_def b \<open>requireAuth uid = Some userId\<close> False)
      then show ?thesis by (intro exI[of _ "[]"]) simp
    next
      case True
      define y where "y = (if truthy (map_of obj ''academicYear'') then (js_string (map_of obj ''academicYear''), w)
               else (case read_clock e w of (t, w0) \<Rightarrow> (year_string e t, w0)))"
      define name where "name = js_string (map_of obj ''title'') @ '' - '' @ fst y"
      define g where "g = storage_getProjects e userId (snd y)"
      have y: "store (snd y) = store w" "trace (snd y) = trace w" "errlog (snd y) = errlog w"
        unfolding y_def by (rule year_suffix_frame)+
      have g: "store (snd g) = store w" "trace (snd g) = trace w" "\<exists>es. errlog (snd g) = errlog w @ es"
        unfolding g_def using getProjects_any_store[of e userId "snd y"] y by simp_all
      define v where "v = getValidProviderToken e userId (snd g)"
      have run: "api_post_projects e uid body w =
          (case find (\<lambda>p. p_title p = name) (fst g) of
             Some duplicateProject \<Rightarrow> ((400, LocalizedError ''a project of this name exists''), snd g)
           | None \<Rightarrow>
               if \<not> truthy (fst v)
               then ((400, LocalizedError ''Google Drive is not connected''), snd v)
               else create_project_in_drive_and_store e userId (js_string (fst v)) name
                      (map_of obj ''status'') (snd v))"
        unfolding v_def g_def name_def y_def
        using True b \<open>requireAuth uid = Some userId\<close>
        by (simp add: api_post_projects_def case_prod_beta Let_def split: option.splits)
      show ?thesis
      proof (cases "find (\<lambda>p. p_title p = name) (fst g)")
        case (Some dup)
        have "two_phase_outcome e w [] (fst (api_post_projects e uid body w)) (snd (api_post_projects e uid body w))"
          by (rule two_phase_early) (simp_all add: run Some g)
        then show ?thesis by (intro exI[of _ "[]"]) simp
      next
        case None
        obtain rs0 where rs0: "trace (snd v) = trace (snd g) @ rs0" "\<forall>r\<in>set rs0. is_credential_request r"
          unfolding v_def using trace_getValidProviderToken_credential[of e userId "snd g"] by blast
        obtain es1 where es1: "errlog (snd g) = errlog w @ es1" using g(3) by blast
        obtain es2 where es2: "errlog (snd v) = errlog (snd g) @ es2"
          unfolding v_def using errlog_getValidProviderToken[of e userId "snd g"] by blast
        have v: "store (snd v) = store w" "trace (snd v) = trace w @ rs0"
                "errlog (snd v) = errlog w @ (es1 @ es2)"
          using rs0 es1 es2 g by (simp_all add: v_def)
        show ?thesis
        proof (cases "truthy (fst v)")
          case False
          have "two_phase_outcome e w rs0 (fst (api_post_projects e uid body w)) (snd (api_post_projects e uid body w))"
            by (rule two_phase_early) (simp_all add: run None False v)
          then show ?thesis using rs0(2) by (intro exI[of _ rs0]) simp
        next
          case t: True
          have run': "api_post_projects e uid body w =
                   create_project_in_drive_and_store e userId (js_string (fst v)) name
                     (map_of obj ''status'') (snd v)"
            by (simp add: run None t)
          have "two_phase_outcome e w rs0 (fst (api_post_projects e uid body w)) (snd (api_post_projects e uid body w))"
            unfolding run' by (rule two_phase_second_half[OF v(2) v(3) v(1)])
          then show ?thesis using rs0(2) by (intro exI[of _ rs0]) simp
        qed
      qed
    qed
  qed
qed

text \<open>
  Claim C8. The creation of a project has two phases. For every environment, caller, body
  and state, with \<open>rs0\<close> the requests about the credential: the request for the container
  is the first request after them, and a row is written only if that request succeeded;
  when the container was created and the insert failed, the next and last request is the
  deletion of that container, sent once, its failure reported under
  \<^verbatim>\<open>Failed to cleanup Drive folder:\<close>, the answer is 500 and the table of projects is as
  before; the answer is 201 only with the container created and one new row, which refers
  to it. The folders and files are never touched.
\<close>

theorem project_creation_is_two_phase:
  "\<exists>rs0. (\<forall>r\<in>set rs0. is_credential_request r) \<and>
     two_phase_outcome e w rs0 (fst (handle e uid (PostProjects body) w))
       (snd (handle e uid (PostProjects body) w))"
  using api_post_projects_two_phase[of e w uid body] by simp

text \<open>
  The instances. The store fails from its third call on, which is the insert, and the
  provider fails from its third request on, which is the deletion of the container:
  alice gets 500, no row, and the failed deletion is in the log. With a healthy provider
  and a reliable store she gets 201 and the new row refers to the container.
\<close>

theorem project_creation_is_two_phase_witness:
  "fst (handle (failing_store_env (provider_failing_from 2) 2) (Some ''alice'')
          (PostProjects (Some [(''title'', ''Science''), (''academicYear'', ''2025'')])) demo_world)
     = (500, ExnMessage StoreError)
   \<and> container_created (provider_failing_from 2 1)
   \<and> failing_outcome (provider_failing_from 2 2)
   \<and> projects (snd (handle (failing_store_env (provider_failing_from 2) 2) (Some ''alice'')
          (PostProjects (Some [(''title'', ''Science''), (''academicYear'', ''2025'')])) demo_world))
     = projects demo_world
   \<and> trace (snd (handle (failing_store_env (provider_failing_from 2) 2) (Some ''alice'')
          (PostProjects (Some [(''title'', ''Science''), (''academicYear'', ''2025'')])) demo_world))
     = [AboutReq ''ya29'', CreateFolderReq ''ya29'' ''Science - 2025'' None, DeleteReq ''ya29'' ''drive-new'']
   \<and> errlog (snd (handle (failing_store_env (provider_failing_from 2) 2) (Some ''alice'')
          (PostProjects (Some [(''title'', ''Science''), (''academicYear'', ''2025'')])) demo_world))
     = [(''Error creating project:'', StoreError),
        (''Database create error, cleaning up Drive folder:'', StoreError),
        (''Failed to cleanup Drive folder:'', DriveError ''Failed to delete file''),
        (''Create project error:'', StoreError)]
   \<and> (\<exists>rs0. two_phase_outcome (failing_store_env (provider_failing_from 2) 2) demo_world rs0
          (fst (handle (failing_store_env (provider_failing_from 2) 2) (Some ''alice'')
             (PostProjects (Some [(''title'', ''Science''), (''academicYear'', ''2025'')])) demo_world))
          (snd (handle (failing_store_env (provider_failing_from 2) 2) (Some ''alice'')
             (PostProjects (Some [(''title'', ''Science''), (''academicYear'', ''2025'')])) demo_world)))
   \<and> fst (fst (handle (demo_env healthy_provider (\<lambda>s. None)) (Some ''alice'')
          (PostProjects (Some [(''title'', ''Science''), (''academicYear'', ''2025'')])) demo_world))
     = 201
   \<and> root_refs (snd (handle (demo_env healthy_provider (\<lambda>s. None)) (Some ''alice'')
          (PostProjects (Some [(''title'', ''Science''), (''academicYear'', ''2025'')])) demo_world))
     = root_refs demo_world @ [(''p9'', Some ''drive-new'')]
   \<and> trace (snd (handle (demo_env healthy_provider (\<lambda>s. None)) (Some ''alice'')
          (PostProjects (Some [(''title'', ''Science''), (''academicYear'', ''2025'')])) demo_world))
     = [AboutReq ''ya29'', CreateFolderReq ''ya29'' ''Science - 2025'' None]"
proof -
  note t = project_creation_is_two_phase[of "failing_store_env (provider_failing_from 2) 2" demo_world
      "Some ''alice''" "Some [(''title'', ''Science''), (''academicYear'', ''2025'')]"]
  have a: "fst (handle (failing_store_env (provider_failing_from 2) 2) (Some ''alice'')
          (PostProjects (Some [(''title'', ''Science''), (''academicYear'', ''2025'')])) demo_world) = (500, ExnMessage StoreError)"
    "projects (snd (handle (failing_store_env (provider_failing_from 2) 2) (Some ''alice'')
          (PostProjects (Some [(''title'', ''Science''), (''academicYear'', ''2025'')])) demo_world)) = projects demo_world"
    "trace (snd (handle (failing_store_env (provider_failing_from 2) 2) (Some ''alice'')
          (PostProjects (Some [(''title'', ''Science''), (''academicYear'', ''2025'')])) demo_world))
       = [AboutReq ''ya29'', CreateFolderReq ''ya29'' ''Science - 2025'' None, DeleteReq ''ya29'' ''drive-new'']"
    "errlog (snd (handle (failing_store_env (provider_failing_from 2) 2) (Some ''alice'')
          (PostProjects (Some [(''title'', ''Science''), (''academicYear'', ''2025'')])) demo_world))
     = [(''Error creating project:'', StoreError),
        (''Database create error, cleaning up Drive folder:'', StoreError),
        (''Failed to cleanup Drive folder:'', DriveError ''Failed to delete file''),
        (''Create project error:'', StoreError)]"
    by (simp_all add: run_defs demo_defs)
  have b: "fst (fst (handle (demo_env healthy_provider (\<lambda>s. None)) (Some ''alice'')
          (PostProjects (Some [(''title'', ''Science''), (''academicYear'', ''2025'')])) demo_world))
     = 201"
   "root_refs (snd (handle (demo_env healthy_provider (\<lambda>s. None)) (Some ''alice'')
          (PostProjects (Some [(''title'', ''Science''), (''academicYear'', ''2025'')])) demo_world))
     = root_refs demo_world @ [(''p9'', Some ''drive-new'')]"
   "trace (snd (handle (demo_env healthy_provider (\<lambda>s. None)) (Some ''alice'')
          (PostProjects (Some [(''title'', ''Science''), (''academicYear'', ''2025'')])) demo_world))
     = [AboutReq ''ya29'', CreateFolderReq ''ya29'' ''Science - 2025'' None]"
    by (simp_all add: run_defs demo_defs root_refs_def Let_def)
  have c: "container_created (provider_failing_from 2 1)" "failing_outcome (provider_failing_from 2 2)"
    by (simp_all add: provider_failing_from_def response_ok_def)
  from t have "\<exists>rs0. two_phase_outcome (failing_store_env (provider_failing_from 2) 2) demo_world rs0
          (fst (handle (failing_store_env (provider_failing_from 2) 2) (Some ''alice'')
             (PostProjects (Some [(''title'', ''Science''), (''academicYear'', ''2025'')])) demo_world))
          (snd (handle (failing_store_env (provider_failing_from 2) 2) (Some ''alice'')
             (PostProjects (Some [(''title'', ''Science''), (''academicYear'', ''2025'')])) demo_world))"
    by blast
  then show ?thesis
    using a b c by (simp only: simp_thms)
qed

section \<open>The root storage reference of a project\<close>

text \<open>
  The table of projects is written by the five writing methods of the projects
  repository and by nothing else: the reads, the methods of the two other repositories,
  the credential step, the mirrored calls and the two loops of emptying the trash leave
  it as it is, whatever the store and the provider answer.
\<close>

lemma projects_kept:
  "projects (snd (storage_getProject e i w)) = projects w"
  "projects (snd (storage_getFolder e i w)) = projects w"
  "projects (snd (storage_getFile e i w)) = projects w"
  "projects (snd (storage_getProjects e u w)) = projects w"
  "projects (snd (storage_getDeletedProjects e u w)) = projects w"
  "projects (snd (storage_getDeletedFiles e i w)) = projects w"
  "projects (snd (storage_getDeletedFolders e i w)) = projects w"
  "projects (snd (storage_softDeleteFolder e i w)) = projects w"
  "projects (snd (storage_restoreFolder e i w)) = projects w"
  "projects (snd (storage_hardDeleteFolder e i w)) = projects w"
  "projects (snd (storage_deleteFile e i w)) = projects w"
  "projects (snd (storage_restoreFile e i w)) = projects w"
  "projects (snd (storage_hardDeleteFile e i w)) = projects w"
  by (simp_all add: storage_defs repository_defs io_defs case_prod_beta bool.case_eq_if)

lemma projects_mirror:
  "projects (mirror e u d googleDrive_trashFile m w) = projects w"
  "projects (mirror e u d googleDrive_untrashFile m w) = projects w"
  "projects (mirror e u d googleDrive_permanentDeleteFile m w) = projects w"
  by simp_all

lemma projects_purge_files: "projects (purge_files e tok fs w) = projects w"
  by (induction fs arbitrary: w) (simp_all add: projects_kept)

lemma projects_purge_folders: "projects (purge_folders e tok fs w) = projects w"
  by (induction fs arbitrary: w) (simp_all add: projects_kept)

lemma root_refs_project_writes:
  "map (\<lambda>p. (p_id p, p_root_drive_id p)) (projects (snd (storage_softDeleteProject e i u w)))
     = map (\<lambda>p. (p_id p, p_root_drive_id p)) (projects w)"
  "map (\<lambda>p. (p_id p, p_root_drive_id p)) (projects (snd (storage_restoreProject e i u w)))
     = map (\<lambda>p. (p_id p, p_root_drive_id p)) (projects w)"
  "up_root_drive_id updates = None \<Longrightarrow>
   map (\<lambda>p. (p_id p, p_root_drive_id p)) (projects (snd (storage_updateProject e i updates w)))
     = map (\<lambda>p. (p_id p, p_root_drive_id p)) (projects w)"
  by (simp_all add: storage_defs repository_defs io_defs case_prod_beta bool.case_eq_if
      apply_update_project_def Let_def)

lemma root_refs_hardDeleteProject:
  "subseq (map (\<lambda>p. (p_id p, p_root_drive_id p)) (projects (snd (storage_hardDeleteProject e i u w))))
     (map (\<lambda>p. (p_id p, p_root_drive_id p)) (projects w))"
  by (simp add: storage_defs repository_defs io_defs case_prod_beta bool.case_eq_if subseq_map)

lemmas root_refs_frame = projects_kept projects_mirror projects_purge_files projects_purge_folders
  root_refs_project_writes

lemma root_refs_api_delete_project: "root_refs (snd (api_delete_project e uid i w)) = root_refs w"
  by (simp add: api_delete_project_def root_refs_def case_prod_beta root_refs_frame split: option.splits sum.splits)

lemma root_refs_api_restore_project: "root_refs (snd (api_restore_project e uid i w)) = root_refs w"
  by (simp add: api_restore_project_def root_refs_def case_prod_beta root_refs_frame split: option.splits sum.splits)

lemma root_refs_api_delete_folder: "root_refs (snd (api_delete_folder e uid i w)) = root_refs w"
  by (simp add: api_delete_folder_def root_refs_def case_prod_beta root_refs_frame split: option.splits sum.splits)

lemma root_refs_api_restore_folder: "root_refs (snd (api_restore_folder e uid i w)) = root_refs w"
  by (simp add: api_restore_folder_def root_refs_def case_prod_beta root_refs_frame split: option.splits sum.splits)

lemma root_refs_api_permanent_delete_folder: "root_refs (snd (api_permanent_delete_folder e uid i w)) = root_refs w"
  by (simp add: api_permanent_delete_folder_def root_refs_def case_prod_beta root_refs_frame split: option.splits sum.splits)

lemma root_refs_api_delete_file: "root_refs (snd (api_delete_file e uid i w)) = root_refs w"
  by (simp add: api_delete_file_def root_refs_def case_prod_beta root_refs_frame split: option.splits sum.splits)

lemma root_refs_api_restore_file: "root_refs (snd (api_restore_file e uid i w)) = root_refs w"
  by (simp add: api_restore_file_def root_refs_def case_prod_beta root_refs_frame split: option.splits sum.splits)

lemma root_refs_api_permanent_delete_file: "root_refs (snd (api_permanent_delete_file e uid i w)) = root_refs w"
  by (simp add: api_permanent_delete_file_def root_refs_def case_prod_beta root_refs_frame split: option.splits sum.splits)

lemma root_refs_api_get_trash: "root_refs (snd (api_get_trash e uid i w)) = root_refs w"
  by (simp add: api_get_trash_def root_refs_def case_prod_beta root_refs_frame split: option.splits sum.splits)

lemma root_refs_api_empty_trash: "root_refs (snd (api_empty_trash e uid i w)) = root_refs w"
  by (simp add: api_empty_trash_def root_refs_def case_prod_beta root_refs_frame split: option.splits sum.splits)

lemma root_refs_api_patch_project:
  "root_refs (snd (api_patch_project e uid i body w)) = root_refs w"
  by (simp add: api_patch_project_def root_refs_def case_prod_beta Let_def root_refs_frame
      split: option.splits)

lemma root_refs_api_permanent_delete_project:
  "subseq (root_refs (snd (api_permanent_delete_project e uid i w))) (root_refs w)"
proof -
  have "subseq (root_refs (snd (storage_hardDeleteProject e i u w1))) (root_refs w)"
    if "projects w1 = projects w" for u w1
    using root_refs_hardDeleteProject[of e i u w1] that by (simp add: root_refs_def)
  then show ?thesis
    by (simp add: api_permanent_delete_project_def case_prod_beta root_refs_frame
        split: option.splits) (simp add: root_refs_def root_refs_frame)
qed

lemma root_refs_api_post_projects:
  "root_refs (snd (api_post_projects e uid body w)) = root_refs w
   \<or> (\<exists>ref. root_refs (snd (api_post_projects e uid body w)) = root_refs w @ [ref]
            \<and> fst ref \<notin> fst ` set (root_refs w))"
proof -
  let ?w' = "snd (api_post_projects e uid body w)"
  from api_post_projects_two_phase[of e w uid body]
  have "projects ?w' = projects w
        \<or> (\<exists>row. projects ?w' = projects w @ [row] \<and> p_id row \<notin> p_id ` set (projects w))"
    unfolding two_phase_outcome_def by blast
  then show ?thesis
  proof
    assume "projects ?w' = projects w"
    then show ?thesis by (simp add: root_refs_def)
  next
    assume "\<exists>row. projects ?w' = projects w @ [row] \<and> p_id row \<notin> p_id ` set (projects w)"
    then obtain row where r: "projects ?w' = projects w @ [row]" "p_id row \<notin> p_id ` set (projects w)"
      by blast
    have "root_refs ?w' = root_refs w @ [(p_id row, p_root_drive_id row)]"
      using r(1) by (simp add: root_refs_def)
    moreover have "fst (p_id row, p_root_drive_id row) \<notin> fst ` set (root_refs w)"
      using r(2) by (simp add: root_refs_def image_image)
    ultimately show ?thesis by blast
  qed
qed

lemma beside_patch_updateProject:
  assumes "up_description updates = None" "up_root_drive_id updates = None"
    "up_is_deleted updates = None" "up_deleted_at updates = None"
  shows "map beside_patch (projects (snd (storage_updateProject e i updates w)))
           = map beside_patch (projects w)"
  using assms
  by (simp add: storage_defs repository_defs io_defs case_prod_beta bool.case_eq_if
      apply_update_project_def Let_def beside_patch_def)

lemma beside_patch_api_patch_project:
  "map beside_patch (projects (snd (api_patch_project e uid i body w))) = map beside_patch (projects w)"
  by (simp add: api_patch_project_def case_prod_beta Let_def projects_kept beside_patch_updateProject
      split: option.splits)

text \<open>
  Claim C9. The root storage reference of a project is immutable. For every request,
  environment, caller and state, the list of the pairs of identifier and root reference
  after the request is a subsequence of the list before it (rows can leave, by the
  permanent deletion of a project, and no pair changes), or the request is the creation of
  a project and the list is the former list with one pair of a new identifier. And the
  update of a project writes the title, the status and the time of the update only: every
  other column of every row is as before, also when the body carries a
  \<^verbatim>\<open>root_drive_id\<close>.
\<close>

theorem root_drive_id_is_immutable:
  "(subseq (root_refs (snd (handle e uid rq w))) (root_refs w)
    \<or> (\<exists>body ref. rq = PostProjects body
          \<and> root_refs (snd (handle e uid rq w)) = root_refs w @ [ref]
          \<and> fst ref \<notin> fst ` set (root_refs w)))
   \<and> map beside_patch (projects (snd (handle e uid (PatchProject i body) w)))
       = map beside_patch (projects w)"
proof
  show "subseq (root_refs (snd (handle e uid rq w))) (root_refs w)
    \<or> (\<exists>body ref. rq = PostProjects body
          \<and> root_refs (snd (handle e uid rq w)) = root_refs w @ [ref]
          \<and> fst ref \<notin> fst ` set (root_refs w))"
  proof (cases rq)
    case (PostProjects b)
    with root_refs_api_post_projects[of e uid b w] show ?thesis by auto
  next
    case (PermanentDeleteProject j)
    with root_refs_api_permanent_delete_project[of e uid j w] show ?thesis by simp
  qed (simp_all add: root_refs_api_patch_project root_refs_api_delete_project
        root_refs_api_restore_project root_refs_api_delete_folder root_refs_api_restore_folder
        root_refs_api_permanent_delete_folder root_refs_api_delete_file root_refs_api_restore_file
        root_refs_api_permanent_delete_file root_refs_api_get_trash root_refs_api_empty_trash)
  show "map beside_patch (projects (snd (handle e uid (PatchProject i body) w)))
       = map beside_patch (projects w)"
    by (simp add: beside_patch_api_patch_project)
qed

text \<open>
  The instances: alice updates her project \<open>p1\<close> with a body that carries a title and
  a \<^verbatim>\<open>root_drive_id\<close>: the title is written and the reference stays; she deletes her
  project \<open>p2\<close> for good: the two other pairs stay.
\<close>

theorem root_drive_id_is_immutable_witness:
  "fst (handle (demo_env healthy_provider (\<lambda>s. None)) (Some ''alice'')
          (PatchProject ''p1'' (Some [(''title'', ''Science''), (''root_drive_id'', ''elsewhere'')])) demo_world)
     = (200, ProjectBody (Some ((demo_project ''p1'' ''alice'' False 10)
                                  \<lparr>p_title := ''Science'', p_updated_at := 5000\<rparr>)))
   \<and> root_refs (snd (handle (demo_env healthy_provider (\<lambda>s. None)) (Some ''alice'')
          (PatchProject ''p1'' (Some [(''title'', ''Science''), (''root_drive_id'', ''elsewhere'')])) demo_world))
     = [(''p1'', Some ''drive-p1''), (''p2'', Some ''drive-p2''), (''p3'', Some ''drive-p3'')]
   \<and> map beside_patch (projects (snd (handle (demo_env healthy_provider (\<lambda>s. None)) (Some ''alice'')
          (PatchProject ''p1'' (Some [(''title'', ''Science''), (''root_drive_id'', ''elsewhere'')])) demo_world)))
     = map beside_patch (projects demo_world)
   \<and> root_refs demo_world
     = [(''p1'', Some ''drive-p1''), (''p2'', Some ''drive-p2''), (''p3'', Some ''drive-p3'')]
   \<and> root_refs (snd (handle (demo_env healthy_provider (\<lambda>s. None)) (Some ''alice'')
          (PermanentDeleteProject ''p2'') demo_world))
     = [(''p1'', Some ''drive-p1''), (''p3'', Some ''drive-p3'')]
   \<and> subseq (root_refs (snd (handle (demo_env healthy_provider (\<lambda>s. None)) (Some ''alice'')
          (PermanentDeleteProject ''p2'') demo_world))) (root_refs demo_world)"
proof -
  note t = root_drive_id_is_immutable[of "demo_env healthy_provider (\<lambda>s. None)" "Some ''alice''"
      "PermanentDeleteProject ''p2''" demo_world "''p1''"
      "Some [(''title'', ''Science''), (''root_drive_id'', ''elsewhere'')]"]
  have a: "fst (handle (demo_env healthy_provider (\<lambda>s. None)) (Some ''alice'')
          (PatchProject ''p1'' (Some [(''title'', ''Science''), (''root_drive_id'', ''elsewhere'')])) demo_world)
     = (200, ProjectBody (Some ((demo_project ''p1'' ''alice'' False 10)
                                  \<lparr>p_title := ''Science'', p_updated_at := 5000\<rparr>)))"
    "root_refs (snd (handle (demo_env healthy_provider (\<lambda>s. None)) (Some ''alice'')
          (PatchProject ''p1'' (Some [(''title'', ''Science''), (''root_drive_id'', ''elsewhere'')])) demo_world))
     = [(''p1'', Some ''drive-p1''), (''p2'', Some ''drive-p2''), (''p3'', Some ''drive-p3'')]"
    "root_refs demo_world
     = [(''p1'', Some ''drive-p1''), (''p2'', Some ''drive-p2''), (''p3'', Some ''drive-p3'')]"
    "root_refs (snd (handle (demo_env healthy_provider (\<lambda>s. None)) (Some ''alice'')
          (PermanentDeleteProject ''p2'') demo_world))
     = [(''p1'', Some ''drive-p1''), (''p3'', Some ''drive-p3'')]"
    by (simp_all add: run_defs demo_defs root_refs_def Let_def apply_update_project_def)
  from t have "subseq (root_refs (snd (handle (demo_env healthy_provider (\<lambda>s. None)) (Some ''alice'')
          (PermanentDeleteProject ''p2'') demo_world))) (root_refs demo_world)"
    and "map beside_patch (projects (snd (handle (demo_env healthy_provider (\<lambda>s. None)) (Some ''alice'')
          (PatchProject ''p1'' (Some [(''title'', ''Science''), (''root_drive_id'', ''elsewhere'')])) demo_world)))
     = map beside_patch (projects demo_world)"
    by simp_all
  with a show ?thesis by (simp only: simp_thms)
qed

section \<open>A token that carries no expiry\<close>

lemma decodeJwt_empty [simp]: "decodeJwt e [] = None"
  by (simp add: decodeJwt_def)

text \<open>
  Claim C10, as stated, fails: the middleware takes the subject only when it is truthy. A
  token whose payload is \<^verbatim>\<open>{"sub":""}\<close> contains a subject and no expiry, and its
  caller is not authenticated: the request is answered 401.
\<close>

theorem token_without_expiry_is_accepted_counterexample:
  "decodeJwt (demo_env healthy_provider demo_decode) ''h.eyJzdWIiOiIifQ.s''
     = Some \<lparr>jwt_sub = Some [], jwt_exp = None, jwt_email = None\<rparr>
   \<and> fst (fst (auth_middleware (demo_env healthy_provider demo_decode) (Some ''h.eyJzdWIiOiIifQ.s'') None
                 demo_world)) = None
   \<and> fst (serve (demo_env healthy_provider demo_decode) (Some ''h.eyJzdWIiOiIifQ.s'') None
            (GetTrash ''p1'') demo_world) = (401, ErrorBody ''Unauthorized'')"
  by (simp add: auth_middleware_def decodeJwt_def demo_env_def demo_decode_def truthy_def js_string_def
      serve_def api_get_trash_def requireAuth_def)

text \<open>
  Claim C10, amended. For a request with an access token whose decoded payload contains
  a subject that is not empty and no expiry, and whose \<^verbatim>\<open>x-user-id\<close> header is absent,
  empty or equal to the subject, the middleware sets the user to the subject, whatever the
  clock reads: the expiry is compared with the clock only when the payload has one.
\<close>

theorem token_without_expiry_is_accepted:
  assumes "decodeJwt e tok = Some payload"
    and "jwt_sub payload = Some s" and "s \<noteq> []"
    and "jwt_exp payload = None"
    and "hdr = None \<or> hdr = Some [] \<or> hdr = Some s"
  shows "fst (fst (auth_middleware e (Some tok) hdr w)) = Some s
       \<and> requireAuth (fst (fst (auth_middleware e (Some tok) hdr w))) = Some s"
proof -
  have "tok \<noteq> []" using assms(1) by auto
  then show ?thesis
    using assms by (auto simp add: auth_middleware_def truthy_def js_string_def requireAuth_def
        read_clock_def Let_def)
qed

text \<open>
  The instance: a token with the payload \<^verbatim>\<open>{"sub":"alice"}\<close>, without the header and
  with the header of alice.
\<close>

theorem token_without_expiry_is_accepted_witness:
  "decodeJwt (demo_env healthy_provider demo_decode) ''h.eyJzdWIiOiJhbGljZSJ9.s''
     = Some \<lparr>jwt_sub = Some ''alice'', jwt_exp = None, jwt_email = None\<rparr>
   \<and> fst (fst (auth_middleware (demo_env healthy_provider demo_decode) (Some ''h.eyJzdWIiOiJhbGljZSJ9.s'') None
                 demo_world)) = Some ''alice''
   \<and> fst (fst (auth_middleware (demo_env healthy_provider demo_decode) (Some ''h.eyJzdWIiOiJhbGljZSJ9.s'')
                 (Some ''alice'') demo_world)) = Some ''alice''"
proof -
  have d: "decodeJwt (demo_env healthy_provider demo_decode) ''h.eyJzdWIiOiJhbGljZSJ9.s''
     = Some \<lparr>jwt_sub = Some ''alice'', jwt_exp = None, jwt_email = None\<rparr>"
    by (simp add: decodeJwt_def demo_env_def demo_decode_def)
  note t = token_without_expiry_is_accepted[OF d, of "''alice''" _ demo_world]
  from t[of None] t[of "Some ''alice''"] d show ?thesis by simp
qed

section \<open>The storage client takes 404 for success\<close>

lemma drive_void_call_result:
  "net e (length (trace w)) = Response s b \<Longrightarrow>
   (if response_ok s \<or> s = 404 then fst (drive_void_call e rq msg w) = Inr ()
    else isl (fst (drive_void_call e rq msg w)))"
  by (simp add: drive_void_call_def fetch_def split: http_body.splits)

text \<open>
  Claim C7. When the provider answers a trash, untrash, permanent-delete or delete request
  with a response of status \<open>s\<close>, the operation returns normally if the response is ok
  or \<open>s\<close> is 404, and throws otherwise: it throws exactly when the response is neither
  ok nor 404.
\<close>

theorem provider_404_is_success:
  assumes "net e (length (trace w)) = Response s b"
  shows "(if response_ok s \<or> s = 404 then fst (googleDrive_trashFile e tok i w) = Inr ()
          else isl (fst (googleDrive_trashFile e tok i w)))
       \<and> (if response_ok s \<or> s = 404 then fst (googleDrive_untrashFile e tok i w) = Inr ()
          else isl (fst (googleDrive_untrashFile e tok i w)))
       \<and> (if response_ok s \<or> s = 404 then fst (googleDrive_permanentDeleteFile e tok i w) = Inr ()
          else isl (fst (googleDrive_permanentDeleteFile e tok i w)))
       \<and> (if response_ok s \<or> s = 404 then fst (googleDrive_deleteFile e tok i w) = Inr ()
          else isl (fst (googleDrive_deleteFile e tok i w)))"
  unfolding googleDrive_trashFile_def googleDrive_untrashFile_def
    googleDrive_permanentDeleteFile_def googleDrive_deleteFile_def
  using drive_void_call_result[OF assms] by simp

text \<open>
  The instance: a provider that answers 404 to the requests for the drive object of file
  \<open>x1\<close>, and one that answers 500.
\<close>

theorem provider_404_is_success_witness:
  "fst (googleDrive_trashFile (demo_env (\<lambda>n. Response 404 NotJson) (\<lambda>s. None)) ''ya29'' ''drive-x1'' demo_world) = Inr ()
   \<and> fst (googleDrive_untrashFile (demo_env (\<lambda>n. Response 404 NotJson) (\<lambda>s. None)) ''ya29'' ''drive-x1'' demo_world) = Inr ()
   \<and> fst (googleDrive_permanentDeleteFile (demo_env (\<lambda>n. Response 404 NotJson) (\<lambda>s. None)) ''ya29'' ''drive-x1'' demo_world) = Inr ()
   \<and> fst (googleDrive_deleteFile (demo_env (\<lambda>n. Response 404 NotJson) (\<lambda>s. None)) ''ya29'' ''drive-x1'' demo_world) = Inr ()
   \<and> isl (fst (googleDrive_trashFile (demo_env (\<lambda>n. Response 500 NotJson) (\<lambda>s. None)) ''ya29'' ''drive-x1'' demo_world))
   \<and> isl (fst (googleDrive_deleteFile (demo_env (\<lambda>n. Response 500 NotJson) (\<lambda>s. None)) ''ya29'' ''drive-x1'' demo_world))"
  using provider_404_is_success[of "demo_env (\<lambda>n. Response 404 NotJson) (\<lambda>s. None)" demo_world 404 NotJson "''ya29''" "''drive-x1''"]
    provider_404_is_success[of "demo_env (\<lambda>n. Response 500 NotJson) (\<lambda>s. None)" demo_world 500 NotJson "''ya29''" "''drive-x1''"]
  by (simp add: demo_env_def response_ok_def)

end
